theory Spec2Isabelle
  imports Complex_Main "HOL-Library.Char_ord" "HOL-Library.List_Lexorder" "HOL-Library.AList"
begin

section \<open>Data model (sql/001\_schema.sql)\<close>

text \<open>
  The wallet service keeps all of its state in PostgreSQL. Each table is a list of rows;
  a row is a record with the columns the code reads or writes. UUIDs, asset codes and
  idempotency keys are strings, ordered by their bytes. JavaScript numbers that hold
  integers (amounts, balances) are mathematical integers here, which is exact below
  \<open>2^53\<close>; a number that may be fractional (the \<open>amount\<close> argument of the public
  operations) is a rational. Time is a number of milliseconds.
\<close>

type_synonym uuid = string
type_synonym timestamp = nat
type_synonym metadata = "(string \<times> string) list"

record asset_type =
  at_id :: nat
  at_code :: string
  at_name :: string
  at_is_active :: bool

record wallet =
  w_id :: uuid
  w_user_id :: uuid
  w_asset_type_id :: nat
  w_balance :: int
  w_allow_negative :: bool
  w_version :: int
  w_updated_at :: timestamp

datatype transaction_type = TOPUP | BONUS | PURCHASE

datatype transaction_status = PENDING | COMPLETED | FAILED | REVERSED

datatype entry_type = DEBIT | CREDIT

record transaction_row =
  t_id :: uuid
  t_idempotency_key :: "string option"
  t_transaction_type :: transaction_type
  t_status :: transaction_status
  t_source_wallet_id :: uuid
  t_dest_wallet_id :: uuid
  t_asset_type_id :: nat
  t_amount :: int
  t_description :: string
  t_metadata :: metadata
  t_created_at :: timestamp

record ledger_entry =
  le_transaction_id :: uuid
  le_wallet_id :: uuid
  le_entry_type :: entry_type
  le_amount :: int
  le_balance_before :: int
  le_balance_after :: int
  le_created_at :: timestamp

text \<open>The object \<open>executeTransfer\<close> returns; its JSON form is what the idempotency store keeps.\<close>

record wallet_delta =
  wd_id :: uuid
  wd_balanceBefore :: int
  wd_balanceAfter :: int

record transfer_result =
  r_transactionId :: uuid
  r_transactionType :: transaction_type
  r_sourceWallet :: wallet_delta
  r_destWallet :: wallet_delta
  r_amount :: int
  r_description :: string
  r_timestamp :: timestamp

record idempotency_record =
  ik_key :: string
  ik_response :: transfer_result
  ik_status_code :: nat
  ik_created_at :: timestamp
  ik_expires_at :: timestamp

text \<open>
  Every statement sent to the store is recorded, in order, next to the tables: the
  \<open>statements\<close> field is an observation of what the code did, not part of the database,
  and a rollback does not erase it.
\<close>

datatype statement =
    BEGIN
  | COMMIT
  | ROLLBACK
  | SELECT_wallet uuid string
  | SELECT_wallets_FOR_UPDATE "uuid list"
  | SELECT_idempotency_unexpired string
  | SELECT_idempotency string
  | INSERT_idempotency string
  | UPDATE_wallet uuid int
  | INSERT_transaction uuid
  | INSERT_ledger_entry uuid entry_type
  | SELECT_balances uuid "string option"
  | SELECT_history uuid "string option" int int

record db =
  asset_types :: "asset_type list"
  wallets :: "wallet list"
  transactions :: "transaction_row list"
  ledger_entries :: "ledger_entry list"
  idempotency_store :: "idempotency_record list"
  statements :: "statement list"

section \<open>Errors (src/utils/errors.js) and store errors\<close>

datatype app_error =
    ValidationError string
  | NotFoundError string string
  | InsufficientBalanceError uuid int int
  | DuplicateTransactionError string
  | ConcurrencyError string

text \<open>
  A failure is an application error, an error of the store (its SQLSTATE code and
  message), or the \<open>TypeError\<close> JavaScript raises on reading a property of \<open>undefined\<close>.
\<close>

datatype error =
    AppError app_error
  | PgError string string
  | TypeError string

fun show_nat :: "nat \<Rightarrow> string" where
  "show_nat n =
     (if n < 10 then [char_of (48 + n)]
      else show_nat (n div 10) @ [char_of (48 + n mod 10)])"

declare show_nat.simps [simp del]

definition show_int :: "int \<Rightarrow> string" where
  "show_int i = (if i < 0 then CHR ''-'' # show_nat (nat (- i)) else show_nat (nat i))"

fun err_statusCode :: "app_error \<Rightarrow> nat" where
  "err_statusCode (ValidationError _) = 400"
| "err_statusCode (NotFoundError _ _) = 404"
| "err_statusCode (InsufficientBalanceError _ _ _) = 422"
| "err_statusCode (DuplicateTransactionError _) = 409"
| "err_statusCode (ConcurrencyError _) = 409"

fun err_code :: "app_error \<Rightarrow> string" where
  "err_code (ValidationError _) = ''VALIDATION_ERROR''"
| "err_code (NotFoundError _ _) = ''NOT_FOUND''"
| "err_code (InsufficientBalanceError _ _ _) = ''INSUFFICIENT_BALANCE''"
| "err_code (DuplicateTransactionError _) = ''DUPLICATE_TRANSACTION''"
| "err_code (ConcurrencyError _) = ''CONCURRENCY_CONFLICT''"

fun err_message :: "app_error \<Rightarrow> string" where
  "err_message (ValidationError m) = m"
| "err_message (NotFoundError resource ident) = resource @ '' not found: '' @ ident"
| "err_message (InsufficientBalanceError walletId requested available) =
     ''Insufficient balance in wallet '' @ walletId @ '': requested '' @ show_int requested
       @ '', available '' @ show_int available"
| "err_message (DuplicateTransactionError k) =
     ''Transaction with idempotency key already processed: '' @ k"
| "err_message (ConcurrencyError m) = m"

section \<open>Asynchronous store operations\<close>

text \<open>
  An \<open>async\<close> function that talks to the store takes the store and returns its result or
  the error it threw, with the store as it left it. \<open>await m k\<close> is
  \<open>const x = await m; k x\<close>: an error of \<open>m\<close> propagates.
\<close>

type_synonym 'a io = "db \<Rightarrow> (error + 'a) \<times> db"

definition ret :: "'a \<Rightarrow> 'a io" where
  "ret x s = (Inr x, s)"

definition throw :: "error \<Rightarrow> 'a io" where
  "throw e s = (Inl e, s)"

definition await :: "'a io \<Rightarrow> ('a \<Rightarrow> 'b io) \<Rightarrow> 'b io" where
  "await m k s = (case m s of (Inl e, s') \<Rightarrow> (Inl e, s') | (Inr x, s') \<Rightarrow> k x s')"

definition log_statement :: "statement \<Rightarrow> db \<Rightarrow> db" where
  "log_statement q s = s\<lparr>statements := statements s @ [q]\<rparr>"

text \<open>\<open>client.query\<close> for a SELECT: the rows, computed from the tables.\<close>

definition query :: "statement \<Rightarrow> (db \<Rightarrow> 'a) \<Rightarrow> 'a io" where
  "query q rows s = (Inr (rows s), log_statement q s)"

text \<open>\<open>client.query\<close> for an INSERT or UPDATE: the new tables, or the store's error.\<close>

definition execute :: "statement \<Rightarrow> (db \<Rightarrow> error + db) \<Rightarrow> unit io" where
  "execute q change s =
     (case change s of
        Inl e \<Rightarrow> (Inl e, log_statement q s)
      | Inr s' \<Rightarrow> (Inr (), log_statement q s'))"

section \<open>Wallet lookup and locking (src/services/walletService.js)\<close>

definition SYSTEM_ACCOUNTS_TREASURY :: uuid where
  "SYSTEM_ACCOUNTS_TREASURY = ''00000000-0000-0000-0000-000000000001''"

definition SYSTEM_ACCOUNTS_REVENUE :: uuid where
  "SYSTEM_ACCOUNTS_REVENUE = ''00000000-0000-0000-0000-000000000002''"

text \<open>\<open>FROM wallets w JOIN asset_types at ON w.asset_type_id = at.id\<close>\<close>

definition wallets_join_asset_types :: "db \<Rightarrow> (wallet \<times> asset_type) list" where
  "wallets_join_asset_types s =
     concat (map (\<lambda>w. map (Pair w) (filter (\<lambda>a. w_asset_type_id w = at_id a) (asset_types s)))
       (wallets s))"

text \<open>
  \<open>SELECT w.id, w.user_id, w.balance, w.allow_negative, w.version, w.asset_type_id,
  at.code as asset_code\<close>
\<close>

record wallet_view =
  wv_id :: uuid
  wv_user_id :: uuid
  wv_balance :: int
  wv_allow_negative :: bool
  wv_version :: int
  wv_asset_type_id :: nat
  wv_asset_code :: string

definition wallet_columns :: "wallet \<times> asset_type \<Rightarrow> wallet_view" where
  "wallet_columns wa =
     \<lparr>wv_id = w_id (fst wa), wv_user_id = w_user_id (fst wa), wv_balance = w_balance (fst wa),
      wv_allow_negative = w_allow_negative (fst wa), wv_version = w_version (fst wa),
      wv_asset_type_id = w_asset_type_id (fst wa), wv_asset_code = at_code (snd wa)\<rparr>"

definition select_wallet :: "uuid \<Rightarrow> string \<Rightarrow> db \<Rightarrow> wallet_view list" where
  "select_wallet userId assetCode s =
     map wallet_columns
       (filter (\<lambda>wa. w_user_id (fst wa) = userId \<and> at_code (snd wa) = assetCode)
          (wallets_join_asset_types s))"

definition findWallet :: "uuid \<Rightarrow> string \<Rightarrow> wallet_view io" where
  "findWallet userId assetCode =
     await (query (SELECT_wallet userId assetCode) (select_wallet userId assetCode))
       (\<lambda>rows. case rows of
          [] \<Rightarrow> throw (AppError (NotFoundError ''Wallet''
                   (''user='' @ userId @ '', asset='' @ assetCode)))
        | row # _ \<Rightarrow> ret row)"

text \<open>\<open>WHERE w.id = ANY($1) ORDER BY w.id ASC FOR UPDATE\<close>\<close>

definition select_wallets_for_update :: "uuid list \<Rightarrow> db \<Rightarrow> wallet_view list" where
  "select_wallets_for_update ids s =
     sort_key wv_id
       (map wallet_columns
          (filter (\<lambda>wa. w_id (fst wa) \<in> set ids) (wallets_join_asset_types s)))"

fun join_strings :: "string \<Rightarrow> string list \<Rightarrow> string" where
  "join_strings sep [] = []"
| "join_strings sep [x] = x"
| "join_strings sep (x # y # ys) = x @ sep @ join_strings sep (y # ys)"

definition lockWalletsInOrder :: "uuid list \<Rightarrow> (uuid \<rightharpoonup> wallet_view) io" where
  "lockWalletsInOrder walletIds =
     (let sortedIds = sort walletIds in
      await (query (SELECT_wallets_FOR_UPDATE sortedIds) (select_wallets_for_update sortedIds))
        (\<lambda>rows.
           if length rows \<noteq> length walletIds
           then throw (AppError (NotFoundError ''Wallet''
                  (''One or more wallets not found in: '' @ join_strings '', '' walletIds)))
           else ret (fold (\<lambda>row walletMap. walletMap(wv_id row \<mapsto> row)) rows Map.empty)))"

section \<open>Idempotency store\<close>

text \<open>
  A \<open>VARCHAR(n)\<close> column takes a longer value only when the excess is spaces, which it
  cuts off; otherwise the statement fails with SQLSTATE 22001.
\<close>

definition varchar :: "nat \<Rightarrow> string \<Rightarrow> error + string" where
  "varchar n v =
     (if length v \<le> n then Inr v
      else if list_all (\<lambda>c. c = CHR '' '') (drop n v) then Inr (take n v)
      else Inl (PgError ''22001''
             (''value too long for type character varying('' @ show_nat n @ '')'')))"

record cached_response =
  c_response :: transfer_result
  c_status_code :: nat

text \<open>\<open>SELECT response, status_code FROM idempotency_store WHERE key = $1 AND expires_at > NOW()\<close>\<close>

definition select_idempotency_unexpired :: "timestamp \<Rightarrow> string \<Rightarrow> db \<Rightarrow> cached_response list" where
  "select_idempotency_unexpired now k s =
     map (\<lambda>r. \<lparr>c_response = ik_response r, c_status_code = ik_status_code r\<rparr>)
       (filter (\<lambda>r. ik_key r = k \<and> now < ik_expires_at r) (idempotency_store s))"

text \<open>\<open>if (!key) return null\<close>: an absent key and the empty string are both falsy.\<close>

definition checkIdempotencyKey :: "timestamp \<Rightarrow> string option \<Rightarrow> cached_response option io" where
  "checkIdempotencyKey now key =
     (case key of
        None \<Rightarrow> ret None
      | Some k \<Rightarrow>
          if k = [] then ret None
          else await (query (SELECT_idempotency_unexpired k) (select_idempotency_unexpired now k))
                 (\<lambda>rows. ret (case rows of [] \<Rightarrow> None | row # _ \<Rightarrow> Some row)))"

definition idempotency_ttl :: nat where
  "idempotency_ttl = 24 * 60 * 60 * 1000"

text \<open>
  \<open>INSERT INTO idempotency_store (key, response, status_code) VALUES ($1, $2, $3)
  ON CONFLICT (key) DO NOTHING\<close>, with the column defaults \<open>created_at = NOW()\<close> and
  \<open>expires_at = NOW() + INTERVAL '24 hours'\<close>.
\<close>

definition insert_idempotency ::
    "timestamp \<Rightarrow> string \<Rightarrow> transfer_result \<Rightarrow> nat \<Rightarrow> db \<Rightarrow> error + db" where
  "insert_idempotency now key response statusCode s =
     (case varchar 255 key of
        Inl e \<Rightarrow> Inl e
      | Inr k \<Rightarrow>
          if k \<in> set (map ik_key (idempotency_store s)) then Inr s
          else Inr (s\<lparr>idempotency_store := idempotency_store s @
                 [\<lparr>ik_key = k, ik_response = response, ik_status_code = statusCode,
                   ik_created_at = now, ik_expires_at = now + idempotency_ttl\<rparr>]\<rparr>))"

definition storeIdempotencyKey ::
    "timestamp \<Rightarrow> string option \<Rightarrow> transfer_result \<Rightarrow> nat \<Rightarrow> unit io" where
  "storeIdempotencyKey now key response statusCode =
     (case key of
        None \<Rightarrow> ret ()
      | Some k \<Rightarrow>
          if k = [] then ret ()
          else execute (INSERT_idempotency k) (insert_idempotency now k response statusCode))"

section \<open>The double-entry transfer\<close>

text \<open>
  \<open>UPDATE wallets SET balance = $1, version = version + 1 WHERE id = $2\<close>. The trigger
  \<open>trg_wallet_updated\<close> stamps the row, and the constraint \<open>chk_wallet_balance\<close>
  (\<open>allow_negative = TRUE OR balance >= 0\<close>) is checked on every row written.
\<close>

definition set_balance :: "timestamp \<Rightarrow> int \<Rightarrow> wallet \<Rightarrow> wallet" where
  "set_balance now newBalance w =
     w\<lparr>w_balance := newBalance, w_version := w_version w + 1, w_updated_at := now\<rparr>"

definition update_wallet :: "timestamp \<Rightarrow> int \<Rightarrow> uuid \<Rightarrow> db \<Rightarrow> error + db" where
  "update_wallet now newBalance walletId s =
     (if list_all (\<lambda>w. w_allow_negative w \<or> 0 \<le> w_balance w)
           (map (set_balance now newBalance) (filter (\<lambda>w. w_id w = walletId) (wallets s)))
      then Inr (s\<lparr>wallets :=
             map (\<lambda>w. if w_id w = walletId then set_balance now newBalance w else w)
               (wallets s)\<rparr>)
      else Inl (PgError ''23514''
             ''new row for relation wallets violates check constraint chk_wallet_balance''))"

text \<open>
  \<open>INSERT INTO transactions\<close>: the key must fit \<open>VARCHAR(255)\<close>, the amount must be
  positive (a CHECK), the id and a non-null idempotency key must be new (the primary key
  and the UNIQUE constraint), and the wallets and the asset type must exist (foreign keys).
\<close>

definition insert_transaction :: "transaction_row \<Rightarrow> db \<Rightarrow> error + db" where
  "insert_transaction t s =
     (case (case t_idempotency_key t of
              None \<Rightarrow> Inr None
            | Some k \<Rightarrow> (case varchar 255 k of Inl e \<Rightarrow> Inl e | Inr k' \<Rightarrow> Inr (Some k'))) of
        Inl e \<Rightarrow> Inl e
      | Inr key \<Rightarrow>
          if \<not> 0 < t_amount t
          then Inl (PgError ''23514''
                 ''new row for relation transactions violates check constraint transactions_amount_check'')
          else if t_id t \<in> set (map t_id (transactions s))
          then Inl (PgError ''23505''
                 ''duplicate key value violates unique constraint transactions_pkey'')
          else if key \<noteq> None \<and> key \<in> set (map t_idempotency_key (transactions s))
          then Inl (PgError ''23505''
                 ''duplicate key value violates unique constraint transactions_idempotency_key_key'')
          else if t_source_wallet_id t \<notin> set (map w_id (wallets s))
                  \<or> t_dest_wallet_id t \<notin> set (map w_id (wallets s))
                  \<or> t_asset_type_id t \<notin> set (map at_id (asset_types s))
          then Inl (PgError ''23503''
                 ''insert or update on table transactions violates foreign key constraint'')
          else Inr (s\<lparr>transactions := transactions s @ [t\<lparr>t_idempotency_key := key\<rparr>]\<rparr>))"

text \<open>\<open>INSERT INTO ledger_entries\<close>; the row id is generated by the store and not modelled.\<close>

definition insert_ledger_entry :: "ledger_entry \<Rightarrow> db \<Rightarrow> error + db" where
  "insert_ledger_entry e s =
     (if \<not> 0 < le_amount e
      then Inl (PgError ''23514''
             ''new row for relation ledger_entries violates check constraint ledger_entries_amount_check'')
      else if le_transaction_id e \<notin> set (map t_id (transactions s))
              \<or> le_wallet_id e \<notin> set (map w_id (wallets s))
      then Inl (PgError ''23503''
             ''insert or update on table ledger_entries violates foreign key constraint'')
      else Inr (s\<lparr>ledger_entries := ledger_entries s @ [e]\<rparr>))"

text \<open>
  What the code takes from outside: the clock (\<open>NOW()\<close> and \<open>new Date()\<close>) and the
  identifier \<open>uuidv4()\<close> returns.
\<close>

record env =
  env_now :: timestamp
  env_uuidv4 :: uuid

record transfer_args =
  tr_sourceWalletId :: uuid
  tr_destWalletId :: uuid
  tr_amount :: int
  tr_assetTypeId :: nat
  tr_transactionType :: transaction_type
  tr_description :: string
  tr_metadata :: metadata
  tr_idempotencyKey :: "string option"

text \<open>
  \<open>executeTransfer\<close>. Its callers have checked \<open>Number.isInteger(amount)\<close>, so the amount
  is an integer here. A wallet missing from the lock result is \<open>undefined\<close>, and reading
  its field raises a \<open>TypeError\<close>: for the source at the balance check, for the destination
  at \<open>parseInt(destWallet.balance)\<close>.
\<close>

definition executeTransfer :: "env \<Rightarrow> transfer_args \<Rightarrow> transfer_result io" where
  "executeTransfer e args =
     await (lockWalletsInOrder [tr_sourceWalletId args, tr_destWalletId args]) (\<lambda>wallets.
       case wallets (tr_sourceWalletId args) of
         None \<Rightarrow> throw (TypeError ''Cannot read properties of undefined (reading allow_negative)'')
       | Some sourceWallet \<Rightarrow>
           if \<not> wv_allow_negative sourceWallet \<and> wv_balance sourceWallet < tr_amount args
           then throw (AppError (InsufficientBalanceError (tr_sourceWalletId args)
                  (tr_amount args) (wv_balance sourceWallet)))
           else
             (case wallets (tr_destWalletId args) of
                None \<Rightarrow> throw (TypeError ''Cannot read properties of undefined (reading balance)'')
              | Some destWallet \<Rightarrow>
                  (let sourceBalanceBefore = wv_balance sourceWallet;
                       destBalanceBefore = wv_balance destWallet;
                       sourceBalanceAfter = sourceBalanceBefore - tr_amount args;
                       destBalanceAfter = destBalanceBefore + tr_amount args;
                       txnId = env_uuidv4 e
                   in
                   await (execute (UPDATE_wallet (tr_sourceWalletId args) sourceBalanceAfter)
                            (update_wallet (env_now e) sourceBalanceAfter (tr_sourceWalletId args)))
                     (\<lambda>_.
                   await (execute (UPDATE_wallet (tr_destWalletId args) destBalanceAfter)
                            (update_wallet (env_now e) destBalanceAfter (tr_destWalletId args)))
                     (\<lambda>_.
                   await (execute (INSERT_transaction txnId)
                            (insert_transaction
                               \<lparr>t_id = txnId, t_idempotency_key = tr_idempotencyKey args,
                                t_transaction_type = tr_transactionType args, t_status = COMPLETED,
                                t_source_wallet_id = tr_sourceWalletId args,
                                t_dest_wallet_id = tr_destWalletId args,
                                t_asset_type_id = tr_assetTypeId args, t_amount = tr_amount args,
                                t_description = tr_description args,
                                t_metadata = tr_metadata args, t_created_at = env_now e\<rparr>))
                     (\<lambda>_.
                   await (execute (INSERT_ledger_entry txnId DEBIT)
                            (insert_ledger_entry
                               \<lparr>le_transaction_id = txnId, le_wallet_id = tr_sourceWalletId args,
                                le_entry_type = DEBIT, le_amount = tr_amount args,
                                le_balance_before = sourceBalanceBefore,
                                le_balance_after = sourceBalanceAfter,
                                le_created_at = env_now e\<rparr>))
                     (\<lambda>_.
                   await (execute (INSERT_ledger_entry txnId CREDIT)
                            (insert_ledger_entry
                               \<lparr>le_transaction_id = txnId, le_wallet_id = tr_destWalletId args,
                                le_entry_type = CREDIT, le_amount = tr_amount args,
                                le_balance_before = destBalanceBefore,
                                le_balance_after = destBalanceAfter,
                                le_created_at = env_now e\<rparr>))
                     (\<lambda>_.
                   ret \<lparr>r_transactionId = txnId,
                        r_transactionType = tr_transactionType args,
                        r_sourceWallet = \<lparr>wd_id = tr_sourceWalletId args,
                          wd_balanceBefore = sourceBalanceBefore,
                          wd_balanceAfter = sourceBalanceAfter\<rparr>,
                        r_destWallet = \<lparr>wd_id = tr_destWalletId args,
                          wd_balanceBefore = destBalanceBefore,
                          wd_balanceAfter = destBalanceAfter\<rparr>,
                        r_amount = tr_amount args,
                        r_description = tr_description args,
                        r_timestamp = env_now e\<rparr>))))))))"

section \<open>Transactions (src/config/db.js)\<close>

text \<open>
  \<open>withTransaction\<close>: BEGIN, run the function, COMMIT; on any error ROLLBACK, which
  puts the tables back as they were at BEGIN, and rethrow.
\<close>

definition rollback :: "db \<Rightarrow> db \<Rightarrow> db" where
  "rollback s0 s = s0\<lparr>statements := statements s\<rparr>"

definition withTransaction :: "'a io \<Rightarrow> 'a io" where
  "withTransaction fn s0 =
     (case fn (log_statement BEGIN s0) of
        (Inr result, s) \<Rightarrow> (Inr result, log_statement COMMIT s)
      | (Inl e, s) \<Rightarrow> (Inl e, log_statement ROLLBACK (rollback s0 s)))"

section \<open>Public operations (src/services/walletService.js)\<close>

text \<open>\<open>Number.isInteger\<close> on a number.\<close>

definition isInteger :: "rat \<Rightarrow> bool" where
  "isInteger x = (of_int \<lfloor>x\<rfloor> = x)"

text \<open>\<open>description || fallback\<close>: an absent description and the empty string are falsy.\<close>

definition or_string :: "string option \<Rightarrow> string \<Rightarrow> string" where
  "or_string v fallback = (case v of None \<Rightarrow> fallback | Some x \<Rightarrow> if x = [] then fallback else x)"

text \<open>
  What an operation returns: the transfer's result, and \<open>idempotent: true\<close> when it is
  the cached response of an earlier call (\<open>{ ...cached.response, idempotent: true }\<close>).
\<close>

record op_result =
  payload :: transfer_result
  idempotent :: bool

definition topUp ::
    "env \<Rightarrow> string \<Rightarrow> string \<Rightarrow> rat \<Rightarrow> string option \<Rightarrow> string option \<Rightarrow> metadata \<Rightarrow> op_result io" where
  "topUp e userId assetCode amount idempotencyKey description metadata =
     (if userId = [] then throw (AppError (ValidationError ''userId is required''))
      else if assetCode = [] then throw (AppError (ValidationError ''assetCode is required''))
      else if \<not> isInteger amount \<or> amount \<le> 0
      then throw (AppError (ValidationError ''amount must be a positive integer''))
      else withTransaction
        (await (checkIdempotencyKey (env_now e) idempotencyKey) (\<lambda>cached.
           case cached of
             Some c \<Rightarrow> ret \<lparr>payload = c_response c, idempotent = True\<rparr>
           | None \<Rightarrow>
               await (findWallet userId assetCode) (\<lambda>userWallet.
               await (findWallet SYSTEM_ACCOUNTS_TREASURY assetCode) (\<lambda>treasuryWallet.
               await (executeTransfer e
                        \<lparr>tr_sourceWalletId = wv_id treasuryWallet,
                         tr_destWalletId = wv_id userWallet,
                         tr_amount = \<lfloor>amount\<rfloor>,
                         tr_assetTypeId = wv_asset_type_id userWallet,
                         tr_transactionType = TOPUP,
                         tr_description = or_string description
                           (''Top-up of '' @ show_int \<lfloor>amount\<rfloor> @ '' '' @ assetCode),
                         tr_metadata = AList.update ''paymentFlow'' ''topup'' metadata,
                         tr_idempotencyKey = idempotencyKey\<rparr>) (\<lambda>result.
               await (storeIdempotencyKey (env_now e) idempotencyKey result 200) (\<lambda>_.
               ret \<lparr>payload = result, idempotent = False\<rparr>)))))))"

definition issueBonus ::
    "env \<Rightarrow> string \<Rightarrow> string \<Rightarrow> rat \<Rightarrow> string option \<Rightarrow> string option \<Rightarrow> metadata \<Rightarrow> op_result io" where
  "issueBonus e userId assetCode amount idempotencyKey description metadata =
     (if userId = [] then throw (AppError (ValidationError ''userId is required''))
      else if assetCode = [] then throw (AppError (ValidationError ''assetCode is required''))
      else if \<not> isInteger amount \<or> amount \<le> 0
      then throw (AppError (ValidationError ''amount must be a positive integer''))
      else withTransaction
        (await (checkIdempotencyKey (env_now e) idempotencyKey) (\<lambda>cached.
           case cached of
             Some c \<Rightarrow> ret \<lparr>payload = c_response c, idempotent = True\<rparr>
           | None \<Rightarrow>
               await (findWallet userId assetCode) (\<lambda>userWallet.
               await (findWallet SYSTEM_ACCOUNTS_TREASURY assetCode) (\<lambda>treasuryWallet.
               await (executeTransfer e
                        \<lparr>tr_sourceWalletId = wv_id treasuryWallet,
                         tr_destWalletId = wv_id userWallet,
                         tr_amount = \<lfloor>amount\<rfloor>,
                         tr_assetTypeId = wv_asset_type_id userWallet,
                         tr_transactionType = BONUS,
                         tr_description = or_string description
                           (''Bonus of '' @ show_int \<lfloor>amount\<rfloor> @ '' '' @ assetCode),
                         tr_metadata = AList.update ''paymentFlow'' ''bonus'' metadata,
                         tr_idempotencyKey = idempotencyKey\<rparr>) (\<lambda>result.
               await (storeIdempotencyKey (env_now e) idempotencyKey result 200) (\<lambda>_.
               ret \<lparr>payload = result, idempotent = False\<rparr>)))))))"

definition purchase ::
    "env \<Rightarrow> string \<Rightarrow> string \<Rightarrow> rat \<Rightarrow> string option \<Rightarrow> string option \<Rightarrow> metadata \<Rightarrow> op_result io" where
  "purchase e userId assetCode amount idempotencyKey description metadata =
     (if userId = [] then throw (AppError (ValidationError ''userId is required''))
      else if assetCode = [] then throw (AppError (ValidationError ''assetCode is required''))
      else if \<not> isInteger amount \<or> amount \<le> 0
      then throw (AppError (ValidationError ''amount must be a positive integer''))
      else withTransaction
        (await (checkIdempotencyKey (env_now e) idempotencyKey) (\<lambda>cached.
           case cached of
             Some c \<Rightarrow> ret \<lparr>payload = c_response c, idempotent = True\<rparr>
           | None \<Rightarrow>
               await (findWallet userId assetCode) (\<lambda>userWallet.
               await (findWallet SYSTEM_ACCOUNTS_REVENUE assetCode) (\<lambda>revenueWallet.
               await (executeTransfer e
                        \<lparr>tr_sourceWalletId = wv_id userWallet,
                         tr_destWalletId = wv_id revenueWallet,
                         tr_amount = \<lfloor>amount\<rfloor>,
                         tr_assetTypeId = wv_asset_type_id userWallet,
                         tr_transactionType = PURCHASE,
                         tr_description = or_string description
                           (''Purchase of '' @ show_int \<lfloor>amount\<rfloor> @ '' '' @ assetCode),
                         tr_metadata = AList.update ''paymentFlow'' ''purchase'' metadata,
                         tr_idempotencyKey = idempotencyKey\<rparr>) (\<lambda>result.
               await (storeIdempotencyKey (env_now e) idempotencyKey result 200) (\<lambda>_.
               ret \<lparr>payload = result, idempotent = False\<rparr>)))))))"

subsection \<open>Balances\<close>

record balance_view =
  b_walletId :: uuid
  b_assetCode :: string
  b_assetName :: string
  b_balance :: int
  b_updatedAt :: timestamp

text \<open>
  \<open>WHERE w.user_id = $1 [AND at.code = $2] ORDER BY at.code\<close>; the second condition is
  there when \<open>assetCode\<close> is truthy.
\<close>

definition select_balances :: "uuid \<Rightarrow> string option \<Rightarrow> db \<Rightarrow> (wallet \<times> asset_type) list" where
  "select_balances userId assetCode s =
     sort_key (\<lambda>wa. at_code (snd wa))
       (filter (\<lambda>wa. w_user_id (fst wa) = userId
                  \<and> (case assetCode of None \<Rightarrow> True | Some c \<Rightarrow> at_code (snd wa) = c))
          (wallets_join_asset_types s))"

definition truthy_string :: "string option \<Rightarrow> string option" where
  "truthy_string v = (case v of None \<Rightarrow> None | Some x \<Rightarrow> if x = [] then None else Some x)"

definition getBalance :: "string \<Rightarrow> string option \<Rightarrow> balance_view list io" where
  "getBalance userId assetCode =
     (if userId = [] then throw (AppError (ValidationError ''userId is required''))
      else await (query (SELECT_balances userId (truthy_string assetCode))
                    (select_balances userId (truthy_string assetCode)))
             (\<lambda>rows.
                if length rows = 0 then throw (AppError (NotFoundError ''Wallet'' userId))
                else ret (map (\<lambda>row. \<lparr>b_walletId = w_id (fst row), b_assetCode = at_code (snd row),
                                        b_assetName = at_name (snd row),
                                        b_balance = w_balance (fst row),
                                        b_updatedAt = w_updated_at (fst row)\<rparr>) rows)))"

subsection \<open>Transaction history\<close>

record history_view =
  h_transactionId :: uuid
  h_type :: transaction_type
  h_status :: transaction_status
  h_entryType :: entry_type
  h_amount :: int
  h_assetCode :: string
  h_assetName :: string
  h_balanceBefore :: int
  h_balanceAfter :: int
  h_description :: string
  h_metadata :: metadata
  h_idempotencyKey :: "string option"
  h_createdAt :: timestamp

text \<open>
  \<open>FROM transactions t JOIN asset_types at ON t.asset_type_id = at.id
  JOIN ledger_entries le ON le.transaction_id = t.id JOIN wallets w ON le.wallet_id = w.id
  WHERE w.user_id = $1 [AND at.code = $2]\<close>
\<close>

definition history_join ::
    "uuid \<Rightarrow> string option \<Rightarrow> db \<Rightarrow> (transaction_row \<times> asset_type \<times> ledger_entry \<times> wallet) list" where
  "history_join userId assetCode s =
     [(t, a, l, w).
        t \<leftarrow> transactions s,
        a \<leftarrow> asset_types s, t_asset_type_id t = at_id a,
        l \<leftarrow> ledger_entries s, le_transaction_id l = t_id t,
        w \<leftarrow> wallets s, le_wallet_id l = w_id w,
        w_user_id w = userId \<and> (case assetCode of None \<Rightarrow> True | Some c \<Rightarrow> at_code a = c)]"

text \<open>
  \<open>ORDER BY t.created_at DESC LIMIT $n OFFSET $m\<close>. The store refuses a negative
  OFFSET (SQLSTATE 2201X) and a negative LIMIT (2201W).
\<close>

definition select_history ::
    "uuid \<Rightarrow> string option \<Rightarrow> int \<Rightarrow> int \<Rightarrow> db
      \<Rightarrow> error + (transaction_row \<times> asset_type \<times> ledger_entry \<times> wallet) list" where
  "select_history userId assetCode limit offset s =
     (if offset < 0 then Inl (PgError ''2201X'' ''OFFSET must not be negative'')
      else if limit < 0 then Inl (PgError ''2201W'' ''LIMIT must not be negative'')
      else Inr (take (nat limit) (drop (nat offset)
             (rev (sort_key (\<lambda>row. t_created_at (fst row)) (history_join userId assetCode s))))))"

definition query_fallible :: "statement \<Rightarrow> (db \<Rightarrow> error + 'a) \<Rightarrow> 'a io" where
  "query_fallible q rows s =
     (case rows s of Inl e \<Rightarrow> (Inl e, log_statement q s) | Inr r \<Rightarrow> (Inr r, log_statement q s))"

definition history_columns ::
    "transaction_row \<times> asset_type \<times> ledger_entry \<times> wallet \<Rightarrow> history_view" where
  "history_columns row =
     (case row of (t, a, l, w) \<Rightarrow>
        \<lparr>h_transactionId = t_id t, h_type = t_transaction_type t, h_status = t_status t,
         h_entryType = le_entry_type l, h_amount = t_amount t, h_assetCode = at_code a,
         h_assetName = at_name a, h_balanceBefore = le_balance_before l,
         h_balanceAfter = le_balance_after l, h_description = t_description t,
         h_metadata = t_metadata t, h_idempotencyKey = t_idempotency_key t,
         h_createdAt = t_created_at t\<rparr>)"

text \<open>
  \<open>getTransactions(userId, assetCode, { limit = 20, offset = 0 } = {})\<close>: an option left
  out (\<open>None\<close>) takes its default; the function itself does not bound either of them.
\<close>

definition getTransactions ::
    "string \<Rightarrow> string option \<Rightarrow> int option \<Rightarrow> int option \<Rightarrow> history_view list io" where
  "getTransactions userId assetCode limit offset =
     (if userId = [] then throw (AppError (ValidationError ''userId is required''))
      else
        (let limit' = (case limit of None \<Rightarrow> 20 | Some n \<Rightarrow> n);
             offset' = (case offset of None \<Rightarrow> 0 | Some n \<Rightarrow> n)
         in await (query_fallible
                     (SELECT_history userId (truthy_string assetCode) limit' offset')
                     (select_history userId (truthy_string assetCode) limit' offset'))
              (\<lambda>rows. ret (map history_columns rows))))"

section \<open>HTTP layer (src/middleware, src/routes/wallet.js)\<close>

text \<open>
  A JSON value as far as the idempotency key needs it: the middleware asks for its
  truthiness and its \<open>typeof\<close>. (Arrays, objects and fractional numbers are left out.)
\<close>

datatype jsval = JUndefined | JNull | JBool bool | JNumber int | JString string

fun truthy :: "jsval \<Rightarrow> bool" where
  "truthy JUndefined = False"
| "truthy JNull = False"
| "truthy (JBool b) = b"
| "truthy (JNumber n) = (n \<noteq> 0)"
| "truthy (JString v) = (v \<noteq> [])"

text \<open>The text the driver sends for a query parameter.\<close>

fun prepareValue :: "jsval \<Rightarrow> string" where
  "prepareValue (JString v) = v"
| "prepareValue (JNumber n) = show_int n"
| "prepareValue (JBool b) = (if b then ''true'' else ''false'')"
| "prepareValue JNull = []"
| "prepareValue JUndefined = []"

text \<open>
  The request: the header and body fields the handlers read, the route and query
  parameters, and \<open>req.idempotencyKey\<close>, which the middleware sets. The body's
  \<open>userId\<close>, \<open>assetCode\<close> and \<open>amount\<close> have the types the routes document
  (string, string, number). \<open>query_limit\<close> and \<open>query_offset\<close> are
  \<open>parseInt(req.query.limit)\<close> and \<open>parseInt(req.query.offset)\<close>, with \<open>None\<close> for NaN.
\<close>

record request =
  headers_idempotency_key :: "string option"
  body_idempotencyKey :: jsval
  body_userId :: string
  body_assetCode :: string
  body_amount :: rat
  body_description :: "string option"
  body_metadata :: metadata
  params_userId :: string
  query_assetCode :: "string option"
  query_limit :: "int option"
  query_offset :: "int option"
  req_idempotencyKey :: "string option"

record error_body =
  e_code :: string
  e_message :: string
  e_walletId :: "uuid option"
  e_requested :: "int option"
  e_available :: "int option"
  e_retryable :: bool

datatype response_data =
    TransferData op_result
  | ReplayData transfer_result
  | TransactionsData string "history_view list" int int nat

text \<open>\<open>res.status(n).json({ success, data | error, note })\<close>\<close>

datatype response =
    Success nat response_data "string option"
  | Failure nat error_body

datatype 'a handled = Responded response | Next 'a

definition plain_error :: "string \<Rightarrow> string \<Rightarrow> error_body" where
  "plain_error c m =
     \<lparr>e_code = c, e_message = m, e_walletId = None, e_requested = None, e_available = None,
      e_retryable = False\<rparr>"

text \<open>\<open>req.headers['idempotency-key'] || req.body?.idempotencyKey\<close>\<close>

definition header_or_body_key :: "request \<Rightarrow> jsval" where
  "header_or_body_key req =
     (case headers_idempotency_key req of
        None \<Rightarrow> body_idempotencyKey req
      | Some h \<Rightarrow> if h = [] then body_idempotencyKey req else JString h)"

definition idempotencyMiddleware :: "request \<Rightarrow> request handled" where
  "idempotencyMiddleware req =
     (let idempotencyKey = header_or_body_key req in
      if truthy idempotencyKey
      then (case idempotencyKey of
              JString k \<Rightarrow>
                if length k > 255
                then Responded (Failure 400 (plain_error ''VALIDATION_ERROR''
                       ''Idempotency-Key must be a string with max 255 characters''))
                else Next (req\<lparr>req_idempotencyKey := Some k\<rparr>)
            | _ \<Rightarrow> Responded (Failure 400 (plain_error ''VALIDATION_ERROR''
                       ''Idempotency-Key must be a string with max 255 characters'')))
      else Next req)"

subsection \<open>The error handler\<close>

text \<open>The fields only an \<open>InsufficientBalanceError\<close> has; \<open>None\<close> is \<open>undefined\<close>.\<close>

fun err_walletId :: "app_error \<Rightarrow> uuid option" where
  "err_walletId (InsufficientBalanceError walletId _ _) = Some walletId"
| "err_walletId _ = None"

fun err_requested :: "app_error \<Rightarrow> int option" where
  "err_requested (InsufficientBalanceError _ requested _) = Some requested"
| "err_requested _ = None"

fun err_available :: "app_error \<Rightarrow> int option" where
  "err_available (InsufficientBalanceError _ _ available) = Some available"
| "err_available _ = None"

text \<open>\<open>err.code\<close> and \<open>err.message\<close> of an error that is not an \<open>AppError\<close>.\<close>

fun raw_code :: "error \<Rightarrow> string option" where
  "raw_code (PgError c _) = Some c"
| "raw_code (TypeError _) = None"
| "raw_code (AppError a) = Some (err_code a)"

fun raw_message :: "error \<Rightarrow> string" where
  "raw_message (PgError _ m) = m"
| "raw_message (TypeError m) = m"
| "raw_message (AppError a) = err_message a"

text \<open>\<open>SELECT response, status_code FROM idempotency_store WHERE key = $1\<close>\<close>

definition select_idempotency :: "string \<Rightarrow> db \<Rightarrow> cached_response list" where
  "select_idempotency k s =
     map (\<lambda>r. \<lparr>c_response = ik_response r, c_status_code = ik_status_code r\<rparr>)
       (filter (\<lambda>r. ik_key r = k) (idempotency_store s))"

definition duplicate_transaction :: response where
  "duplicate_transaction =
     Failure 409 (plain_error ''DUPLICATE_TRANSACTION''
       ''This transaction has already been processed'')"

text \<open>\<open>req.idempotencyKey || req.body?.idempotencyKey\<close>\<close>

definition request_or_body_key :: "request \<Rightarrow> jsval" where
  "request_or_body_key req =
     (case req_idempotencyKey req of
        None \<Rightarrow> body_idempotencyKey req
      | Some k \<Rightarrow> if k = [] then body_idempotencyKey req else JString k)"

text \<open>
  \<open>errorHandler\<close>; \<open>production\<close> is \<open>process.env.NODE_ENV === 'production'\<close>. The
  lookup after a unique violation is a promise: a row gives the replay, no row gives the
  409, and so does a lookup that fails (\<open>.catch\<close>).
\<close>

definition errorHandler :: "bool \<Rightarrow> error \<Rightarrow> request \<Rightarrow> db \<Rightarrow> response \<times> db" where
  "errorHandler production err req s =
     (case err of
        AppError a \<Rightarrow>
          (Failure (err_statusCode a)
             \<lparr>e_code = err_code a, e_message = err_message a,
              e_walletId = (case err_walletId a of
                              None \<Rightarrow> None
                            | Some v \<Rightarrow> if v = [] then None else Some v),
              e_requested = (case err_requested a of
                               None \<Rightarrow> None
                             | Some n \<Rightarrow> if n = 0 then None else Some n),
              e_available = err_available a,
              e_retryable = False\<rparr>, s)
      | _ \<Rightarrow>
          if raw_code err = Some ''23505''
          then (let idempotencyKey = request_or_body_key req in
                if truthy idempotencyKey
                then (case query (SELECT_idempotency (prepareValue idempotencyKey))
                             (select_idempotency (prepareValue idempotencyKey)) s of
                        (Inr rows, s') \<Rightarrow>
                          (case rows of
                             row # _ \<Rightarrow>
                               (Success 200 (ReplayData (c_response row))
                                  (Some ''Idempotent replay - original response returned''), s')
                           | [] \<Rightarrow> (duplicate_transaction, s'))
                      | (Inl _, s') \<Rightarrow> (duplicate_transaction, s'))
                else (duplicate_transaction, s))
          else if raw_code err = Some ''23514''
          then (Failure 422 (plain_error ''CONSTRAINT_VIOLATION''
                  ''Transaction would violate balance constraints''), s)
          else if raw_code err = Some ''40P01''
          then (Failure 503 ((plain_error ''DEADLOCK_DETECTED''
                  ''Temporary conflict detected, please retry the request'')
                  \<lparr>e_retryable := True\<rparr>), s)
          else if raw_code err = Some ''40001''
          then (Failure 503 ((plain_error ''SERIALIZATION_FAILURE''
                  ''Concurrent modification detected, please retry'')
                  \<lparr>e_retryable := True\<rparr>), s)
          else (Failure 500 (plain_error ''INTERNAL_ERROR''
                  (if production then ''An internal error occurred'' else raw_message err)), s))"

subsection \<open>Routes\<close>

text \<open>
  A POST handler: call the operation with the body's fields and \<open>req.idempotencyKey\<close>;
  answer 200 for a replay and 201 otherwise; hand any error to the error handler.
\<close>

definition respond_transfer ::
    "bool \<Rightarrow> request \<Rightarrow> (error + op_result) \<times> db \<Rightarrow> response \<times> db" where
  "respond_transfer production req outcome =
     (case outcome of
        (Inr result, s) \<Rightarrow>
          (Success (if idempotent result then 200 else 201) (TransferData result)
             (if idempotent result
              then Some ''Idempotent replay - original response returned'' else None), s)
      | (Inl error, s) \<Rightarrow> errorHandler production error req s)"

definition route_topup :: "bool \<Rightarrow> env \<Rightarrow> request \<Rightarrow> db \<Rightarrow> response \<times> db" where
  "route_topup production e req s =
     respond_transfer production req
       (topUp e (body_userId req) (body_assetCode req) (body_amount req)
          (req_idempotencyKey req) (body_description req) (body_metadata req) s)"

definition route_bonus :: "bool \<Rightarrow> env \<Rightarrow> request \<Rightarrow> db \<Rightarrow> response \<times> db" where
  "route_bonus production e req s =
     respond_transfer production req
       (issueBonus e (body_userId req) (body_assetCode req) (body_amount req)
          (req_idempotencyKey req) (body_description req) (body_metadata req) s)"

definition route_purchase :: "bool \<Rightarrow> env \<Rightarrow> request \<Rightarrow> db \<Rightarrow> response \<times> db" where
  "route_purchase production e req s =
     respond_transfer production req
       (purchase e (body_userId req) (body_assetCode req) (body_amount req)
          (req_idempotencyKey req) (body_description req) (body_metadata req) s)"

text \<open>\<open>parseInt(x) || fallback\<close>: NaN and 0 are falsy.\<close>

definition or_number :: "int option \<Rightarrow> int \<Rightarrow> int" where
  "or_number v fallback = (case v of None \<Rightarrow> fallback | Some n \<Rightarrow> if n = 0 then fallback else n)"

definition route_limit :: "request \<Rightarrow> int" where
  "route_limit req = min (or_number (query_limit req) 20) 100"

definition route_offset :: "request \<Rightarrow> int" where
  "route_offset req = or_number (query_offset req) 0"

definition route_transactions :: "bool \<Rightarrow> request \<Rightarrow> db \<Rightarrow> response \<times> db" where
  "route_transactions production req s =
     (let userId = params_userId req;
          assetCode = query_assetCode req;
          limit = route_limit req;
          offset = route_offset req
      in case getTransactions userId assetCode (Some limit) (Some offset) s of
           (Inr history, s') \<Rightarrow>
             (Success 200 (TransactionsData userId history limit offset (length history))
                None, s')
         | (Inl error, s') \<Rightarrow> errorHandler production error req s')"

text \<open>\<open>router.use(idempotencyMiddleware)\<close>: every route of the router runs behind it.\<close>

definition router_use ::
    "(request \<Rightarrow> db \<Rightarrow> response \<times> db) \<Rightarrow> request \<Rightarrow> db \<Rightarrow> response \<times> db" where
  "router_use route req s =
     (case idempotencyMiddleware req of
        Responded r \<Rightarrow> (r, s)
      | Next req' \<Rightarrow> route req' s)"

definition post_wallets_topup :: "bool \<Rightarrow> env \<Rightarrow> request \<Rightarrow> db \<Rightarrow> response \<times> db" where
  "post_wallets_topup production e = router_use (route_topup production e)"

definition post_wallets_bonus :: "bool \<Rightarrow> env \<Rightarrow> request \<Rightarrow> db \<Rightarrow> response \<times> db" where
  "post_wallets_bonus production e = router_use (route_bonus production e)"

definition post_wallets_purchase :: "bool \<Rightarrow> env \<Rightarrow> request \<Rightarrow> db \<Rightarrow> response \<times> db" where
  "post_wallets_purchase production e = router_use (route_purchase production e)"

definition get_wallets_transactions :: "bool \<Rightarrow> request \<Rightarrow> db \<Rightarrow> response \<times> db" where
  "get_wallets_transactions production = router_use (route_transactions production)"


section \<open>Schema constraints and example data\<close>

text \<open>
  The primary keys of \<open>wallets\<close> and \<open>asset_types\<close> (sql/001\_schema.sql): no two rows
  of a table share an id.
\<close>

definition primary_keys :: "db \<Rightarrow> bool" where
  "primary_keys s = (distinct (map w_id (wallets s)) \<and> distinct (map at_id (asset_types s)))"

text \<open>
  Part of the seed data (sql/002\_seed.sql, with the balances of the combined seed file):
  the three asset types, the Treasury and Revenue wallets for gold and diamonds, Alice's
  gold and diamonds and Bob's diamonds.
\<close>

definition seed_db :: db where
  "seed_db =
     \<lparr>asset_types =
        [\<lparr>at_id = 1, at_code = ''GOLD_COINS'', at_name = ''Gold Coins'', at_is_active = True\<rparr>,
         \<lparr>at_id = 2, at_code = ''DIAMONDS'', at_name = ''Diamonds'', at_is_active = True\<rparr>,
         \<lparr>at_id = 3, at_code = ''LOYALTY_POINTS'', at_name = ''Loyalty Points'',
          at_is_active = True\<rparr>],
      wallets =
        [\<lparr>w_id = ''10000000-0000-0000-0000-000000000001'',
          w_user_id = ''00000000-0000-0000-0000-000000000001'', w_asset_type_id = 1,
          w_balance = - 3750, w_allow_negative = True, w_version = 1, w_updated_at = 0\<rparr>,
         \<lparr>w_id = ''10000000-0000-0000-0000-000000000002'',
          w_user_id = ''00000000-0000-0000-0000-000000000001'', w_asset_type_id = 2,
          w_balance = - 175, w_allow_negative = True, w_version = 1, w_updated_at = 0\<rparr>,
         \<lparr>w_id = ''20000000-0000-0000-0000-000000000001'',
          w_user_id = ''00000000-0000-0000-0000-000000000002'', w_asset_type_id = 1,
          w_balance = 0, w_allow_negative = True, w_version = 1, w_updated_at = 0\<rparr>,
         \<lparr>w_id = ''20000000-0000-0000-0000-000000000002'',
          w_user_id = ''00000000-0000-0000-0000-000000000002'', w_asset_type_id = 2,
          w_balance = 0, w_allow_negative = True, w_version = 1, w_updated_at = 0\<rparr>,
         \<lparr>w_id = ''a1000000-0000-0000-0000-000000000001'',
          w_user_id = ''a0000000-0000-0000-0000-000000000001'', w_asset_type_id = 1,
          w_balance = 1000, w_allow_negative = False, w_version = 1, w_updated_at = 0\<rparr>,
         \<lparr>w_id = ''a1000000-0000-0000-0000-000000000002'',
          w_user_id = ''a0000000-0000-0000-0000-000000000001'', w_asset_type_id = 2,
          w_balance = 50, w_allow_negative = False, w_version = 1, w_updated_at = 0\<rparr>,
         \<lparr>w_id = ''b1000000-0000-0000-0000-000000000002'',
          w_user_id = ''a0000000-0000-0000-0000-000000000002'', w_asset_type_id = 2,
          w_balance = 25, w_allow_negative = False, w_version = 1, w_updated_at = 0\<rparr>],
      transactions = [],
      ledger_entries = [],
      idempotency_store = [],
      statements = []\<rparr>"

definition alice :: uuid where
  "alice = ''a0000000-0000-0000-0000-000000000001''"

definition bob :: uuid where
  "bob = ''a0000000-0000-0000-0000-000000000002''"

definition alice_gold :: uuid where
  "alice_gold = ''a1000000-0000-0000-0000-000000000001''"

definition bob_diamonds :: uuid where
  "bob_diamonds = ''b1000000-0000-0000-0000-000000000002''"

definition treasury_gold :: uuid where
  "treasury_gold = ''10000000-0000-0000-0000-000000000001''"

definition revenue_diamonds :: uuid where
  "revenue_diamonds = ''20000000-0000-0000-0000-000000000002''"

text \<open>What the tables say: a wallet's balance and asset type, and the total over an asset type.\<close>

definition wallet_balance :: "db \<Rightarrow> uuid \<Rightarrow> int option" where
  "wallet_balance s walletId = map_option w_balance (find (\<lambda>w. w_id w = walletId) (wallets s))"

definition wallet_asset :: "db \<Rightarrow> uuid \<Rightarrow> nat option" where
  "wallet_asset s walletId =
     map_option w_asset_type_id (find (\<lambda>w. w_id w = walletId) (wallets s))"

definition total_balance :: "db \<Rightarrow> nat \<Rightarrow> int" where
  "total_balance s assetTypeId =
     sum_list (map w_balance (filter (\<lambda>w. w_asset_type_id w = assetTypeId) (wallets s)))"

text \<open>
  Scenario S1 of the specification: a top-up of 500 gold coins to Alice, as the transfer
  \<open>topUp\<close> asks for.
\<close>

definition seed_env :: env where
  "seed_env = \<lparr>env_now = 1000, env_uuidv4 = ''f47ac10b-58cc-4372-a567-0e02b2c3d479''\<rparr>"

definition s1_transfer :: transfer_args where
  "s1_transfer =
     \<lparr>tr_sourceWalletId = treasury_gold, tr_destWalletId = alice_gold, tr_amount = 500,
      tr_assetTypeId = 1, tr_transactionType = TOPUP, tr_description = ''buy'',
      tr_metadata = [(''paymentFlow'', ''topup'')], tr_idempotencyKey = Some ''k1''\<rparr>"

text \<open>
  The three public operations are one flow with different arguments. \<open>invalid_input\<close>
  is the message of the first failing check, \<open>transfer_flow\<close> is what runs inside
  \<open>withTransaction\<close>, and \<open>topUp_args\<close>, \<open>issueBonus_args\<close> and \<open>purchase_args\<close> are
  the transfers the operations ask for, given the user's wallet and the system wallet.
  The lemmas \<open>topUp_flow\<close>, \<open>issueBonus_flow\<close> and \<open>purchase_flow\<close> below show that the
  operations are these.
\<close>

definition invalid_input :: "string \<Rightarrow> string \<Rightarrow> rat \<Rightarrow> string option" where
  "invalid_input userId assetCode amount =
     (if userId = [] then Some ''userId is required''
      else if assetCode = [] then Some ''assetCode is required''
      else if \<not> isInteger amount \<or> amount \<le> 0 then Some ''amount must be a positive integer''
      else None)"

definition transfer_flow ::
    "env \<Rightarrow> string \<Rightarrow> string \<Rightarrow> uuid \<Rightarrow> string option
      \<Rightarrow> (wallet_view \<Rightarrow> wallet_view \<Rightarrow> transfer_args) \<Rightarrow> op_result io" where
  "transfer_flow e userId assetCode systemAccount idempotencyKey args =
     withTransaction
       (await (checkIdempotencyKey (env_now e) idempotencyKey) (\<lambda>cached.
          case cached of
            Some c \<Rightarrow> ret \<lparr>payload = c_response c, idempotent = True\<rparr>
          | None \<Rightarrow>
              await (findWallet userId assetCode) (\<lambda>userWallet.
              await (findWallet systemAccount assetCode) (\<lambda>systemWallet.
              await (executeTransfer e (args userWallet systemWallet)) (\<lambda>result.
              await (storeIdempotencyKey (env_now e) idempotencyKey result 200) (\<lambda>_.
              ret \<lparr>payload = result, idempotent = False\<rparr>))))))"

definition topUp_args ::
    "string \<Rightarrow> rat \<Rightarrow> string option \<Rightarrow> string option \<Rightarrow> metadata
      \<Rightarrow> wallet_view \<Rightarrow> wallet_view \<Rightarrow> transfer_args" where
  "topUp_args assetCode amount idempotencyKey description metadata userWallet treasuryWallet =
     \<lparr>tr_sourceWalletId = wv_id treasuryWallet,
      tr_destWalletId = wv_id userWallet,
      tr_amount = \<lfloor>amount\<rfloor>,
      tr_assetTypeId = wv_asset_type_id userWallet,
      tr_transactionType = TOPUP,
      tr_description = or_string description
        (''Top-up of '' @ show_int \<lfloor>amount\<rfloor> @ '' '' @ assetCode),
      tr_metadata = AList.update ''paymentFlow'' ''topup'' metadata,
      tr_idempotencyKey = idempotencyKey\<rparr>"

definition issueBonus_args ::
    "string \<Rightarrow> rat \<Rightarrow> string option \<Rightarrow> string option \<Rightarrow> metadata
      \<Rightarrow> wallet_view \<Rightarrow> wallet_view \<Rightarrow> transfer_args" where
  "issueBonus_args assetCode amount idempotencyKey description metadata userWallet treasuryWallet =
     \<lparr>tr_sourceWalletId = wv_id treasuryWallet,
      tr_destWalletId = wv_id userWallet,
      tr_amount = \<lfloor>amount\<rfloor>,
      tr_assetTypeId = wv_asset_type_id userWallet,
      tr_transactionType = BONUS,
      tr_description = or_string description
        (''Bonus of '' @ show_int \<lfloor>amount\<rfloor> @ '' '' @ assetCode),
      tr_metadata = AList.update ''paymentFlow'' ''bonus'' metadata,
      tr_idempotencyKey = idempotencyKey\<rparr>"

definition purchase_args ::
    "string \<Rightarrow> rat \<Rightarrow> string option \<Rightarrow> string option \<Rightarrow> metadata
      \<Rightarrow> wallet_view \<Rightarrow> wallet_view \<Rightarrow> transfer_args" where
  "purchase_args assetCode amount idempotencyKey description metadata userWallet revenueWallet =
     \<lparr>tr_sourceWalletId = wv_id userWallet,
      tr_destWalletId = wv_id revenueWallet,
      tr_amount = \<lfloor>amount\<rfloor>,
      tr_assetTypeId = wv_asset_type_id userWallet,
      tr_transactionType = PURCHASE,
      tr_description = or_string description
        (''Purchase of '' @ show_int \<lfloor>amount\<rfloor> @ '' '' @ assetCode),
      tr_metadata = AList.update ''paymentFlow'' ''purchase'' metadata,
      tr_idempotencyKey = idempotencyKey\<rparr>"

text \<open>The result is a \<open>ValidationError\<close>.\<close>

definition is_validation_error :: "error + 'a \<Rightarrow> bool" where
  "is_validation_error r =
     (case r of Inl (AppError (ValidationError _)) \<Rightarrow> True | _ \<Rightarrow> False)"

text \<open>The tables of two stores are the same (the recorded statements may differ).\<close>

definition same_tables :: "db \<Rightarrow> db \<Rightarrow> bool" where
  "same_tables s s' =
     (asset_types s' = asset_types s \<and> wallets s' = wallets s
      \<and> transactions s' = transactions s \<and> ledger_entries s' = ledger_entries s
      \<and> idempotency_store s' = idempotency_store s)"

text \<open>
  What scenario S1 returns, and the tables after it: the two gold balances moved, the
  transaction row, its two ledger entries, and the cached response under the key \<open>k1\<close>.
\<close>

definition s1_result :: transfer_result where
  "s1_result =
     \<lparr>r_transactionId = ''f47ac10b-58cc-4372-a567-0e02b2c3d479'',
      r_transactionType = TOPUP,
      r_sourceWallet = \<lparr>wd_id = ''10000000-0000-0000-0000-000000000001'',
        wd_balanceBefore = - 3750, wd_balanceAfter = - 4250\<rparr>,
      r_destWallet = \<lparr>wd_id = ''a1000000-0000-0000-0000-000000000001'',
        wd_balanceBefore = 1000, wd_balanceAfter = 1500\<rparr>,
      r_amount = 500, r_description = ''buy'', r_timestamp = 1000\<rparr>"

definition after_s1_db :: db where
  "after_s1_db =
     \<lparr>asset_types =
        [\<lparr>at_id = 1, at_code = ''GOLD_COINS'', at_name = ''Gold Coins'', at_is_active = True\<rparr>,
         \<lparr>at_id = 2, at_code = ''DIAMONDS'', at_name = ''Diamonds'', at_is_active = True\<rparr>,
         \<lparr>at_id = 3, at_code = ''LOYALTY_POINTS'', at_name = ''Loyalty Points'',
          at_is_active = True\<rparr>],
      wallets =
        [\<lparr>w_id = ''10000000-0000-0000-0000-000000000001'',
          w_user_id = ''00000000-0000-0000-0000-000000000001'', w_asset_type_id = 1,
          w_balance = - 4250, w_allow_negative = True, w_version = 2, w_updated_at = 1000\<rparr>,
         \<lparr>w_id = ''10000000-0000-0000-0000-000000000002'',
          w_user_id = ''00000000-0000-0000-0000-000000000001'', w_asset_type_id = 2,
          w_balance = - 175, w_allow_negative = True, w_version = 1, w_updated_at = 0\<rparr>,
         \<lparr>w_id = ''20000000-0000-0000-0000-000000000001'',
          w_user_id = ''00000000-0000-0000-0000-000000000002'', w_asset_type_id = 1,
          w_balance = 0, w_allow_negative = True, w_version = 1, w_updated_at = 0\<rparr>,
         \<lparr>w_id = ''20000000-0000-0000-0000-000000000002'',
          w_user_id = ''00000000-0000-0000-0000-000000000002'', w_asset_type_id = 2,
          w_balance = 0, w_allow_negative = True, w_version = 1, w_updated_at = 0\<rparr>,
         \<lparr>w_id = ''a1000000-0000-0000-0000-000000000001'',
          w_user_id = ''a0000000-0000-0000-0000-000000000001'', w_asset_type_id = 1,
          w_balance = 1500, w_allow_negative = False, w_version = 2, w_updated_at = 1000\<rparr>,
         \<lparr>w_id = ''a1000000-0000-0000-0000-000000000002'',
          w_user_id = ''a0000000-0000-0000-0000-000000000001'', w_asset_type_id = 2,
          w_balance = 50, w_allow_negative = False, w_version = 1, w_updated_at = 0\<rparr>,
         \<lparr>w_id = ''b1000000-0000-0000-0000-000000000002'',
          w_user_id = ''a0000000-0000-0000-0000-000000000002'', w_asset_type_id = 2,
          w_balance = 25, w_allow_negative = False, w_version = 1, w_updated_at = 0\<rparr>],
      transactions =
        [\<lparr>t_id = ''f47ac10b-58cc-4372-a567-0e02b2c3d479'', t_idempotency_key = Some ''k1'',
          t_transaction_type = TOPUP, t_status = COMPLETED,
          t_source_wallet_id = ''10000000-0000-0000-0000-000000000001'',
          t_dest_wallet_id = ''a1000000-0000-0000-0000-000000000001'',
          t_asset_type_id = 1, t_amount = 500, t_description = ''buy'',
          t_metadata = [(''paymentFlow'', ''topup'')], t_created_at = 1000\<rparr>],
      ledger_entries =
        [\<lparr>le_transaction_id = ''f47ac10b-58cc-4372-a567-0e02b2c3d479'',
          le_wallet_id = ''10000000-0000-0000-0000-000000000001'', le_entry_type = DEBIT,
          le_amount = 500, le_balance_before = - 3750, le_balance_after = - 4250,
          le_created_at = 1000\<rparr>,
         \<lparr>le_transaction_id = ''f47ac10b-58cc-4372-a567-0e02b2c3d479'',
          le_wallet_id = ''a1000000-0000-0000-0000-000000000001'', le_entry_type = CREDIT,
          le_amount = 500, le_balance_before = 1000, le_balance_after = 1500,
          le_created_at = 1000\<rparr>],
      idempotency_store =
        [\<lparr>ik_key = ''k1'', ik_response = s1_result, ik_status_code = 200,
          ik_created_at = 1000, ik_expires_at = 86401000\<rparr>],
      statements = []\<rparr>"

text \<open>
  A transfer from an account's wallet to another account's wallet was recorded between
  two stores: the two wallets are rows of \<open>wallets\<close> joined with \<open>asset_types\<close>, owned
  by the two accounts, with the asset code asked for; one transaction row of the given
  kind and amount from the first to the second was appended, with a DEBIT ledger entry
  on the first and a CREDIT entry on the second; and the result names the same wallets.
\<close>

definition transfer_recorded ::
    "db \<Rightarrow> db \<Rightarrow> transfer_result \<Rightarrow> uuid \<Rightarrow> uuid \<Rightarrow> string \<Rightarrow> transaction_type \<Rightarrow> int \<Rightarrow> bool" where
  "transfer_recorded s s' result sourceAccount destAccount assetCode kind amount =
     (\<exists>sourceWallet destWallet t debit credit.
        sourceWallet \<in> set (map wallet_columns (wallets_join_asset_types s))
      \<and> wv_user_id sourceWallet = sourceAccount \<and> wv_asset_code sourceWallet = assetCode
      \<and> destWallet \<in> set (map wallet_columns (wallets_join_asset_types s))
      \<and> wv_user_id destWallet = destAccount \<and> wv_asset_code destWallet = assetCode
      \<and> transactions s' = transactions s @ [t]
      \<and> t_source_wallet_id t = wv_id sourceWallet \<and> t_dest_wallet_id t = wv_id destWallet
      \<and> t_transaction_type t = kind \<and> t_status t = COMPLETED \<and> t_amount t = amount
      \<and> ledger_entries s' = ledger_entries s @ [debit, credit]
      \<and> le_entry_type debit = DEBIT \<and> le_wallet_id debit = wv_id sourceWallet
      \<and> le_amount debit = amount \<and> le_transaction_id debit = t_id t
      \<and> le_entry_type credit = CREDIT \<and> le_wallet_id credit = wv_id destWallet
      \<and> le_amount credit = amount \<and> le_transaction_id credit = t_id t
      \<and> r_transactionId result = t_id t \<and> r_transactionType result = kind
      \<and> r_amount result = amount
      \<and> wd_id (r_sourceWallet result) = wv_id sourceWallet
      \<and> wd_id (r_destWallet result) = wv_id destWallet)"

text \<open>
  Requests for the examples: a top-up of 500 gold coins to Alice with the key \<open>k1\<close> in
  the header, and a later moment (after the cached response of scenario S1 has expired)
  with a different fresh transaction id.
\<close>

definition s1_request :: request where
  "s1_request =
     \<lparr>headers_idempotency_key = Some ''k1'', body_idempotencyKey = JUndefined,
      body_userId = ''a0000000-0000-0000-0000-000000000001'', body_assetCode = ''GOLD_COINS'',
      body_amount = 500, body_description = Some ''buy'', body_metadata = [],
      params_userId = [], query_assetCode = None, query_limit = None, query_offset = None,
      req_idempotencyKey = None\<rparr>"

definition next_day_env :: env where
  "next_day_env = \<lparr>env_now = 90000000, env_uuidv4 = ''0e02b2c3-58cc-4372-a567-f47ac10bd479''\<rparr>"

text \<open>
  The wallets a user holds, each with its asset type, read off the two tables; the view
  \<open>getBalance\<close> gives of such a pair; and the foreign key of \<open>wallets.asset_type_id\<close>.
\<close>

definition user_wallets :: "db \<Rightarrow> uuid \<Rightarrow> (wallet \<times> asset_type) list" where
  "user_wallets s userId =
     [(w, a). w \<leftarrow> wallets s, a \<leftarrow> asset_types s, w_asset_type_id w = at_id a,
              w_user_id w = userId]"

definition balance_of :: "wallet \<times> asset_type \<Rightarrow> balance_view" where
  "balance_of wa =
     \<lparr>b_walletId = w_id (fst wa), b_assetCode = at_code (snd wa), b_assetName = at_name (snd wa),
      b_balance = w_balance (fst wa), b_updatedAt = w_updated_at (fst wa)\<rparr>"

definition asset_type_fk :: "db \<Rightarrow> bool" where
  "asset_type_fk s =
     (\<forall>w \<in> set (wallets s). \<exists>a \<in> set (asset_types s). at_id a = w_asset_type_id w)"

text \<open>
  A request for Alice's history, to be given a \<open>limit\<close> and an \<open>offset\<close>; and the order
  ``newest first'' on the rows of a history.
\<close>

definition history_request :: request where
  "history_request =
     \<lparr>headers_idempotency_key = None, body_idempotencyKey = JUndefined,
      body_userId = [], body_assetCode = [], body_amount = 0, body_description = None,
      body_metadata = [], params_userId = ''a0000000-0000-0000-0000-000000000001'',
      query_assetCode = None, query_limit = None, query_offset = None,
      req_idempotencyKey = None\<rparr>"

definition newest_first :: "history_view list \<Rightarrow> bool" where
  "newest_first rows = sorted_wrt (\<lambda>earlier later. h_createdAt later \<le> h_createdAt earlier) rows"

text \<open>
  The store a day after scenario S1, once Alice has spent 200 of her gold coins.
\<close>

definition after_purchase_db :: db where
  "after_purchase_db =
     snd (purchase next_day_env ''a0000000-0000-0000-0000-000000000001'' ''GOLD_COINS'' 200
            None (Some ''sword'') [] after_s1_db)"

text \<open>The two rows of Alice's history in that store.\<close>

definition alice_purchase_row :: history_view where
  "alice_purchase_row =
     \<lparr>h_transactionId = ''0e02b2c3-58cc-4372-a567-f47ac10bd479'', h_type = PURCHASE,
      h_status = COMPLETED, h_entryType = DEBIT, h_amount = 200, h_assetCode = ''GOLD_COINS'',
      h_assetName = ''Gold Coins'', h_balanceBefore = 1500, h_balanceAfter = 1300,
      h_description = ''sword'', h_metadata = [(''paymentFlow'', ''purchase'')],
      h_idempotencyKey = None, h_createdAt = 90000000\<rparr>"

definition alice_topup_row :: history_view where
  "alice_topup_row =
     \<lparr>h_transactionId = ''f47ac10b-58cc-4372-a567-0e02b2c3d479'', h_type = TOPUP,
      h_status = COMPLETED, h_entryType = CREDIT, h_amount = 500, h_assetCode = ''GOLD_COINS'',
      h_assetName = ''Gold Coins'', h_balanceBefore = 1000, h_balanceAfter = 1500,
      h_description = ''buy'', h_metadata = [(''paymentFlow'', ''topup'')],
      h_idempotencyKey = Some ''k1'', h_createdAt = 1000\<rparr>"

text \<open>
  Keys of 255 and of 256 characters, and the answers that report a validation error
  (status 400 with the code \<open>VALIDATION_ERROR\<close>).
\<close>

definition key_255 :: string where
  "key_255 = replicate 255 (CHR ''k'')"

definition key_256 :: string where
  "key_256 = replicate 256 (CHR ''k'')"

definition is_validation_response :: "response \<Rightarrow> bool" where
  "is_validation_response r =
     (case r of
        Failure status body \<Rightarrow> status = 400 \<and> e_code body = ''VALIDATION_ERROR''
      | Success _ _ _ \<Rightarrow> False)"

section \<open>Properties\<close>

subsection \<open>Running store operations\<close>

lemma ret_apply [simp]: "ret x s = (Inr x, s)"
  by (simp add: ret_def)

lemma throw_apply [simp]: "throw e s = (Inl e, s)"
  by (simp add: throw_def)

lemma await_Inr: "m s = (Inr x, s1) \<Longrightarrow> await m k s = k x s1"
  by (simp add: await_def)

lemma await_Inl: "m s = (Inl e, s1) \<Longrightarrow> await m k s = (Inl e, s1)"
  by (simp add: await_def)

lemma await_eq_Inr_iff:
  "await m k s = (Inr y, s') \<longleftrightarrow> (\<exists>x s1. m s = (Inr x, s1) \<and> k x s1 = (Inr y, s'))"
  by (auto simp: await_def split: prod.splits sum.splits)

lemma query_apply [simp]: "query q rows s = (Inr (rows s), log_statement q s)"
  by (simp add: query_def)

lemma execute_eq_Inr_iff:
  "execute q change s = (Inr u, s') \<longleftrightarrow> (\<exists>s1. change s = Inr s1 \<and> s' = log_statement q s1)"
  by (auto simp: execute_def split: sum.splits)

lemma execute_Inr: "change s = Inr s1 \<Longrightarrow> execute q change s = (Inr (), log_statement q s1)"
  by (simp add: execute_def)

lemma execute_Inl: "change s = Inl e \<Longrightarrow> execute q change s = (Inl e, log_statement q s)"
  by (simp add: execute_def)

text \<open>Logging a statement leaves every table as it is.\<close>

lemma log_statement_tables [simp]:
  "asset_types (log_statement q s) = asset_types s"
  "wallets (log_statement q s) = wallets s"
  "transactions (log_statement q s) = transactions s"
  "ledger_entries (log_statement q s) = ledger_entries s"
  "idempotency_store (log_statement q s) = idempotency_store s"
  "statements (log_statement q s) = statements s @ [q]"
  by (simp_all add: log_statement_def)

lemma join_log [simp]:
  "wallets_join_asset_types (log_statement q s) = wallets_join_asset_types s"
  by (simp add: wallets_join_asset_types_def)

lemma select_log [simp]:
  "select_wallet u c (log_statement q s) = select_wallet u c s"
  "select_wallets_for_update ids (log_statement q s) = select_wallets_for_update ids s"
  "select_idempotency_unexpired now k (log_statement q s) = select_idempotency_unexpired now k s"
  "select_idempotency k (log_statement q s) = select_idempotency k s"
  "select_balances u oc (log_statement q s) = select_balances u oc s"
  by (simp_all add: select_wallet_def select_wallets_for_update_def
        select_idempotency_unexpired_def select_idempotency_def select_balances_def)

lemma findWallet_eq:
  "findWallet userId assetCode s =
     (case select_wallet userId assetCode s of
        [] \<Rightarrow> (Inl (AppError (NotFoundError ''Wallet''
                 (''user='' @ userId @ '', asset='' @ assetCode))),
               log_statement (SELECT_wallet userId assetCode) s)
      | row # _ \<Rightarrow> (Inr row, log_statement (SELECT_wallet userId assetCode) s))"
  by (simp add: findWallet_def await_def split: list.splits)

lemma checkIdempotencyKey_eq:
  "checkIdempotencyKey now key s =
     (case key of
        None \<Rightarrow> (Inr None, s)
      | Some k \<Rightarrow>
          if k = [] then (Inr None, s)
          else (Inr (case select_idempotency_unexpired now k s of
                       [] \<Rightarrow> None | row # _ \<Rightarrow> Some row),
                log_statement (SELECT_idempotency_unexpired k) s))"
  by (simp add: checkIdempotencyKey_def await_def split: option.splits)

lemma set_balance_fields [simp]:
  "w_id (set_balance now b w) = w_id w"
  "w_user_id (set_balance now b w) = w_user_id w"
  "w_asset_type_id (set_balance now b w) = w_asset_type_id w"
  "w_allow_negative (set_balance now b w) = w_allow_negative w"
  "w_balance (set_balance now b w) = b"
  by (simp_all add: set_balance_def)

lemma update_wallet_eq_Inr_iff:
  "update_wallet now b wid s = Inr s' \<longleftrightarrow>
     list_all (\<lambda>w. w_allow_negative w \<or> 0 \<le> b) (filter (\<lambda>w. w_id w = wid) (wallets s))
     \<and> s' = s\<lparr>wallets := map (\<lambda>w. if w_id w = wid then set_balance now b w else w) (wallets s)\<rparr>"
  by (auto simp: update_wallet_def list_all_iff)

lemma insert_transaction_eq_Inr_iff:
  "insert_transaction t s = Inr s' \<longleftrightarrow>
     (\<exists>key. (case t_idempotency_key t of None \<Rightarrow> Inr None
              | Some k \<Rightarrow> (case varchar 255 k of Inl e \<Rightarrow> Inl e | Inr k' \<Rightarrow> Inr (Some k'))) = Inr key
        \<and> 0 < t_amount t
        \<and> t_id t \<notin> set (map t_id (transactions s))
        \<and> (key = None \<or> key \<notin> set (map t_idempotency_key (transactions s)))
        \<and> t_source_wallet_id t \<in> set (map w_id (wallets s))
        \<and> t_dest_wallet_id t \<in> set (map w_id (wallets s))
        \<and> t_asset_type_id t \<in> set (map at_id (asset_types s))
        \<and> s' = s\<lparr>transactions := transactions s @ [t\<lparr>t_idempotency_key := key\<rparr>]\<rparr>)"
  by (auto simp: insert_transaction_def split: sum.splits option.splits)

lemma insert_ledger_entry_eq_Inr_iff:
  "insert_ledger_entry e s = Inr s' \<longleftrightarrow>
     0 < le_amount e
     \<and> le_transaction_id e \<in> set (map t_id (transactions s))
     \<and> le_wallet_id e \<in> set (map w_id (wallets s))
     \<and> s' = s\<lparr>ledger_entries := ledger_entries s @ [e]\<rparr>"
  by (auto simp: insert_ledger_entry_def)

subsection \<open>Locking wallets in id order\<close>

lemma filter_key_le_one:
  "distinct (map f xs) \<Longrightarrow> length (filter (\<lambda>x. k = f x) xs) \<le> 1"
  by (induction xs) (auto simp: image_iff)

lemma join_ids_subset:
  "set (map (w_id \<circ> fst) (concat (map (\<lambda>w. map (Pair w) (filter (P w) as)) ws))) \<subseteq> set (map w_id ws)"
  by (induction ws) auto

lemma join_row_ids:
  "length xs \<le> 1 \<Longrightarrow>
   map (w_id \<circ> fst) (map (Pair w) xs) = [] \<or> map (w_id \<circ> fst) (map (Pair w) xs) = [w_id w]"
  by (cases xs) auto

lemma distinct_join_ids:
  assumes "distinct (map w_id ws)" and "\<And>w. length (filter (P w) as) \<le> 1"
  shows "distinct (map (w_id \<circ> fst) (concat (map (\<lambda>w. map (Pair w) (filter (P w) as)) ws)))"
  using assms(1)
proof (induction ws)
  case Nil
  then show ?case by simp
next
  case (Cons w ws)
  have sub: "set (map (w_id \<circ> fst) (concat (map (\<lambda>w. map (Pair w) (filter (P w) as)) ws))) \<subseteq> set (map w_id ws)"
    by (rule join_ids_subset)
  from join_row_ids[OF assms(2)[of w], of w] Cons sub show ?case
    by (auto simp del: map_map simp: image_iff subset_iff) 
qed

lemma distinct_wallets_join:
  "primary_keys s \<Longrightarrow> distinct (map (w_id \<circ> fst) (wallets_join_asset_types s))"
  unfolding wallets_join_asset_types_def primary_keys_def
  by (rule distinct_join_ids) (use filter_key_le_one in auto)

lemma wv_id_wallet_columns: "wv_id \<circ> wallet_columns = w_id \<circ> fst"
  by (auto simp: wallet_columns_def)

lemma distinct_map_sort_key:
  "distinct (map f xs) \<Longrightarrow> distinct (map f (sort_key g xs))"
  by (simp add: distinct_map)

lemma distinct_locked_ids:
  assumes "primary_keys s"
  shows "distinct (map wv_id (select_wallets_for_update ids s))"
proof -
  have "distinct (map (w_id \<circ> fst) (filter (\<lambda>wa. w_id (fst wa) \<in> set ids) (wallets_join_asset_types s)))"
    using distinct_wallets_join[OF assms] by (rule distinct_map_filter)
  then have "distinct (map wv_id (map wallet_columns (filter (\<lambda>wa. w_id (fst wa) \<in> set ids) (wallets_join_asset_types s))))"
    by (simp add: wv_id_wallet_columns)
  then show ?thesis
    unfolding select_wallets_for_update_def by (rule distinct_map_sort_key)
qed

lemma locked_ids_subset:
  "set (map wv_id (select_wallets_for_update ids s)) \<subseteq> set ids"
  by (auto simp: select_wallets_for_update_def wallet_columns_def)

lemma sorted_locked_ids: "sorted (map wv_id (select_wallets_for_update ids s))"
  by (simp add: select_wallets_for_update_def)

lemma locked_length_le:
  assumes "primary_keys s"
  shows "length (select_wallets_for_update ids s) \<le> card (set ids)"
proof -
  have "length (select_wallets_for_update ids s) = card (set (map wv_id (select_wallets_for_update ids s)))"
    using distinct_locked_ids[OF assms, of ids] by (metis distinct_card length_map)
  also have "\<dots> \<le> card (set ids)"
    by (rule card_mono) (use locked_ids_subset in auto)
  finally show ?thesis .
qed

lemma find_snoc:
  "find P (xs @ [x]) = (case find P xs of None \<Rightarrow> (if P x then Some x else None) | Some y \<Rightarrow> Some y)"
  by (induction xs) auto

lemma fold_wallet_map:
  "fold (\<lambda>row walletMap. walletMap(wv_id row \<mapsto> row)) rows m k =
     (case find (\<lambda>r. wv_id r = k) (rev rows) of None \<Rightarrow> m k | Some r \<Rightarrow> Some r)"
  by (induction rows arbitrary: m) (auto simp: find_snoc split: option.splits)

lemma lockWalletsInOrder_eq:
  "lockWalletsInOrder walletIds s =
     (if length (select_wallets_for_update (sort walletIds) s) \<noteq> length walletIds
      then (Inl (AppError (NotFoundError ''Wallet''
              (''One or more wallets not found in: '' @ join_strings '', '' walletIds))),
            log_statement (SELECT_wallets_FOR_UPDATE (sort walletIds)) s)
      else (Inr (fold (\<lambda>row walletMap. walletMap(wv_id row \<mapsto> row))
                  (select_wallets_for_update (sort walletIds) s) Map.empty),
            log_statement (SELECT_wallets_FOR_UPDATE (sort walletIds)) s))"
  by (simp add: lockWalletsInOrder_def await_def query_def throw_def ret_def Let_def)

lemma locked_ids_set:
  "set (map wv_id (select_wallets_for_update ids s)) =
     set ids \<inter> set (map (w_id \<circ> fst) (wallets_join_asset_types s))"
proof -
  have "wv_id ` wallet_columns ` {wa \<in> set (wallets_join_asset_types s). w_id (fst wa) \<in> set ids}
          = set ids \<inter> (w_id \<circ> fst) ` set (wallets_join_asset_types s)"
    by (force simp: wallet_columns_def image_iff)
  then show ?thesis
    by (simp add: select_wallets_for_update_def)
qed

lemma locked_all_iff:
  assumes "primary_keys s"
  shows "length (select_wallets_for_update (sort walletIds) s) = length walletIds \<longleftrightarrow>
           distinct walletIds \<and> set walletIds \<subseteq> set (map (w_id \<circ> fst) (wallets_join_asset_types s))"
    (is "?L \<longleftrightarrow> ?R")
proof -
  let ?rows = "select_wallets_for_update (sort walletIds) s"
  let ?J = "set (map (w_id \<circ> fst) (wallets_join_asset_types s))"
  have ids: "set (map wv_id ?rows) = set walletIds \<inter> ?J"
    by (simp only: locked_ids_set set_sort)
  have len: "length ?rows = card (set walletIds \<inter> ?J)"
    using distinct_locked_ids[OF assms, of "sort walletIds"] ids
    by (metis distinct_card length_map)
  show ?thesis
  proof
    assume ?L
    have "card (set walletIds \<inter> ?J) \<le> card (set walletIds)"
      by (rule card_mono) auto
    moreover have "card (set walletIds) \<le> length walletIds"
      by (rule card_length)
    ultimately have c1: "card (set walletIds) = length walletIds"
      and c2: "card (set walletIds \<inter> ?J) = card (set walletIds)"
      using \<open>?L\<close> len by linarith+
    from c1 have "distinct walletIds" by (rule card_distinct)
    moreover have "set walletIds \<inter> ?J = set walletIds"
      by (rule card_subset_eq) (use c2 in auto)
    ultimately show ?R by auto
  next
    assume ?R
    then have "set walletIds \<inter> ?J = set walletIds" by auto
    with len \<open>?R\<close> show ?L by (simp add: distinct_card)
  qed
qed

lemma lock_map_dom:
  "dom (fold (\<lambda>row walletMap. walletMap(wv_id row \<mapsto> row)) rows m) = dom m \<union> set (map wv_id rows)"
  by (induction rows arbitrary: m) auto

lemma find_Some_mem: "find P xs = Some x \<Longrightarrow> x \<in> set xs \<and> P x"
  by (induction xs) (auto split: if_splits)

lemma lock_map_range:
  "fold (\<lambda>row walletMap. walletMap(wv_id row \<mapsto> row)) rows Map.empty k = Some row
     \<Longrightarrow> row \<in> set rows \<and> wv_id row = k"
  by (auto simp: fold_wallet_map split: option.splits dest!: find_Some_mem)

text \<open>
  Claim C5, as the code has it. \<open>lockWalletsInOrder\<close> sorts the ids it is given and does
  not deduplicate them: the sorted list has the same length and the same elements. It
  sends one \<open>SELECT ... FOR UPDATE\<close> with the sorted ids and changes nothing else; the
  rows come back in ascending id order. It fails with \<open>NotFound\<close> exactly when the
  number of rows differs from the length of the list it was given; otherwise it returns
  a map whose keys are the ids of the rows, each key mapped to a row with that id. Where
  ids are primary keys, it succeeds exactly when the given ids are pairwise distinct and
  each names a wallet (joined with its asset type); so a list with a repeated id fails.
\<close>

theorem lockWalletsInOrder_sorts_without_deduplicating:
  "sorted (sort walletIds) \<and> length (sort walletIds) = length walletIds
     \<and> set (sort walletIds) = set walletIds
   \<and> snd (lockWalletsInOrder walletIds s) =
        log_statement (SELECT_wallets_FOR_UPDATE (sort walletIds)) s
   \<and> sorted (map wv_id (select_wallets_for_update (sort walletIds) s))
   \<and> ((\<exists>m. fst (lockWalletsInOrder walletIds s) = Inl (AppError (NotFoundError ''Wallet'' m)))
        \<longleftrightarrow> length (select_wallets_for_update (sort walletIds) s) \<noteq> length walletIds)
   \<and> (length (select_wallets_for_update (sort walletIds) s) = length walletIds \<longrightarrow>
        (\<exists>walletMap. fst (lockWalletsInOrder walletIds s) = Inr walletMap
           \<and> dom walletMap = set (map wv_id (select_wallets_for_update (sort walletIds) s))
           \<and> (\<forall>k row. walletMap k = Some row \<longrightarrow>
                 row \<in> set (select_wallets_for_update (sort walletIds) s) \<and> wv_id row = k)))
   \<and> (primary_keys s \<longrightarrow>
        ((\<exists>walletMap. fst (lockWalletsInOrder walletIds s) = Inr walletMap) \<longleftrightarrow>
           distinct walletIds
           \<and> set walletIds \<subseteq> set (map (w_id \<circ> fst) (wallets_join_asset_types s))))"
proof -
  let ?rows = "select_wallets_for_update (sort walletIds) s"
  have a: "sorted (sort walletIds) \<and> length (sort walletIds) = length walletIds
     \<and> set (sort walletIds) = set walletIds"
    by simp
  have b: "snd (lockWalletsInOrder walletIds s) =
        log_statement (SELECT_wallets_FOR_UPDATE (sort walletIds)) s"
    by (simp add: lockWalletsInOrder_eq)
  have c: "sorted (map wv_id ?rows)"
    by (rule sorted_locked_ids)
  have d: "(\<exists>m. fst (lockWalletsInOrder walletIds s) = Inl (AppError (NotFoundError ''Wallet'' m)))
        \<longleftrightarrow> length ?rows \<noteq> length walletIds"
    by (simp add: lockWalletsInOrder_eq)
  have e: "length ?rows = length walletIds \<longrightarrow>
        (\<exists>walletMap. fst (lockWalletsInOrder walletIds s) = Inr walletMap
           \<and> dom walletMap = set (map wv_id ?rows)
           \<and> (\<forall>k row. walletMap k = Some row \<longrightarrow> row \<in> set ?rows \<and> wv_id row = k))"
    using lock_map_range by (simp add: lockWalletsInOrder_eq lock_map_dom) blast
  have f: "primary_keys s \<longrightarrow>
        ((\<exists>walletMap. fst (lockWalletsInOrder walletIds s) = Inr walletMap) \<longleftrightarrow>
           distinct walletIds
           \<and> set walletIds \<subseteq> set (map (w_id \<circ> fst) (wallets_join_asset_types s)))"
    using locked_all_iff[of s walletIds] by (simp add: lockWalletsInOrder_eq)
  from a b c d e f show ?thesis by blast
qed

lemma seed_lock_alice_treasury:
  "select_wallets_for_update [treasury_gold, alice_gold] seed_db =
     [\<lparr>wv_id = treasury_gold, wv_user_id = SYSTEM_ACCOUNTS_TREASURY, wv_balance = - 3750,
       wv_allow_negative = True, wv_version = 1, wv_asset_type_id = 1,
       wv_asset_code = ''GOLD_COINS''\<rparr>,
      \<lparr>wv_id = alice_gold, wv_user_id = ''a0000000-0000-0000-0000-000000000001'',
       wv_balance = 1000, wv_allow_negative = False, wv_version = 1, wv_asset_type_id = 1,
       wv_asset_code = ''GOLD_COINS''\<rparr>]"
  by (simp add: select_wallets_for_update_def wallets_join_asset_types_def seed_db_def
        wallet_columns_def alice_gold_def treasury_gold_def SYSTEM_ACCOUNTS_TREASURY_def)

text \<open>
  On the seed data, locking Alice's and the Treasury's gold wallets, given in that
  order, sends the ids sorted (Treasury first) and returns both rows.
\<close>

theorem lockWalletsInOrder_sorts_witness:
  "primary_keys seed_db
   \<and> sort [alice_gold, treasury_gold] = [treasury_gold, alice_gold]
   \<and> map wv_id (select_wallets_for_update (sort [alice_gold, treasury_gold]) seed_db)
        = [treasury_gold, alice_gold]
   \<and> (\<exists>walletMap. fst (lockWalletsInOrder [alice_gold, treasury_gold] seed_db) = Inr walletMap
         \<and> dom walletMap = {treasury_gold, alice_gold})
   \<and> snd (lockWalletsInOrder [alice_gold, treasury_gold] seed_db) =
        log_statement (SELECT_wallets_FOR_UPDATE [treasury_gold, alice_gold]) seed_db"
proof -
  have pk: "primary_keys seed_db"
    by (simp add: primary_keys_def seed_db_def)
  have srt: "sort [alice_gold, treasury_gold] = [treasury_gold, alice_gold]"
    by (simp add: alice_gold_def treasury_gold_def)
  have len: "length (select_wallets_for_update (sort [alice_gold, treasury_gold]) seed_db)
               = length [alice_gold, treasury_gold]"
    unfolding srt by (simp add: seed_lock_alice_treasury)
  from lockWalletsInOrder_sorts_without_deduplicating [of "[alice_gold, treasury_gold]" seed_db]
    pk len
  show ?thesis
    unfolding srt by (auto simp: seed_lock_alice_treasury)
qed

text \<open>
  The claim's last sentence fails: Alice's gold wallet exists, and locking the list that
  names it twice fails with \<open>NotFound\<close> (one row comes back for a list of length two).
\<close>

theorem lockWalletsInOrder_duplicates_counterexample:
  "alice_gold \<in> set (map w_id (wallets seed_db))
   \<and> fst (lockWalletsInOrder [alice_gold, alice_gold] seed_db) =
       Inl (AppError (NotFoundError ''Wallet''
         ''One or more wallets not found in: a1000000-0000-0000-0000-000000000001, a1000000-0000-0000-0000-000000000001''))"
  by (simp add: lockWalletsInOrder_eq select_wallets_for_update_def wallets_join_asset_types_def
        seed_db_def wallet_columns_def alice_gold_def)

subsection \<open>What a successful transfer wrote\<close>

lemma executeTransfer_success:
  assumes "executeTransfer e args s = (Inr res, s')"
  shows "\<exists>walletMap sourceWallet destWallet key.
      fst (lockWalletsInOrder [tr_sourceWalletId args, tr_destWalletId args] s) = Inr walletMap
    \<and> walletMap (tr_sourceWalletId args) = Some sourceWallet
    \<and> walletMap (tr_destWalletId args) = Some destWallet
    \<and> (wv_allow_negative sourceWallet \<or> tr_amount args \<le> wv_balance sourceWallet)
    \<and> 0 < tr_amount args
    \<and> res = \<lparr>r_transactionId = env_uuidv4 e,
              r_transactionType = tr_transactionType args,
              r_sourceWallet = \<lparr>wd_id = tr_sourceWalletId args,
                wd_balanceBefore = wv_balance sourceWallet,
                wd_balanceAfter = wv_balance sourceWallet - tr_amount args\<rparr>,
              r_destWallet = \<lparr>wd_id = tr_destWalletId args,
                wd_balanceBefore = wv_balance destWallet,
                wd_balanceAfter = wv_balance destWallet + tr_amount args\<rparr>,
              r_amount = tr_amount args,
              r_description = tr_description args,
              r_timestamp = env_now e\<rparr>
    \<and> asset_types s' = asset_types s
    \<and> idempotency_store s' = idempotency_store s
    \<and> wallets s' =
         map (\<lambda>w. if w_id w = tr_destWalletId args
                   then set_balance (env_now e) (wv_balance destWallet + tr_amount args) w else w)
           (map (\<lambda>w. if w_id w = tr_sourceWalletId args
                   then set_balance (env_now e) (wv_balance sourceWallet - tr_amount args) w else w)
              (wallets s))
    \<and> transactions s' = transactions s @
         [\<lparr>t_id = env_uuidv4 e, t_idempotency_key = key,
           t_transaction_type = tr_transactionType args, t_status = COMPLETED,
           t_source_wallet_id = tr_sourceWalletId args,
           t_dest_wallet_id = tr_destWalletId args,
           t_asset_type_id = tr_assetTypeId args, t_amount = tr_amount args,
           t_description = tr_description args,
           t_metadata = tr_metadata args, t_created_at = env_now e\<rparr>]
    \<and> ledger_entries s' = ledger_entries s @
         [\<lparr>le_transaction_id = env_uuidv4 e, le_wallet_id = tr_sourceWalletId args,
           le_entry_type = DEBIT, le_amount = tr_amount args,
           le_balance_before = wv_balance sourceWallet,
           le_balance_after = wv_balance sourceWallet - tr_amount args,
           le_created_at = env_now e\<rparr>,
          \<lparr>le_transaction_id = env_uuidv4 e, le_wallet_id = tr_destWalletId args,
           le_entry_type = CREDIT, le_amount = tr_amount args,
           le_balance_before = wv_balance destWallet,
           le_balance_after = wv_balance destWallet + tr_amount args,
           le_created_at = env_now e\<rparr>]
    \<and> statements s' = statements (snd (lockWalletsInOrder [tr_sourceWalletId args, tr_destWalletId args] s)) @
         [UPDATE_wallet (tr_sourceWalletId args) (wv_balance sourceWallet - tr_amount args),
          UPDATE_wallet (tr_destWalletId args) (wv_balance destWallet + tr_amount args),
          INSERT_transaction (env_uuidv4 e),
          INSERT_ledger_entry (env_uuidv4 e) DEBIT,
          INSERT_ledger_entry (env_uuidv4 e) CREDIT]"
proof -
  let ?src = "tr_sourceWalletId args" and ?dst = "tr_destWalletId args" and ?a = "tr_amount args"
  from assms obtain walletMap s1 where
    lock: "lockWalletsInOrder [?src, ?dst] s = (Inr walletMap, s1)" and
    k1: "(case walletMap ?src of
         None \<Rightarrow> throw (TypeError ''Cannot read properties of undefined (reading allow_negative)'')
       | Some sourceWallet \<Rightarrow>
           if \<not> wv_allow_negative sourceWallet \<and> wv_balance sourceWallet < ?a
           then throw (AppError (InsufficientBalanceError ?src ?a (wv_balance sourceWallet)))
           else
             (case walletMap ?dst of
                None \<Rightarrow> throw (TypeError ''Cannot read properties of undefined (reading balance)'')
              | Some destWallet \<Rightarrow>
                   await (execute (UPDATE_wallet ?src (wv_balance sourceWallet - ?a))
                            (update_wallet (env_now e) (wv_balance sourceWallet - ?a) ?src))
                     (\<lambda>_.
                   await (execute (UPDATE_wallet ?dst (wv_balance destWallet + ?a))
                            (update_wallet (env_now e) (wv_balance destWallet + ?a) ?dst))
                     (\<lambda>_.
                   await (execute (INSERT_transaction (env_uuidv4 e))
                            (insert_transaction
                               \<lparr>t_id = env_uuidv4 e, t_idempotency_key = tr_idempotencyKey args,
                                t_transaction_type = tr_transactionType args, t_status = COMPLETED,
                                t_source_wallet_id = ?src,
                                t_dest_wallet_id = ?dst,
                                t_asset_type_id = tr_assetTypeId args, t_amount = ?a,
                                t_description = tr_description args,
                                t_metadata = tr_metadata args, t_created_at = env_now e\<rparr>))
                     (\<lambda>_.
                   await (execute (INSERT_ledger_entry (env_uuidv4 e) DEBIT)
                            (insert_ledger_entry
                               \<lparr>le_transaction_id = env_uuidv4 e, le_wallet_id = ?src,
                                le_entry_type = DEBIT, le_amount = ?a,
                                le_balance_before = wv_balance sourceWallet,
                                le_balance_after = wv_balance sourceWallet - ?a,
                                le_created_at = env_now e\<rparr>))
                     (\<lambda>_.
                   await (execute (INSERT_ledger_entry (env_uuidv4 e) CREDIT)
                            (insert_ledger_entry
                               \<lparr>le_transaction_id = env_uuidv4 e, le_wallet_id = ?dst,
                                le_entry_type = CREDIT, le_amount = ?a,
                                le_balance_before = wv_balance destWallet,
                                le_balance_after = wv_balance destWallet + ?a,
                                le_created_at = env_now e\<rparr>))
                     (\<lambda>_.
                   ret \<lparr>r_transactionId = env_uuidv4 e,
                        r_transactionType = tr_transactionType args,
                        r_sourceWallet = \<lparr>wd_id = ?src,
                          wd_balanceBefore = wv_balance sourceWallet,
                          wd_balanceAfter = wv_balance sourceWallet - ?a\<rparr>,
                        r_destWallet = \<lparr>wd_id = ?dst,
                          wd_balanceBefore = wv_balance destWallet,
                          wd_balanceAfter = wv_balance destWallet + ?a\<rparr>,
                        r_amount = ?a,
                        r_description = tr_description args,
                        r_timestamp = env_now e\<rparr>))))))) s1 = (Inr res, s')"
    unfolding executeTransfer_def Let_def await_eq_Inr_iff by blast
  have s1: "s1 = log_statement (SELECT_wallets_FOR_UPDATE (sort [?src, ?dst])) s"
    using lock by (simp only: lockWalletsInOrder_eq split: if_splits) auto
  from k1 obtain sw where sw: "walletMap ?src = Some sw"
    by (cases "walletMap ?src") auto
  from k1 sw have ok: "wv_allow_negative sw \<or> ?a \<le> wv_balance sw"
    by (auto split: if_splits)
  from k1 sw ok obtain dw where dw: "walletMap ?dst = Some dw"
    by (cases "walletMap ?dst") (auto split: if_splits)
  from k1 sw ok dw obtain s2 s3 s4 s5 s6 key where
    u1: "update_wallet (env_now e) (wv_balance sw - ?a) ?src s1 = Inr s2" and
    u2: "update_wallet (env_now e) (wv_balance dw + ?a) ?dst
           (log_statement (UPDATE_wallet ?src (wv_balance sw - ?a)) s2) = Inr s3" and
    i1: "insert_transaction \<lparr>t_id = env_uuidv4 e, t_idempotency_key = tr_idempotencyKey args,
                                t_transaction_type = tr_transactionType args, t_status = COMPLETED,
                                t_source_wallet_id = ?src,
                                t_dest_wallet_id = ?dst,
                                t_asset_type_id = tr_assetTypeId args, t_amount = ?a,
                                t_description = tr_description args,
                                t_metadata = tr_metadata args, t_created_at = env_now e\<rparr>
           (log_statement (UPDATE_wallet ?dst (wv_balance dw + ?a)) s3) = Inr s4" and
    i2: "insert_ledger_entry \<lparr>le_transaction_id = env_uuidv4 e, le_wallet_id = ?src,
                                le_entry_type = DEBIT, le_amount = ?a,
                                le_balance_before = wv_balance sw,
                                le_balance_after = wv_balance sw - ?a,
                                le_created_at = env_now e\<rparr>
           (log_statement (INSERT_transaction (env_uuidv4 e)) s4) = Inr s5" and
    i3: "insert_ledger_entry \<lparr>le_transaction_id = env_uuidv4 e, le_wallet_id = ?dst,
                                le_entry_type = CREDIT, le_amount = ?a,
                                le_balance_before = wv_balance dw,
                                le_balance_after = wv_balance dw + ?a,
                                le_created_at = env_now e\<rparr>
           (log_statement (INSERT_ledger_entry (env_uuidv4 e) DEBIT) s5) = Inr s6" and
    fin: "s' = log_statement (INSERT_ledger_entry (env_uuidv4 e) CREDIT) s6" and
    res: "res = \<lparr>r_transactionId = env_uuidv4 e,
                        r_transactionType = tr_transactionType args,
                        r_sourceWallet = \<lparr>wd_id = ?src,
                          wd_balanceBefore = wv_balance sw,
                          wd_balanceAfter = wv_balance sw - ?a\<rparr>,
                        r_destWallet = \<lparr>wd_id = ?dst,
                          wd_balanceBefore = wv_balance dw,
                          wd_balanceAfter = wv_balance dw + ?a\<rparr>,
                        r_amount = ?a,
                        r_description = tr_description args,
                        r_timestamp = env_now e\<rparr>"
    by (auto simp: await_eq_Inr_iff execute_eq_Inr_iff split: if_splits)
  from u1 have s2: "s2 = s1\<lparr>wallets := map (\<lambda>w. if w_id w = ?src
                   then set_balance (env_now e) (wv_balance sw - ?a) w else w) (wallets s1)\<rparr>"
    by (simp add: update_wallet_eq_Inr_iff)
  from u2 have s3: "s3 = (log_statement (UPDATE_wallet ?src (wv_balance sw - ?a)) s2)
      \<lparr>wallets := map (\<lambda>w. if w_id w = ?dst
                   then set_balance (env_now e) (wv_balance dw + ?a) w else w) (wallets s2)\<rparr>"
    by (simp add: update_wallet_eq_Inr_iff)
  from i1 obtain key where pos: "0 < ?a" and
    s4: "s4 = (log_statement (UPDATE_wallet ?dst (wv_balance dw + ?a)) s3)
      \<lparr>transactions := transactions s3 @ [\<lparr>t_id = env_uuidv4 e, t_idempotency_key = key,
                                t_transaction_type = tr_transactionType args, t_status = COMPLETED,
                                t_source_wallet_id = ?src,
                                t_dest_wallet_id = ?dst,
                                t_asset_type_id = tr_assetTypeId args, t_amount = ?a,
                                t_description = tr_description args,
                                t_metadata = tr_metadata args, t_created_at = env_now e\<rparr>]\<rparr>"
    by (auto simp: insert_transaction_eq_Inr_iff)
  from i2 have s5: "s5 = (log_statement (INSERT_transaction (env_uuidv4 e)) s4)
      \<lparr>ledger_entries := ledger_entries s4 @ [\<lparr>le_transaction_id = env_uuidv4 e, le_wallet_id = ?src,
                                le_entry_type = DEBIT, le_amount = ?a,
                                le_balance_before = wv_balance sw,
                                le_balance_after = wv_balance sw - ?a,
                                le_created_at = env_now e\<rparr>]\<rparr>"
    by (simp add: insert_ledger_entry_eq_Inr_iff)
  from i3 have s6: "s6 = (log_statement (INSERT_ledger_entry (env_uuidv4 e) DEBIT) s5)
      \<lparr>ledger_entries := ledger_entries s5 @ [\<lparr>le_transaction_id = env_uuidv4 e, le_wallet_id = ?dst,
                                le_entry_type = CREDIT, le_amount = ?a,
                                le_balance_before = wv_balance dw,
                                le_balance_after = wv_balance dw + ?a,
                                le_created_at = env_now e\<rparr>]\<rparr>"
    by (simp add: insert_ledger_entry_eq_Inr_iff)
  have tables:
    "asset_types s' = asset_types s" "idempotency_store s' = idempotency_store s"
    "wallets s' = map (\<lambda>w. if w_id w = ?dst
                   then set_balance (env_now e) (wv_balance dw + ?a) w else w)
           (map (\<lambda>w. if w_id w = ?src
                   then set_balance (env_now e) (wv_balance sw - ?a) w else w)
              (wallets s))"
    "transactions s' = transactions s @ [\<lparr>t_id = env_uuidv4 e, t_idempotency_key = key,
                                t_transaction_type = tr_transactionType args, t_status = COMPLETED,
                                t_source_wallet_id = ?src,
                                t_dest_wallet_id = ?dst,
                                t_asset_type_id = tr_assetTypeId args, t_amount = ?a,
                                t_description = tr_description args,
                                t_metadata = tr_metadata args, t_created_at = env_now e\<rparr>]"
    "ledger_entries s' = ledger_entries s @ [\<lparr>le_transaction_id = env_uuidv4 e, le_wallet_id = ?src,
                                le_entry_type = DEBIT, le_amount = ?a,
                                le_balance_before = wv_balance sw,
                                le_balance_after = wv_balance sw - ?a,
                                le_created_at = env_now e\<rparr>,
                                \<lparr>le_transaction_id = env_uuidv4 e, le_wallet_id = ?dst,
                                le_entry_type = CREDIT, le_amount = ?a,
                                le_balance_before = wv_balance dw,
                                le_balance_after = wv_balance dw + ?a,
                                le_created_at = env_now e\<rparr>]"
    "statements s' = statements s1 @
         [UPDATE_wallet ?src (wv_balance sw - ?a),
          UPDATE_wallet ?dst (wv_balance dw + ?a),
          INSERT_transaction (env_uuidv4 e),
          INSERT_ledger_entry (env_uuidv4 e) DEBIT,
          INSERT_ledger_entry (env_uuidv4 e) CREDIT]"
    unfolding fin s6 s5 s4 s3 s2 s1 by (simp_all add: log_statement_def)
  from lock sw dw ok pos res tables show ?thesis
    by (intro exI[of _ walletMap] exI[of _ sw] exI[of _ dw] exI[of _ key]) simp
qed

subsection \<open>Conservation\<close>

lemma find_distinct_key:
  "distinct (map f xs) \<Longrightarrow> x \<in> set xs \<Longrightarrow> find (\<lambda>y. f y = f x) xs = Some x"
  by (induction xs) (auto simp: image_iff)

lemma find_map_key:
  "(\<And>w. f (g w) = f w) \<Longrightarrow>
     find (\<lambda>w. f w = k) (map g xs) = map_option g (find (\<lambda>w. f w = k) xs)"
  by (induction xs) auto

lemma find_None_key: "k \<notin> set (map f xs) \<Longrightarrow> find (\<lambda>w. f w = k) xs = None"
  by (induction xs) auto

lemma map_update_absent:
  "k \<notin> set (map w_id ws) \<Longrightarrow> map (\<lambda>w. if w_id w = k then g w else w) ws = ws"
  by (induction ws) auto

lemma sum_filter_update:
  assumes "distinct (map w_id ws)" and "\<And>w. P (set_balance now b w) = P w"
  shows "sum_list (map w_balance (filter P
           (map (\<lambda>w. if w_id w = i then set_balance now b w else w) ws))) =
         sum_list (map w_balance (filter P ws)) +
           (case find (\<lambda>w. w_id w = i) ws of
              None \<Rightarrow> 0
            | Some w \<Rightarrow> if P w then b - w_balance w else 0)"
  using assms(1)
proof (induction ws)
  case Nil
  then show ?case by simp
next
  case (Cons x ws)
  show ?case
  proof (cases "w_id x = i")
    case True
    with Cons.prems have "i \<notin> set (map w_id ws)" by auto
    then have "map (\<lambda>w. if w_id w = i then set_balance now b w else w) ws = ws"
      by (rule map_update_absent)
    with True show ?thesis by (simp add: assms(2))
  next
    case False
    with Cons show ?thesis by simp
  qed
qed

lemma locked_row_wallet:
  assumes "row \<in> set (select_wallets_for_update ids s)"
  shows "\<exists>w \<in> set (wallets s). w_id w = wv_id row \<and> w_balance w = wv_balance row
           \<and> w_asset_type_id w = wv_asset_type_id row
           \<and> w_allow_negative w = wv_allow_negative row"
  using assms
  by (auto simp: select_wallets_for_update_def wallets_join_asset_types_def wallet_columns_def)

lemma map_id_update:
  "map w_id (map (\<lambda>w. if w_id w = k then set_balance now b w else w) ws) = map w_id ws"
  by (induction ws) auto

lemma lock_success_rows:
  assumes "fst (lockWalletsInOrder walletIds s) = Inr walletMap"
    and "walletMap k = Some row"
  shows "row \<in> set (select_wallets_for_update (sort walletIds) s) \<and> wv_id row = k"
  using assms lock_map_range
  by (auto simp: lockWalletsInOrder_eq split: if_splits)

lemma lock_success_distinct:
  assumes "fst (lockWalletsInOrder walletIds s) = Inr walletMap" and "primary_keys s"
  shows "distinct walletIds"
  using assms locked_all_iff[of s walletIds]
  by (auto simp: lockWalletsInOrder_eq split: if_splits)


lemma seed_primary_keys: "primary_keys seed_db"
  by (simp add: primary_keys_def seed_db_def)

lemma seed_sort: "sort [treasury_gold, alice_gold] = [treasury_gold, alice_gold]"
  by (simp add: alice_gold_def treasury_gold_def)

lemma seed_lock: 
  "lockWalletsInOrder [treasury_gold, alice_gold] seed_db =
     (Inr (fold (\<lambda>row walletMap. walletMap(wv_id row \<mapsto> row)) (select_wallets_for_update [treasury_gold, alice_gold] seed_db) Map.empty),
      log_statement (SELECT_wallets_FOR_UPDATE [treasury_gold, alice_gold]) seed_db)"
  unfolding lockWalletsInOrder_eq seed_sort
  by (simp add: seed_lock_alice_treasury)

lemma s1_transfer_result:
  "fst (executeTransfer seed_env s1_transfer seed_db) =
     Inr \<lparr>r_transactionId = ''f47ac10b-58cc-4372-a567-0e02b2c3d479'',
          r_transactionType = TOPUP,
          r_sourceWallet = \<lparr>wd_id = treasury_gold, wd_balanceBefore = - 3750, wd_balanceAfter = - 4250\<rparr>,
          r_destWallet = \<lparr>wd_id = alice_gold, wd_balanceBefore = 1000, wd_balanceAfter = 1500\<rparr>,
          r_amount = 500, r_description = ''buy'', r_timestamp = 1000\<rparr>"
  unfolding executeTransfer_def s1_transfer_def
  apply (simp add: await_def seed_lock seed_lock_alice_treasury)
  apply (simp add: await_def execute_def update_wallet_def insert_transaction_def insert_ledger_entry_def seed_env_def seed_db_def varchar_def log_statement_def alice_gold_def treasury_gold_def Let_def)
  done

lemma seed_balances:
  "wallet_balance seed_db treasury_gold = Some (- 3750)"
  "wallet_balance seed_db alice_gold = Some 1000"
  "wallet_asset seed_db treasury_gold = Some 1"
  "wallet_asset seed_db alice_gold = Some 1"
  by (simp_all add: wallet_balance_def wallet_asset_def seed_db_def treasury_gold_def alice_gold_def)


subsection \<open>The three operations as one flow\<close>

lemma topUp_flow:
  "topUp e userId assetCode amount idempotencyKey description metadata =
     (case invalid_input userId assetCode amount of
        Some m \<Rightarrow> throw (AppError (ValidationError m))
      | None \<Rightarrow> transfer_flow e userId assetCode SYSTEM_ACCOUNTS_TREASURY idempotencyKey
                  (topUp_args assetCode amount idempotencyKey description metadata))"
  unfolding topUp_def transfer_flow_def topUp_args_def by (simp add: invalid_input_def)

lemma issueBonus_flow:
  "issueBonus e userId assetCode amount idempotencyKey description metadata =
     (case invalid_input userId assetCode amount of
        Some m \<Rightarrow> throw (AppError (ValidationError m))
      | None \<Rightarrow> transfer_flow e userId assetCode SYSTEM_ACCOUNTS_TREASURY idempotencyKey
                  (issueBonus_args assetCode amount idempotencyKey description metadata))"
  unfolding issueBonus_def transfer_flow_def issueBonus_args_def by (simp add: invalid_input_def)

lemma purchase_flow:
  "purchase e userId assetCode amount idempotencyKey description metadata =
     (case invalid_input userId assetCode amount of
        Some m \<Rightarrow> throw (AppError (ValidationError m))
      | None \<Rightarrow> transfer_flow e userId assetCode SYSTEM_ACCOUNTS_REVENUE idempotencyKey
                  (purchase_args assetCode amount idempotencyKey description metadata))"
  unfolding purchase_def transfer_flow_def purchase_args_def by (simp add: invalid_input_def)

lemma invalid_input_None_iff:
  "invalid_input userId assetCode amount = None \<longleftrightarrow>
     userId \<noteq> [] \<and> assetCode \<noteq> [] \<and> isInteger amount \<and> 0 < amount"
  by (auto simp: invalid_input_def)

lemma isInteger_iff: "isInteger x \<longleftrightarrow> x \<in> \<int>"
  unfolding isInteger_def by (metis Ints_of_int of_int_floor)

text \<open>A cache hit: the transaction is opened, the store is asked once, and that is all.\<close>

lemma transfer_flow_replay:
  assumes "k \<noteq> []" and "select_idempotency_unexpired (env_now e) k s = row # rest"
  shows "transfer_flow e userId assetCode systemAccount (Some k) args s =
     (Inr \<lparr>payload = c_response row, idempotent = True\<rparr>,
      s\<lparr>statements := statements s @ [BEGIN, SELECT_idempotency_unexpired k, COMMIT]\<rparr>)"
  using assms
  by (simp add: transfer_flow_def withTransaction_def await_def checkIdempotencyKey_eq)

text \<open>No step inside the transaction raises a \<open>ValidationError\<close>.\<close>

lemma is_validation_error_simps [simp]:
  "is_validation_error (Inr x) = False"
  "is_validation_error (Inl (PgError c m)) = False"
  "is_validation_error (Inl (TypeError m)) = False"
  "is_validation_error (Inl (AppError (NotFoundError r i))) = False"
  "is_validation_error (Inl (AppError (InsufficientBalanceError w a b))) = False"
  "is_validation_error (Inl (AppError (ValidationError m))) = True"
  by (simp_all add: is_validation_error_def)

lemma is_validation_error_Inl:
  "is_validation_error (Inl e) = (case e of AppError (ValidationError _) \<Rightarrow> True | _ \<Rightarrow> False)"
  by (simp add: is_validation_error_def)

lemma await_not_validation:
  assumes "\<And>s. \<not> is_validation_error (fst (m s))"
    and "\<And>x s. \<not> is_validation_error (fst (k x s))"
  shows "\<not> is_validation_error (fst (await m k s))"
proof (cases "m s")
  case (Pair r s1)
  show ?thesis
  proof (cases r)
    case (Inl e)
    with Pair assms(1)[of s] show ?thesis by (simp add: await_def is_validation_error_Inl)
  next
    case (Inr x)
    with Pair assms(2)[of x s1] show ?thesis by (simp add: await_def)
  qed
qed

lemma execute_not_validation:
  assumes "\<And>s. \<not> is_validation_error (change s)"
  shows "\<not> is_validation_error (fst (execute q change s))"
  using assms[of s] by (cases "change s") (auto simp: execute_def is_validation_error_Inl)

lemma varchar_not_validation: "\<not> is_validation_error (varchar n v)"
  by (simp add: varchar_def)

lemma update_wallet_not_validation: "\<not> is_validation_error (update_wallet now b w s)"
  by (simp add: update_wallet_def)

lemma insert_transaction_not_validation: "\<not> is_validation_error (insert_transaction t s)"
  by (auto simp: insert_transaction_def varchar_def split: option.splits sum.splits if_splits)

lemma insert_ledger_entry_not_validation: "\<not> is_validation_error (insert_ledger_entry l s)"
  by (simp add: insert_ledger_entry_def)

lemma insert_idempotency_not_validation:
  "\<not> is_validation_error (insert_idempotency now k r c s)"
  by (auto simp: insert_idempotency_def varchar_def split: sum.splits if_splits)

lemma findWallet_not_validation: "\<not> is_validation_error (fst (findWallet u c s))"
  by (simp add: findWallet_eq split: list.splits)

lemma checkIdempotencyKey_not_validation:
  "\<not> is_validation_error (fst (checkIdempotencyKey now k s))"
  by (simp add: checkIdempotencyKey_eq split: option.splits)

lemma storeIdempotencyKey_not_validation:
  "\<not> is_validation_error (fst (storeIdempotencyKey now k r c s))"
  by (simp add: storeIdempotencyKey_def execute_not_validation
        insert_idempotency_not_validation split: option.splits)

lemma lockWalletsInOrder_not_validation:
  "\<not> is_validation_error (fst (lockWalletsInOrder ids s))"
  by (simp add: lockWalletsInOrder_eq)

lemma executeTransfer_not_validation:
  "\<not> is_validation_error (fst (executeTransfer e args s))"
  unfolding executeTransfer_def Let_def
  apply (rule await_not_validation)
   apply (rule lockWalletsInOrder_not_validation)
  apply (simp split: option.splits)
  apply (intro conjI impI allI await_not_validation execute_not_validation
      update_wallet_not_validation insert_transaction_not_validation
      insert_ledger_entry_not_validation)
   apply simp_all
  done

lemma withTransaction_fst:
  "fst (withTransaction fn s) = fst (fn (log_statement BEGIN s))"
  by (auto simp: withTransaction_def split: prod.splits sum.splits)

lemma transfer_flow_not_validation:
  "\<not> is_validation_error (fst (transfer_flow e userId assetCode systemAccount key args s))"
  unfolding transfer_flow_def withTransaction_fst
  apply (rule await_not_validation)
   apply (rule checkIdempotencyKey_not_validation)
  apply (simp split: option.splits)
  apply (intro conjI impI allI await_not_validation findWallet_not_validation
      executeTransfer_not_validation storeIdempotencyKey_not_validation)
   apply simp_all
  done

text \<open>Inside \<open>withTransaction\<close> the first statement is BEGIN.\<close>

lemma await_appends:
  assumes "\<And>s. \<exists>ext. statements (snd (m s)) = statements s @ ext"
    and "\<And>x s. \<exists>ext. statements (snd (k x s)) = statements s @ ext"
  shows "\<exists>ext. statements (snd (await m k s)) = statements s @ ext"
proof (cases "m s")
  case (Pair r s1)
  from assms(1)[of s] Pair obtain ext1 where e1: "statements s1 = statements s @ ext1"
    by auto
  show ?thesis
  proof (cases r)
    case (Inl e)
    with Pair e1 show ?thesis by (simp add: await_def)
  next
    case (Inr x)
    from assms(2)[of x s1] obtain ext2 where "statements (snd (k x s1)) = statements s1 @ ext2"
      by auto
    with Inr Pair e1 show ?thesis by (simp add: await_def)
  qed
qed

lemma execute_appends:
  assumes "\<And>s s'. change s = Inr s' \<Longrightarrow> statements s' = statements s"
  shows "\<exists>ext. statements (snd (execute q change s)) = statements s @ ext"
  using assms[of s] by (cases "change s") (auto simp: execute_def)

lemma update_wallet_statements:
  "update_wallet now b w s = Inr s' \<Longrightarrow> statements s' = statements s"
  by (auto simp: update_wallet_eq_Inr_iff)

lemma insert_transaction_statements:
  "insert_transaction t s = Inr s' \<Longrightarrow> statements s' = statements s"
  by (auto simp: insert_transaction_eq_Inr_iff)

lemma insert_ledger_entry_statements:
  "insert_ledger_entry l s = Inr s' \<Longrightarrow> statements s' = statements s"
  by (auto simp: insert_ledger_entry_eq_Inr_iff)

lemma insert_idempotency_statements:
  "insert_idempotency now k r c s = Inr s' \<Longrightarrow> statements s' = statements s"
  by (auto simp: insert_idempotency_def split: sum.splits if_splits)

lemma findWallet_appends: "\<exists>ext. statements (snd (findWallet u c s)) = statements s @ ext"
  by (simp add: findWallet_eq split: list.splits)

lemma checkIdempotencyKey_appends:
  "\<exists>ext. statements (snd (checkIdempotencyKey now k s)) = statements s @ ext"
  by (simp add: checkIdempotencyKey_eq split: option.splits)

lemma storeIdempotencyKey_appends:
  "\<exists>ext. statements (snd (storeIdempotencyKey now k r c s)) = statements s @ ext"
  by (simp add: storeIdempotencyKey_def execute_appends insert_idempotency_statements
        split: option.splits)

lemma lockWalletsInOrder_appends:
  "\<exists>ext. statements (snd (lockWalletsInOrder ids s)) = statements s @ ext"
  by (simp add: lockWalletsInOrder_eq)

lemma executeTransfer_appends:
  "\<exists>ext. statements (snd (executeTransfer e args s)) = statements s @ ext"
  unfolding executeTransfer_def Let_def
  apply (rule await_appends)
   apply (rule lockWalletsInOrder_appends)
  apply (simp split: option.splits)
  apply (intro conjI impI allI await_appends execute_appends)
            apply (simp_all add: update_wallet_statements insert_transaction_statements
      insert_ledger_entry_statements)
  done

lemma withTransaction_begins:
  assumes "\<And>s. \<exists>ext. statements (snd (fn s)) = statements s @ ext"
  shows "\<exists>rest. statements (snd (withTransaction fn s)) = statements s @ BEGIN # rest"
proof -
  from assms[of "log_statement BEGIN s"] obtain ext where
    "statements (snd (fn (log_statement BEGIN s))) = statements s @ BEGIN # ext"
    by auto
  then show ?thesis
    by (auto simp: withTransaction_def rollback_def split: prod.splits sum.splits)
qed

lemma transfer_flow_begins:
  "\<exists>rest. statements (snd (transfer_flow e userId assetCode systemAccount key args s))
            = statements s @ BEGIN # rest"
  unfolding transfer_flow_def
  apply (rule withTransaction_begins)
  apply (rule await_appends)
   apply (rule checkIdempotencyKey_appends)
  apply (simp split: option.splits)
  apply (intro conjI impI allI await_appends findWallet_appends executeTransfer_appends
      storeIdempotencyKey_appends)
   apply simp_all
  done

lemma s1_topUp:
  "topUp seed_env alice ''GOLD_COINS'' 500 (Some ''k1'') (Some ''buy'') [] seed_db =
     (Inr \<lparr>payload = s1_result, idempotent = False\<rparr>,
      after_s1_db\<lparr>statements :=
        [BEGIN, SELECT_idempotency_unexpired ''k1'', SELECT_wallet alice ''GOLD_COINS'',
         SELECT_wallet SYSTEM_ACCOUNTS_TREASURY ''GOLD_COINS'',
         SELECT_wallets_FOR_UPDATE [treasury_gold, alice_gold],
         UPDATE_wallet treasury_gold (- 4250), UPDATE_wallet alice_gold 1500,
         INSERT_transaction ''f47ac10b-58cc-4372-a567-0e02b2c3d479'',
         INSERT_ledger_entry ''f47ac10b-58cc-4372-a567-0e02b2c3d479'' DEBIT,
         INSERT_ledger_entry ''f47ac10b-58cc-4372-a567-0e02b2c3d479'' CREDIT,
         INSERT_idempotency ''k1'', COMMIT]\<rparr>)"
  unfolding topUp_def executeTransfer_def lockWalletsInOrder_def findWallet_def
    checkIdempotencyKey_def storeIdempotencyKey_def withTransaction_def
  by (simp add: await_def execute_def query_def ret_def throw_def rollback_def
        update_wallet_def set_balance_def insert_transaction_def insert_ledger_entry_def
        insert_idempotency_def select_idempotency_unexpired_def select_wallet_def
        select_wallets_for_update_def wallets_join_asset_types_def wallet_columns_def
        varchar_def log_statement_def isInteger_def or_string_def idempotency_ttl_def
        seed_env_def seed_db_def after_s1_db_def s1_result_def alice_def alice_gold_def
        treasury_gold_def SYSTEM_ACCOUNTS_TREASURY_def Let_def)

subsection \<open>Validation and idempotent replay\<close>

lemma flow_validate:
  assumes "op' = (\<lambda>e userId assetCode amount key description metadata.
             case invalid_input userId assetCode amount of
               Some m \<Rightarrow> throw (AppError (ValidationError m))
             | None \<Rightarrow> transfer_flow e userId assetCode (account :: uuid) key
                         (args assetCode amount key description metadata))"
  shows "(if userId = [] \<or> assetCode = [] \<or> \<not> isInteger amount \<or> amount \<le> 0
      then is_validation_error (fst (op' e userId assetCode amount key description metadata s))
           \<and> snd (op' e userId assetCode amount key description metadata s) = s
      else \<not> is_validation_error (fst (op' e userId assetCode amount key description metadata s))
           \<and> (\<exists>rest. statements (snd (op' e userId assetCode amount key description metadata s))
                 = statements s @ BEGIN # rest))"
proof (cases "invalid_input userId assetCode amount")
  case None
  then have "\<not> (userId = [] \<or> assetCode = [] \<or> \<not> isInteger amount \<or> amount \<le> 0)"
    by (auto simp: invalid_input_def split: if_splits)
  with None show ?thesis
    unfolding assms using transfer_flow_not_validation transfer_flow_begins by simp
next
  case (Some m)
  then have "userId = [] \<or> assetCode = [] \<or> \<not> isInteger amount \<or> amount \<le> 0"
    by (auto simp: invalid_input_def split: if_splits)
  with Some show ?thesis
    unfolding assms by simp
qed

text \<open>
  Claim C6. For each of \<open>topUp\<close>, \<open>issueBonus\<close> and \<open>purchase\<close>: when \<open>userId\<close> is
  empty, or \<open>assetCode\<close> is empty, or \<open>amount\<close> is not an integer or is not positive,
  the operation fails with a \<open>ValidationError\<close> and leaves the store exactly as it was,
  with no statement sent (no BEGIN). Otherwise the result is not a \<open>ValidationError\<close>
  and the first statement sent is BEGIN. \<open>isInteger\<close> holds of the integers.
\<close>

theorem operations_validate_before_transaction:
  assumes "op = topUp \<or> op = issueBonus \<or> op = purchase"
  shows "(if userId = [] \<or> assetCode = [] \<or> \<not> isInteger amount \<or> amount \<le> 0
      then is_validation_error (fst (op e userId assetCode amount key description metadata s))
           \<and> snd (op e userId assetCode amount key description metadata s) = s
      else \<not> is_validation_error (fst (op e userId assetCode amount key description metadata s))
           \<and> (\<exists>rest. statements (snd (op e userId assetCode amount key description metadata s))
                 = statements s @ BEGIN # rest))
    \<and> (isInteger amount \<longleftrightarrow> amount \<in> \<int>)"
proof -
  have t: "topUp = (\<lambda>e userId assetCode amount key description metadata.
             case invalid_input userId assetCode amount of
               Some m \<Rightarrow> throw (AppError (ValidationError m))
             | None \<Rightarrow> transfer_flow e userId assetCode SYSTEM_ACCOUNTS_TREASURY key
                         (topUp_args assetCode amount key description metadata))"
    by (intro ext) (simp add: topUp_flow)
  have b: "issueBonus = (\<lambda>e userId assetCode amount key description metadata.
             case invalid_input userId assetCode amount of
               Some m \<Rightarrow> throw (AppError (ValidationError m))
             | None \<Rightarrow> transfer_flow e userId assetCode SYSTEM_ACCOUNTS_TREASURY key
                         (issueBonus_args assetCode amount key description metadata))"
    by (intro ext) (simp add: issueBonus_flow)
  have p: "purchase = (\<lambda>e userId assetCode amount key description metadata.
             case invalid_input userId assetCode amount of
               Some m \<Rightarrow> throw (AppError (ValidationError m))
             | None \<Rightarrow> transfer_flow e userId assetCode SYSTEM_ACCOUNTS_REVENUE key
                         (purchase_args assetCode amount key description metadata))"
    by (intro ext) (simp add: purchase_flow)
  from assms consider "op = topUp" | "op = issueBonus" | "op = purchase"
    by blast
  then show ?thesis
  proof cases
    case 1
    show ?thesis
      unfolding 1
      using flow_validate[OF t, of userId assetCode amount e key description metadata s]
      by (simp add: isInteger_iff)
  next
    case 2
    show ?thesis
      unfolding 2
      using flow_validate[OF b, of userId assetCode amount e key description metadata s]
      by (simp add: isInteger_iff)
  next
    case 3
    show ?thesis
      unfolding 3
      using flow_validate[OF p, of userId assetCode amount e key description metadata s]
      by (simp add: isInteger_iff)
  qed
qed

text \<open>
  On the seed data: amount 0, amount 3/2 and an empty user id are refused with nothing
  sent to the store; scenario S1 passes validation and opens a transaction.
\<close>

theorem operations_validate_witness:
  "is_validation_error (fst (topUp seed_env alice ''GOLD_COINS'' 0 None None [] seed_db))
   \<and> snd (topUp seed_env alice ''GOLD_COINS'' 0 None None [] seed_db) = seed_db
   \<and> is_validation_error (fst (purchase seed_env alice ''GOLD_COINS'' (3 / 2) None None [] seed_db))
   \<and> snd (purchase seed_env alice ''GOLD_COINS'' (3 / 2) None None [] seed_db) = seed_db
   \<and> is_validation_error (fst (issueBonus seed_env [] ''GOLD_COINS'' 5 None None [] seed_db))
   \<and> snd (issueBonus seed_env [] ''GOLD_COINS'' 5 None None [] seed_db) = seed_db
   \<and> \<not> is_validation_error
        (fst (topUp seed_env alice ''GOLD_COINS'' 500 (Some ''k1'') (Some ''buy'') [] seed_db))
   \<and> (\<exists>rest. statements
         (snd (topUp seed_env alice ''GOLD_COINS'' 500 (Some ''k1'') (Some ''buy'') [] seed_db))
         = statements seed_db @ BEGIN # rest)"
proof -
  have frac: "\<not> isInteger (3 / 2)"
    by code_simp
  have int: "isInteger 500" "isInteger 5" "isInteger 0"
    by (simp_all add: isInteger_def)
  have ne: "alice \<noteq> []" "''GOLD_COINS'' \<noteq> []"
    by (simp_all add: alice_def)
  from operations_validate_before_transaction
         [of topUp alice "''GOLD_COINS''" 0 seed_env None None "[]" seed_db]
       operations_validate_before_transaction
         [of purchase alice "''GOLD_COINS''" "3 / 2" seed_env None None "[]" seed_db]
       operations_validate_before_transaction
         [of issueBonus "[]" "''GOLD_COINS''" 5 seed_env None None "[]" seed_db]
       operations_validate_before_transaction
         [of topUp alice "''GOLD_COINS''" 500 seed_env "Some ''k1''" "Some ''buy''" "[]" seed_db]
       frac int ne
  show ?thesis by simp
qed

text \<open>
  Claim C2. For each of \<open>topUp\<close>, \<open>issueBonus\<close> and \<open>purchase\<close>, with valid input and a
  non-empty key: when the idempotency store holds a record for the key that has not
  expired, the operation returns that record's response marked \<open>idempotent = True\<close>. The
  statements sent are BEGIN, the cache lookup and COMMIT, and nothing else: no wallet
  lookup, no lock, no write; every table is unchanged.
\<close>

theorem cached_response_is_replayed:
  assumes "op = topUp \<or> op = issueBonus \<or> op = purchase"
    and "userId \<noteq> []" and "assetCode \<noteq> []" and "isInteger amount" and "0 < amount"
    and "k \<noteq> []"
    and "filter (\<lambda>r. ik_key r = k \<and> env_now e < ik_expires_at r) (idempotency_store s)
           = cached # others"
  shows "op e userId assetCode amount (Some k) description metadata s =
     (Inr \<lparr>payload = ik_response cached, idempotent = True\<rparr>,
      s\<lparr>statements := statements s @ [BEGIN, SELECT_idempotency_unexpired k, COMMIT]\<rparr>)"
proof -
  have valid: "invalid_input userId assetCode amount = None"
    using assms(2-5) by (simp add: invalid_input_None_iff)
  have hit: "select_idempotency_unexpired (env_now e) k s =
      \<lparr>c_response = ik_response cached, c_status_code = ik_status_code cached\<rparr>
        # map (\<lambda>r. \<lparr>c_response = ik_response r, c_status_code = ik_status_code r\<rparr>) others"
    using assms(7) by (simp add: select_idempotency_unexpired_def)
  from assms(1) show ?thesis
    by (auto simp: topUp_flow issueBonus_flow purchase_flow valid
          transfer_flow_replay[OF assms(6) hit])
qed

text \<open>
  Scenario S2: after scenario S1, the same top-up with the key \<open>k1\<close> returns S1's result
  marked idempotent and changes no table.
\<close>

theorem cached_response_witness:
  "topUp (seed_env\<lparr>env_now := 2000\<rparr>) alice ''GOLD_COINS'' 500 (Some ''k1'') (Some ''buy'') []
     after_s1_db =
     (Inr \<lparr>payload = s1_result, idempotent = True\<rparr>,
      after_s1_db\<lparr>statements := [BEGIN, SELECT_idempotency_unexpired ''k1'', COMMIT]\<rparr>)"
proof -
  have hit: "filter (\<lambda>r. ik_key r = ''k1'' \<and> env_now (seed_env\<lparr>env_now := 2000\<rparr>) < ik_expires_at r)
               (idempotency_store after_s1_db)
             = \<lparr>ik_key = ''k1'', ik_response = s1_result, ik_status_code = 200,
                 ik_created_at = 1000, ik_expires_at = 86401000\<rparr> # []"
    by (simp add: after_s1_db_def)
  have int: "isInteger 500"
    by (simp add: isInteger_def)
  have ne: "alice \<noteq> []"
    by (simp add: alice_def)
  from cached_response_is_replayed
         [of topUp alice "''GOLD_COINS''" 500 "''k1''" "seed_env\<lparr>env_now := 2000\<rparr>"
            after_s1_db _ "[]" "Some ''buy''" "[]", OF _ ne _ int _ _ hit]
  show ?thesis by (simp add: after_s1_db_def)
qed

subsection \<open>What a successful operation recorded\<close>

lemma storeIdempotencyKey_success:
  assumes "storeIdempotencyKey now key r c s = (Inr u, s')"
  shows "asset_types s' = asset_types s \<and> wallets s' = wallets s
    \<and> transactions s' = transactions s \<and> ledger_entries s' = ledger_entries s"
  using assms
  by (auto simp: storeIdempotencyKey_def execute_eq_Inr_iff insert_idempotency_def
        split: option.splits if_splits sum.splits)

lemma select_wallet_rows:
  assumes "select_wallet userId assetCode s = row # rest"
  shows "row \<in> set (map wallet_columns (wallets_join_asset_types s))
    \<and> wv_user_id row = userId \<and> wv_asset_code row = assetCode"
proof -
  from assms have "row \<in> set (select_wallet userId assetCode s)" by simp
  then show ?thesis
    by (auto simp: select_wallet_def wallet_columns_def)
qed

lemma same_tables_log [simp]:
  "same_tables s (log_statement q s')  = same_tables s s'"
  "same_tables (log_statement q s) s'  = same_tables s s'"
  by (simp_all add: same_tables_def)

lemma same_tables_refl [simp]: "same_tables s s"
  by (simp add: same_tables_def)

lemma transfer_flow_success:
  assumes "transfer_flow e userId assetCode account key args s = (Inr res, s')"
  shows "(idempotent res \<and> same_tables s s')
    \<or> (\<not> idempotent res \<and>
        (\<exists>userWallet systemWallet rest1 rest2 s2 s3.
            select_wallet userId assetCode s = userWallet # rest1
          \<and> select_wallet account assetCode s = systemWallet # rest2
          \<and> same_tables s s2
          \<and> executeTransfer e (args userWallet systemWallet) s2 = (Inr (payload res), s3)
          \<and> asset_types s' = asset_types s3 \<and> wallets s' = wallets s3
          \<and> transactions s' = transactions s3 \<and> ledger_entries s' = ledger_entries s3))"
proof -
  let ?body = "await (checkIdempotencyKey (env_now e) key) (\<lambda>cached.
          case cached of
            Some c \<Rightarrow> ret \<lparr>payload = c_response c, idempotent = True\<rparr>
          | None \<Rightarrow>
              await (findWallet userId assetCode) (\<lambda>userWallet.
              await (findWallet account assetCode) (\<lambda>systemWallet.
              await (executeTransfer e (args userWallet systemWallet)) (\<lambda>result.
              await (storeIdempotencyKey (env_now e) key result 200) (\<lambda>_.
              ret \<lparr>payload = result, idempotent = False\<rparr>)))))"
  from assms obtain sb where body: "?body (log_statement BEGIN s) = (Inr res, sb)"
    and s': "s' = log_statement COMMIT sb"
    unfolding transfer_flow_def withTransaction_def
    by (auto split: prod.splits sum.splits)
  from body obtain cached s1 where
    chk: "checkIdempotencyKey (env_now e) key (log_statement BEGIN s) = (Inr cached, s1)" and
    k1: "(case cached of
            Some c \<Rightarrow> ret \<lparr>payload = c_response c, idempotent = True\<rparr>
          | None \<Rightarrow>
              await (findWallet userId assetCode) (\<lambda>userWallet.
              await (findWallet account assetCode) (\<lambda>systemWallet.
              await (executeTransfer e (args userWallet systemWallet)) (\<lambda>result.
              await (storeIdempotencyKey (env_now e) key result 200) (\<lambda>_.
              ret \<lparr>payload = result, idempotent = False\<rparr>))))) s1 = (Inr res, sb)"
    unfolding await_eq_Inr_iff by blast
  from chk have t1: "same_tables s s1"
    by (auto simp: checkIdempotencyKey_eq split: option.splits if_splits)
  show ?thesis
  proof (cases cached)
    case (Some c)
    with k1 t1 s' show ?thesis by auto
  next
    case None
    with k1 obtain userWallet systemWallet result u sa sb' sc sd where
      f1: "findWallet userId assetCode s1 = (Inr userWallet, sa)" and
      f2: "findWallet account assetCode sa = (Inr systemWallet, sb')" and
      ex: "executeTransfer e (args userWallet systemWallet) sb' = (Inr result, sc)" and
      st: "storeIdempotencyKey (env_now e) key result 200 sc = (Inr u, sd)" and
      fin: "res = \<lparr>payload = result, idempotent = False\<rparr>" "sb = sd"
      by (auto simp: await_eq_Inr_iff)
    from f1 obtain rest1 where r1: "select_wallet userId assetCode s1 = userWallet # rest1"
      and sa: "sa = log_statement (SELECT_wallet userId assetCode) s1"
      by (auto simp: findWallet_eq split: list.splits)
    from f2 obtain rest2 where r2: "select_wallet account assetCode sa = systemWallet # rest2"
      and sb': "sb' = log_statement (SELECT_wallet account assetCode) sa"
      by (auto simp: findWallet_eq split: list.splits)
    have eq1: "select_wallet userId assetCode s = userWallet # rest1"
      using r1 t1 by (simp add: select_wallet_def wallets_join_asset_types_def same_tables_def)
    have eq2: "select_wallet account assetCode s = systemWallet # rest2"
      using r2 t1 sa
      by (simp add: select_wallet_def wallets_join_asset_types_def same_tables_def)
    have t2: "same_tables s sb'"
      using t1 sa sb' by simp
    from storeIdempotencyKey_success[OF st] fin s'
    have "asset_types s' = asset_types sc \<and> wallets s' = wallets sc
          \<and> transactions s' = transactions sc \<and> ledger_entries s' = ledger_entries sc"
      by simp
    with eq1 eq2 t2 ex fin show ?thesis
      by auto
  qed
qed

lemma primary_keys_log [simp]: "primary_keys (log_statement q s) = primary_keys s"
  by (simp add: primary_keys_def)

lemma join_row_unique:
  assumes "primary_keys s"
    and "r1 \<in> set (map wallet_columns (wallets_join_asset_types s))"
    and "r2 \<in> set (map wallet_columns (wallets_join_asset_types s))"
    and "wv_id r1 = wv_id r2"
  shows "r1 = r2"
proof -
  from assms(2,3) obtain p1 p2 where
    p: "p1 \<in> set (wallets_join_asset_types s)" "r1 = wallet_columns p1"
       "p2 \<in> set (wallets_join_asset_types s)" "r2 = wallet_columns p2"
    by auto
  with assms(4) have "(w_id \<circ> fst) p1 = (w_id \<circ> fst) p2"
    by (simp add: wallet_columns_def)
  moreover have "inj_on (w_id \<circ> fst) (set (wallets_join_asset_types s))"
    using distinct_wallets_join[OF assms(1)] by (simp add: distinct_map)
  ultimately have "p1 = p2"
    using p(1,3) by (meson inj_onD)
  with p show ?thesis by simp
qed

lemma locked_rows_subset:
  "set (select_wallets_for_update ids s) \<subseteq> set (map wallet_columns (wallets_join_asset_types s))"
  by (auto simp: select_wallets_for_update_def)

lemma lock_two_wallets:
  assumes pk: "primary_keys s"
    and a: "rowA \<in> set (map wallet_columns (wallets_join_asset_types s))"
    and b: "rowB \<in> set (map wallet_columns (wallets_join_asset_types s))"
    and neq: "wv_id rowA \<noteq> wv_id rowB"
  shows "\<exists>walletMap. lockWalletsInOrder [wv_id rowA, wv_id rowB] s =
           (Inr walletMap, log_statement (SELECT_wallets_FOR_UPDATE (sort [wv_id rowA, wv_id rowB])) s)
         \<and> walletMap (wv_id rowA) = Some rowA \<and> walletMap (wv_id rowB) = Some rowB"
proof -
  let ?ids = "[wv_id rowA, wv_id rowB]"
  let ?rows = "select_wallets_for_update (sort ?ids) s"
  let ?m = "fold (\<lambda>row walletMap. walletMap(wv_id row \<mapsto> row)) ?rows Map.empty"
  have "wv_id r \<in> set (map (w_id \<circ> fst) (wallets_join_asset_types s))"
    if "r \<in> set (map wallet_columns (wallets_join_asset_types s))" for r
    using that by (force simp: wallet_columns_def image_iff)
  from this[OF a] this[OF b]
  have J: "set ?ids \<subseteq> set (map (w_id \<circ> fst) (wallets_join_asset_types s))"
    by simp
  have len: "length ?rows = length ?ids"
    using locked_all_iff[OF pk, of ?ids] J neq by simp
  then have run: "lockWalletsInOrder ?ids s =
      (Inr ?m, log_statement (SELECT_wallets_FOR_UPDATE (sort ?ids)) s)"
    by (simp add: lockWalletsInOrder_eq del: sort_key_simps)
  have dom: "dom ?m = set ?ids"
    using J by (simp only: lock_map_dom locked_ids_set set_sort) auto
  have get: "?m (wv_id r) = Some r"
    if "r \<in> set (map wallet_columns (wallets_join_asset_types s))" "wv_id r \<in> set ?ids" for r
  proof -
    from that(2) dom obtain r' where r': "?m (wv_id r) = Some r'" by blast
    from lock_map_range[OF r'] locked_rows_subset
    have "r' \<in> set (map wallet_columns (wallets_join_asset_types s))" "wv_id r' = wv_id r"
      by auto
    from join_row_unique[OF pk this(1) that(1) this(2)] r' show ?thesis by simp
  qed
  from run get[OF a] get[OF b] show ?thesis by auto
qed

lemma executeTransfer_insufficient:
  assumes pk: "primary_keys s"
    and src: "sourceWallet \<in> set (map wallet_columns (wallets_join_asset_types s))"
             "tr_sourceWalletId args = wv_id sourceWallet"
    and dst: "destWallet \<in> set (map wallet_columns (wallets_join_asset_types s))"
             "tr_destWalletId args = wv_id destWallet"
    and neq: "wv_id sourceWallet \<noteq> wv_id destWallet"
    and low: "\<not> wv_allow_negative sourceWallet" "wv_balance sourceWallet < tr_amount args"
  shows "executeTransfer e args s =
     (Inl (AppError (InsufficientBalanceError (wv_id sourceWallet) (tr_amount args)
             (wv_balance sourceWallet))),
      log_statement (SELECT_wallets_FOR_UPDATE (sort [wv_id sourceWallet, wv_id destWallet])) s)"
proof -
  from lock_two_wallets[OF pk src(1) dst(1) neq] obtain walletMap where
    run: "lockWalletsInOrder [wv_id sourceWallet, wv_id destWallet] s =
           (Inr walletMap,
            log_statement (SELECT_wallets_FOR_UPDATE (sort [wv_id sourceWallet, wv_id destWallet])) s)"
    and m: "walletMap (wv_id sourceWallet) = Some sourceWallet"
    by blast
  show ?thesis
    unfolding executeTransfer_def src(2) dst(2)
    by (simp only: await_Inr[where m = "lockWalletsInOrder [wv_id sourceWallet, wv_id destWallet]",
          OF run] m option.case low simp_thms if_True throw_apply)
qed

lemma same_tables_join:
  "same_tables s s' \<Longrightarrow> wallets_join_asset_types s' = wallets_join_asset_types s"
  by (simp add: same_tables_def wallets_join_asset_types_def)

lemma same_tables_select_wallet:
  "same_tables s s' \<Longrightarrow> select_wallet u c s' = select_wallet u c s"
  by (simp add: select_wallet_def same_tables_join)

lemma same_tables_primary_keys:
  "same_tables s s' \<Longrightarrow> primary_keys s' = primary_keys s"
  by (simp add: same_tables_def primary_keys_def)

lemma checkIdempotencyKey_log:
  "fst (checkIdempotencyKey now key (log_statement q s)) = fst (checkIdempotencyKey now key s)"
  by (simp add: checkIdempotencyKey_eq split: option.splits)

lemma checkIdempotencyKey_same_tables:
  "same_tables s (snd (checkIdempotencyKey now key s))"
  by (simp add: checkIdempotencyKey_eq split: option.splits)

lemma transfer_flow_insufficient:
  assumes pk: "primary_keys s"
    and miss: "fst (checkIdempotencyKey (env_now e) key s) = Inr None"
    and uw: "select_wallet userId assetCode s = userWallet # rest1"
    and sw: "select_wallet account assetCode s = systemWallet # rest2"
    and diff: "userId \<noteq> account"
    and dir: "(source, dest) = (userWallet, systemWallet) \<or> (source, dest) = (systemWallet, userWallet)"
    and ids: "tr_sourceWalletId (args userWallet systemWallet) = wv_id source"
             "tr_destWalletId (args userWallet systemWallet) = wv_id dest"
    and low: "\<not> wv_allow_negative source"
             "wv_balance source < tr_amount (args userWallet systemWallet)"
  shows "transfer_flow e userId assetCode account key args s =
     (Inl (AppError (InsufficientBalanceError (wv_id source)
             (tr_amount (args userWallet systemWallet)) (wv_balance source))),
      s\<lparr>statements :=
          statements (snd (checkIdempotencyKey (env_now e) key (log_statement BEGIN s)))
          @ [SELECT_wallet userId assetCode, SELECT_wallet account assetCode,
             SELECT_wallets_FOR_UPDATE (sort [wv_id source, wv_id dest]), ROLLBACK]\<rparr>)"
proof -
  define s1 where "s1 = snd (checkIdempotencyKey (env_now e) key (log_statement BEGIN s))"
  define sa where "sa = log_statement (SELECT_wallet userId assetCode) s1"
  define sb where "sb = log_statement (SELECT_wallet account assetCode) sa"
  have chk: "checkIdempotencyKey (env_now e) key (log_statement BEGIN s) = (Inr None, s1)"
    using miss checkIdempotencyKey_log[of "env_now e" key BEGIN s]
    unfolding s1_def by (metis prod.collapse)
  have t1: "same_tables s s1"
    using checkIdempotencyKey_same_tables[of "log_statement BEGIN s" "env_now e" key]
    unfolding s1_def by simp
  have t2: "same_tables s sb"
    using t1 by (simp add: sa_def sb_def)
  have f1: "findWallet userId assetCode s1 = (Inr userWallet, sa)"
    using uw same_tables_select_wallet[OF t1] by (simp add: findWallet_eq sa_def)
  have f2: "findWallet account assetCode sa = (Inr systemWallet, sb)"
    using sw same_tables_select_wallet[OF t1] by (simp add: findWallet_eq sa_def sb_def)
  have rows: "userWallet \<in> set (map wallet_columns (wallets_join_asset_types s))"
    "systemWallet \<in> set (map wallet_columns (wallets_join_asset_types s))"
    "wv_user_id userWallet = userId" "wv_user_id systemWallet = account"
    using select_wallet_rows[OF uw] select_wallet_rows[OF sw] by simp_all
  have neq: "wv_id userWallet \<noteq> wv_id systemWallet"
    using join_row_unique[OF pk rows(1,2)] rows(3,4) diff by auto
  have pkb: "primary_keys sb"
    using pk same_tables_primary_keys[OF t2] by simp
  have rows_b: "source \<in> set (map wallet_columns (wallets_join_asset_types sb))"
    "dest \<in> set (map wallet_columns (wallets_join_asset_types sb))"
    "wv_id source \<noteq> wv_id dest"
    using dir rows(1,2) neq same_tables_join[OF t2] by auto
  have ex: "executeTransfer e (args userWallet systemWallet) sb =
     (Inl (AppError (InsufficientBalanceError (wv_id source)
             (tr_amount (args userWallet systemWallet)) (wv_balance source))),
      log_statement (SELECT_wallets_FOR_UPDATE (sort [wv_id source, wv_id dest])) sb)"
    by (rule executeTransfer_insufficient[OF pkb rows_b(1) ids(1) rows_b(2) ids(2) rows_b(3) low])
  have body: "await (checkIdempotencyKey (env_now e) key) (\<lambda>cached.
          case cached of
            Some c \<Rightarrow> ret \<lparr>payload = c_response c, idempotent = True\<rparr>
          | None \<Rightarrow>
              await (findWallet userId assetCode) (\<lambda>userWallet.
              await (findWallet account assetCode) (\<lambda>systemWallet.
              await (executeTransfer e (args userWallet systemWallet)) (\<lambda>result.
              await (storeIdempotencyKey (env_now e) key result 200) (\<lambda>_.
              ret \<lparr>payload = result, idempotent = False\<rparr>))))) (log_statement BEGIN s) =
     (Inl (AppError (InsufficientBalanceError (wv_id source)
             (tr_amount (args userWallet systemWallet)) (wv_balance source))),
      log_statement (SELECT_wallets_FOR_UPDATE (sort [wv_id source, wv_id dest])) sb)"
    by (simp add: await_def chk f1 f2 ex del: sort_key_simps)
  show ?thesis
    unfolding transfer_flow_def withTransaction_def body
    by (simp add: rollback_def log_statement_def sb_def sa_def s1_def del: sort_key_simps)
qed

lemma flow_recorded:
  assumes run: "transfer_flow e userId assetCode account key args s = (Inr res, s')"
    and shape: "\<And>uw sw. tr_amount (args uw sw) = a \<and> tr_transactionType (args uw sw) = kind
        \<and> tr_sourceWalletId (args uw sw) = wv_id (if fromSystem then sw else uw)
        \<and> tr_destWalletId (args uw sw) = wv_id (if fromSystem then uw else sw)"
  shows "if idempotent res then same_tables s s'
         else transfer_recorded s s' (payload res)
                (if fromSystem then account else userId)
                (if fromSystem then userId else account) assetCode kind a"
proof (cases "idempotent res")
  case True
  with transfer_flow_success[OF run] show ?thesis by auto
next
  case False
  with transfer_flow_success[OF run] obtain userWallet systemWallet rest1 rest2 s2 s3 where
    uw: "select_wallet userId assetCode s = userWallet # rest1" and
    sw: "select_wallet account assetCode s = systemWallet # rest2" and
    t2: "same_tables s s2" and
    ex: "executeTransfer e (args userWallet systemWallet) s2 = (Inr (payload res), s3)" and
    fin: "transactions s' = transactions s3" "ledger_entries s' = ledger_entries s3"
    by auto
  let ?args = "args userWallet systemWallet"
  let ?src = "if fromSystem then systemWallet else userWallet"
  let ?dst = "if fromSystem then userWallet else systemWallet"
  from executeTransfer_success[OF ex] obtain walletMap sourceWallet destWallet k where
    lock: "fst (lockWalletsInOrder [tr_sourceWalletId ?args, tr_destWalletId ?args] s2)
             = Inr walletMap" and
    found: "walletMap (tr_sourceWalletId ?args) = Some sourceWallet"
           "walletMap (tr_destWalletId ?args) = Some destWallet" and
    res: "r_transactionId (payload res) = env_uuidv4 e"
         "r_transactionType (payload res) = tr_transactionType ?args"
         "r_amount (payload res) = tr_amount ?args"
         "wd_id (r_sourceWallet (payload res)) = tr_sourceWalletId ?args"
         "wd_id (r_destWallet (payload res)) = tr_destWalletId ?args" and
    ts: "transactions s3 = transactions s2 @
         [\<lparr>t_id = env_uuidv4 e, t_idempotency_key = k,
           t_transaction_type = tr_transactionType ?args, t_status = COMPLETED,
           t_source_wallet_id = tr_sourceWalletId ?args,
           t_dest_wallet_id = tr_destWalletId ?args,
           t_asset_type_id = tr_assetTypeId ?args, t_amount = tr_amount ?args,
           t_description = tr_description ?args,
           t_metadata = tr_metadata ?args, t_created_at = env_now e\<rparr>]" and
    ls: "ledger_entries s3 = ledger_entries s2 @
         [\<lparr>le_transaction_id = env_uuidv4 e, le_wallet_id = tr_sourceWalletId ?args,
           le_entry_type = DEBIT, le_amount = tr_amount ?args,
           le_balance_before = wv_balance sourceWallet,
           le_balance_after = wv_balance sourceWallet - tr_amount ?args,
           le_created_at = env_now e\<rparr>,
          \<lparr>le_transaction_id = env_uuidv4 e, le_wallet_id = tr_destWalletId ?args,
           le_entry_type = CREDIT, le_amount = tr_amount ?args,
           le_balance_before = wv_balance destWallet,
           le_balance_after = wv_balance destWallet + tr_amount ?args,
           le_created_at = env_now e\<rparr>]"
    by auto
  have tabs: "transactions s2 = transactions s" "ledger_entries s2 = ledger_entries s"
    using t2 by (simp_all add: same_tables_def)
  have rows: "?src \<in> set (map wallet_columns (wallets_join_asset_types s))"
    "wv_user_id ?src = (if fromSystem then account else userId)" "wv_asset_code ?src = assetCode"
    "?dst \<in> set (map wallet_columns (wallets_join_asset_types s))"
    "wv_user_id ?dst = (if fromSystem then userId else account)" "wv_asset_code ?dst = assetCode"
    using select_wallet_rows[OF uw] select_wallet_rows[OF sw] by simp_all
  have "transfer_recorded s s' (payload res)
                (if fromSystem then account else userId)
                (if fromSystem then userId else account) assetCode kind a"
    unfolding transfer_recorded_def
    apply (rule exI[of _ ?src])
    apply (rule exI[of _ ?dst])
    apply (rule exI[of _ "\<lparr>t_id = env_uuidv4 e, t_idempotency_key = k,
           t_transaction_type = tr_transactionType ?args, t_status = COMPLETED,
           t_source_wallet_id = tr_sourceWalletId ?args,
           t_dest_wallet_id = tr_destWalletId ?args,
           t_asset_type_id = tr_assetTypeId ?args, t_amount = tr_amount ?args,
           t_description = tr_description ?args,
           t_metadata = tr_metadata ?args, t_created_at = env_now e\<rparr>"])
    apply (rule exI[of _ "\<lparr>le_transaction_id = env_uuidv4 e, le_wallet_id = tr_sourceWalletId ?args,
           le_entry_type = DEBIT, le_amount = tr_amount ?args,
           le_balance_before = wv_balance sourceWallet,
           le_balance_after = wv_balance sourceWallet - tr_amount ?args,
           le_created_at = env_now e\<rparr>"])
    apply (rule exI[of _ "\<lparr>le_transaction_id = env_uuidv4 e, le_wallet_id = tr_destWalletId ?args,
           le_entry_type = CREDIT, le_amount = tr_amount ?args,
           le_balance_before = wv_balance destWallet,
           le_balance_after = wv_balance destWallet + tr_amount ?args,
           le_created_at = env_now e\<rparr>"])
    using rows fin ts ls tabs res shape[of userWallet systemWallet]
    apply simp
    done
  with False show ?thesis by simp
qed

text \<open>
  Claim C9. A successful \<open>topUp\<close>, \<open>issueBonus\<close> or \<open>purchase\<close> either returns a cached
  response marked idempotent and leaves every table as it was (no transfer runs, claim
  C2), or it has recorded exactly one transfer of the floor of \<open>amount\<close> (the amount
  itself, an integer): for \<open>topUp\<close> and \<open>issueBonus\<close> from a wallet of the Treasury
  account to a wallet of the user, for \<open>purchase\<close> from a wallet of the user to a wallet
  of the Revenue account, both wallets of the asset type with the requested code, with
  transaction types TOPUP, BONUS and PURCHASE.
\<close>

theorem operations_transfer_direction:
  "(fst (topUp e userId assetCode amount key description metadata s) = Inr res \<longrightarrow>
      (if idempotent res
       then same_tables s (snd (topUp e userId assetCode amount key description metadata s))
       else transfer_recorded s (snd (topUp e userId assetCode amount key description metadata s))
              (payload res) SYSTEM_ACCOUNTS_TREASURY userId assetCode TOPUP \<lfloor>amount\<rfloor>))
   \<and> (fst (issueBonus e userId assetCode amount key description metadata s) = Inr res \<longrightarrow>
      (if idempotent res
       then same_tables s (snd (issueBonus e userId assetCode amount key description metadata s))
       else transfer_recorded s
              (snd (issueBonus e userId assetCode amount key description metadata s))
              (payload res) SYSTEM_ACCOUNTS_TREASURY userId assetCode BONUS \<lfloor>amount\<rfloor>))
   \<and> (fst (purchase e userId assetCode amount key description metadata s) = Inr res \<longrightarrow>
      (if idempotent res
       then same_tables s (snd (purchase e userId assetCode amount key description metadata s))
       else transfer_recorded s
              (snd (purchase e userId assetCode amount key description metadata s))
              (payload res) userId SYSTEM_ACCOUNTS_REVENUE assetCode PURCHASE \<lfloor>amount\<rfloor>))"
proof (intro conjI impI)
  assume ok: "fst (topUp e userId assetCode amount key description metadata s) = Inr res"
  then have v: "invalid_input userId assetCode amount = None"
    by (cases "invalid_input userId assetCode amount") (auto simp: topUp_flow)
  let ?out = "topUp e userId assetCode amount key description metadata s"
  from ok v have run: "transfer_flow e userId assetCode SYSTEM_ACCOUNTS_TREASURY key
      (topUp_args assetCode amount key description metadata) s = (Inr res, snd ?out)"
    by (simp add: topUp_flow) (metis prod.collapse)
  from flow_recorded[OF run, of "\<lfloor>amount\<rfloor>" TOPUP True]
  show "if idempotent res then same_tables s (snd ?out)
        else transfer_recorded s (snd ?out) (payload res) SYSTEM_ACCOUNTS_TREASURY userId
               assetCode TOPUP \<lfloor>amount\<rfloor>"
    by (simp add: topUp_args_def split: if_splits)
next
  assume ok: "fst (issueBonus e userId assetCode amount key description metadata s) = Inr res"
  then have v: "invalid_input userId assetCode amount = None"
    by (cases "invalid_input userId assetCode amount") (auto simp: issueBonus_flow)
  let ?out = "issueBonus e userId assetCode amount key description metadata s"
  from ok v have run: "transfer_flow e userId assetCode SYSTEM_ACCOUNTS_TREASURY key
      (issueBonus_args assetCode amount key description metadata) s = (Inr res, snd ?out)"
    by (simp add: issueBonus_flow) (metis prod.collapse)
  from flow_recorded[OF run, of "\<lfloor>amount\<rfloor>" BONUS True]
  show "if idempotent res then same_tables s (snd ?out)
        else transfer_recorded s (snd ?out) (payload res) SYSTEM_ACCOUNTS_TREASURY userId
               assetCode BONUS \<lfloor>amount\<rfloor>"
    by (simp add: issueBonus_args_def split: if_splits)
next
  assume ok: "fst (purchase e userId assetCode amount key description metadata s) = Inr res"
  then have v: "invalid_input userId assetCode amount = None"
    by (cases "invalid_input userId assetCode amount") (auto simp: purchase_flow)
  let ?out = "purchase e userId assetCode amount key description metadata s"
  from ok v have run: "transfer_flow e userId assetCode SYSTEM_ACCOUNTS_REVENUE key
      (purchase_args assetCode amount key description metadata) s = (Inr res, snd ?out)"
    by (simp add: purchase_flow) (metis prod.collapse)
  from flow_recorded[OF run, of "\<lfloor>amount\<rfloor>" PURCHASE False]
  show "if idempotent res then same_tables s (snd ?out)
        else transfer_recorded s (snd ?out) (payload res) userId SYSTEM_ACCOUNTS_REVENUE
               assetCode PURCHASE \<lfloor>amount\<rfloor>"
    by (simp add: purchase_args_def split: if_splits)
qed

lemma show_int_10: "show_int 10 = ''10''"
  by code_simp

lemma bob_purchase:
  "fst (purchase seed_env bob ''DIAMONDS'' 10 None None [] seed_db) =
     Inr \<lparr>payload =
           \<lparr>r_transactionId = ''f47ac10b-58cc-4372-a567-0e02b2c3d479'',
            r_transactionType = PURCHASE,
            r_sourceWallet = \<lparr>wd_id = bob_diamonds, wd_balanceBefore = 25,
              wd_balanceAfter = 15\<rparr>,
            r_destWallet = \<lparr>wd_id = revenue_diamonds, wd_balanceBefore = 0,
              wd_balanceAfter = 10\<rparr>,
            r_amount = 10, r_description = ''Purchase of 10 DIAMONDS'', r_timestamp = 1000\<rparr>,
          idempotent = False\<rparr>"
  unfolding purchase_def executeTransfer_def lockWalletsInOrder_def findWallet_def
    checkIdempotencyKey_def storeIdempotencyKey_def withTransaction_def
  by (simp add: await_def execute_def query_def ret_def throw_def rollback_def
        update_wallet_def set_balance_def insert_transaction_def insert_ledger_entry_def
        insert_idempotency_def select_idempotency_unexpired_def select_wallet_def
        select_wallets_for_update_def wallets_join_asset_types_def wallet_columns_def
        varchar_def log_statement_def isInteger_def or_string_def idempotency_ttl_def
        seed_env_def seed_db_def bob_def bob_diamonds_def revenue_diamonds_def
        SYSTEM_ACCOUNTS_REVENUE_def Let_def show_int_10)

text \<open>
  Scenario S1 moves gold from the Treasury's gold wallet (the only Treasury wallet with
  code GOLD\_COINS) to Alice's; a purchase of 10 diamonds by Bob moves them from Bob's
  wallet to the Revenue wallet.
\<close>

theorem operations_transfer_direction_witness:
  "fst (topUp seed_env alice ''GOLD_COINS'' 500 (Some ''k1'') (Some ''buy'') [] seed_db)
     = Inr \<lparr>payload = s1_result, idempotent = False\<rparr>
   \<and> transfer_recorded seed_db
        (snd (topUp seed_env alice ''GOLD_COINS'' 500 (Some ''k1'') (Some ''buy'') [] seed_db))
        s1_result SYSTEM_ACCOUNTS_TREASURY alice ''GOLD_COINS'' TOPUP 500
   \<and> map t_source_wallet_id (transactions
        (snd (topUp seed_env alice ''GOLD_COINS'' 500 (Some ''k1'') (Some ''buy'') [] seed_db)))
        = [treasury_gold]
   \<and> map t_dest_wallet_id (transactions
        (snd (topUp seed_env alice ''GOLD_COINS'' 500 (Some ''k1'') (Some ''buy'') [] seed_db)))
        = [alice_gold]
   \<and> wallet_columns ` set (wallets_join_asset_types seed_db)
        \<inter> {row. wv_user_id row = SYSTEM_ACCOUNTS_TREASURY \<and> wv_asset_code row = ''GOLD_COINS''}
        = {\<lparr>wv_id = treasury_gold, wv_user_id = SYSTEM_ACCOUNTS_TREASURY, wv_balance = - 3750,
            wv_allow_negative = True, wv_version = 1, wv_asset_type_id = 1,
            wv_asset_code = ''GOLD_COINS''\<rparr>}
   \<and> (\<exists>result. fst (purchase seed_env bob ''DIAMONDS'' 10 None None [] seed_db)
          = Inr \<lparr>payload = result, idempotent = False\<rparr>
        \<and> wd_id (r_sourceWallet result) = bob_diamonds
        \<and> wd_id (r_destWallet result) = revenue_diamonds
        \<and> transfer_recorded seed_db
             (snd (purchase seed_env bob ''DIAMONDS'' 10 None None [] seed_db))
             result bob SYSTEM_ACCOUNTS_REVENUE ''DIAMONDS'' PURCHASE 10)"
proof -
  note d = operations_transfer_direction
  have fl: "\<lfloor>500 :: rat\<rfloor> = 500" "\<lfloor>10 :: rat\<rfloor> = 10" by simp_all
  have a: "transfer_recorded seed_db
        (snd (topUp seed_env alice ''GOLD_COINS'' 500 (Some ''k1'') (Some ''buy'') [] seed_db))
        s1_result SYSTEM_ACCOUNTS_TREASURY alice ''GOLD_COINS'' TOPUP 500"
    using d[of seed_env alice "''GOLD_COINS''" 500 "Some ''k1''" "Some ''buy''" "[]" seed_db
            "\<lparr>payload = s1_result, idempotent = False\<rparr>"]
    by (simp add: s1_topUp)
  have b: "transfer_recorded seed_db
             (snd (purchase seed_env bob ''DIAMONDS'' 10 None None [] seed_db))
             (payload (projr (fst (purchase seed_env bob ''DIAMONDS'' 10 None None [] seed_db))))
             bob SYSTEM_ACCOUNTS_REVENUE ''DIAMONDS'' PURCHASE 10"
    using d[of seed_env bob "''DIAMONDS''" 10 None None "[]" seed_db
            "projr (fst (purchase seed_env bob ''DIAMONDS'' 10 None None [] seed_db))"]
    by (simp add: bob_purchase)
  have c: "wallet_columns ` set (wallets_join_asset_types seed_db)
        \<inter> {row. wv_user_id row = SYSTEM_ACCOUNTS_TREASURY \<and> wv_asset_code row = ''GOLD_COINS''}
        = {\<lparr>wv_id = treasury_gold, wv_user_id = SYSTEM_ACCOUNTS_TREASURY, wv_balance = - 3750,
            wv_allow_negative = True, wv_version = 1, wv_asset_type_id = 1,
            wv_asset_code = ''GOLD_COINS''\<rparr>}"
    by (auto simp: wallets_join_asset_types_def seed_db_def wallet_columns_def
          SYSTEM_ACCOUNTS_TREASURY_def treasury_gold_def)
  from a b c show ?thesis
    by (simp add: s1_topUp bob_purchase after_s1_db_def treasury_gold_def alice_gold_def)
qed

subsection \<open>Insufficient balance\<close>

lemma join_row_balance:
  assumes "primary_keys s"
    and "row \<in> set (map wallet_columns (wallets_join_asset_types s))"
  shows "wallet_balance s (wv_id row) = Some (wv_balance row)"
proof -
  from assms(2) obtain w where w: "w \<in> set (wallets s)" "w_id w = wv_id row"
    "w_balance w = wv_balance row"
    by (auto simp: wallets_join_asset_types_def wallet_columns_def)
  from assms(1) have "distinct (map w_id (wallets s))"
    by (simp add: primary_keys_def)
  from find_distinct_key[OF this w(1)] w(2,3) show ?thesis
    by (simp add: wallet_balance_def)
qed


lemma seed_select_bob:
  "select_wallet bob ''DIAMONDS'' seed_db =
     [\<lparr>wv_id = bob_diamonds, wv_user_id = bob, wv_balance = 25, wv_allow_negative = False,
       wv_version = 1, wv_asset_type_id = 2, wv_asset_code = ''DIAMONDS''\<rparr>]"
  "select_wallet SYSTEM_ACCOUNTS_REVENUE ''DIAMONDS'' seed_db =
     [\<lparr>wv_id = revenue_diamonds, wv_user_id = SYSTEM_ACCOUNTS_REVENUE, wv_balance = 0,
       wv_allow_negative = True, wv_version = 1, wv_asset_type_id = 2,
       wv_asset_code = ''DIAMONDS''\<rparr>]"
  by (simp_all add: select_wallet_def wallets_join_asset_types_def wallet_columns_def
        seed_db_def bob_def bob_diamonds_def revenue_diamonds_def SYSTEM_ACCOUNTS_REVENUE_def)


subsection \<open>The error mapper and duplicate keys\<close>

text \<open>
  Claim C3. A unique violation raised by the store (code 23505) reaches \<open>errorHandler\<close>
  with a key on the request (\<open>req.idempotencyKey\<close>, or else the key of the body). The
  handler reads \<open>idempotency_store\<close> again with that key, without looking at the expiry
  time. A record found there is answered with status 200, the cached response as data and
  the replay note; only when no record has the key is the answer 409
  \<open>DUPLICATE_TRANSACTION\<close>. The tables are left as they were, the read is logged.
\<close>

theorem unique_violation_recovery:
  assumes "truthy (request_or_body_key req)"
  shows "errorHandler production (PgError ''23505'' m) req s =
     ((case filter (\<lambda>r. ik_key r = prepareValue (request_or_body_key req)) (idempotency_store s) of
         [] \<Rightarrow> Failure 409 (plain_error ''DUPLICATE_TRANSACTION''
                 ''This transaction has already been processed'')
       | cached # _ \<Rightarrow>
           Success 200 (ReplayData (ik_response cached))
             (Some ''Idempotent replay - original response returned'')),
      log_statement (SELECT_idempotency (prepareValue (request_or_body_key req))) s)
    \<and> (\<forall>k. req_idempotencyKey req = Some k \<and> k \<noteq> [] \<longrightarrow>
           prepareValue (request_or_body_key req) = k)"
  using assms
  by (auto simp: errorHandler_def select_idempotency_def duplicate_transaction_def
        request_or_body_key_def Let_def split: list.splits)

text \<open>
  A day after scenario S1 the cached response of \<open>k1\<close> has expired, so a retry of the
  same request misses the cache, runs the transfer again and is refused by the unique
  index on \<open>transactions.idempotency_key\<close>; the transaction is rolled back.
\<close>

lemma after_s1_expired_topUp:
  "topUp next_day_env alice ''GOLD_COINS'' 500 (Some ''k1'') (Some ''buy'') [] after_s1_db =
     (Inl (PgError ''23505''
        ''duplicate key value violates unique constraint transactions_idempotency_key_key''),
      after_s1_db\<lparr>statements :=
        [BEGIN, SELECT_idempotency_unexpired ''k1'', SELECT_wallet alice ''GOLD_COINS'',
         SELECT_wallet SYSTEM_ACCOUNTS_TREASURY ''GOLD_COINS'',
         SELECT_wallets_FOR_UPDATE [treasury_gold, alice_gold],
         UPDATE_wallet treasury_gold (- 4750), UPDATE_wallet alice_gold 2000,
         INSERT_transaction ''0e02b2c3-58cc-4372-a567-f47ac10bd479'', ROLLBACK]\<rparr>)"
  unfolding topUp_def executeTransfer_def lockWalletsInOrder_def findWallet_def
    checkIdempotencyKey_def storeIdempotencyKey_def withTransaction_def
  by (simp add: await_def execute_def query_def ret_def throw_def rollback_def
        update_wallet_def set_balance_def insert_transaction_def insert_ledger_entry_def
        insert_idempotency_def select_idempotency_unexpired_def select_wallet_def
        select_wallets_for_update_def wallets_join_asset_types_def wallet_columns_def
        varchar_def log_statement_def isInteger_def or_string_def idempotency_ttl_def
        next_day_env_def after_s1_db_def s1_result_def alice_def alice_gold_def
        treasury_gold_def SYSTEM_ACCOUNTS_TREASURY_def Let_def)

text \<open>
  The handler at that error: with the record of \<open>k1\<close> in the store the original response
  of S1 is replayed, on the seed data (no record) the answer is 409. The last part runs the
  whole endpoint on the retry a day later.
\<close>

theorem unique_violation_recovery_witness:
  "errorHandler False
     (PgError ''23505''
        ''duplicate key value violates unique constraint transactions_idempotency_key_key'')
     (s1_request\<lparr>req_idempotencyKey := Some ''k1''\<rparr>) after_s1_db =
     (Success 200 (ReplayData s1_result)
        (Some ''Idempotent replay - original response returned''),
      after_s1_db\<lparr>statements := [SELECT_idempotency ''k1'']\<rparr>)
   \<and> errorHandler False
     (PgError ''23505''
        ''duplicate key value violates unique constraint transactions_idempotency_key_key'')
     (s1_request\<lparr>req_idempotencyKey := Some ''k1''\<rparr>) seed_db =
     (Failure 409 (plain_error ''DUPLICATE_TRANSACTION''
        ''This transaction has already been processed''),
      seed_db\<lparr>statements := [SELECT_idempotency ''k1'']\<rparr>)
   \<and> fst (post_wallets_topup False next_day_env s1_request after_s1_db) =
       Success 200 (ReplayData s1_result)
         (Some ''Idempotent replay - original response returned'')"
proof -
  let ?req = "s1_request\<lparr>req_idempotencyKey := Some ''k1''\<rparr>"
  have t: "truthy (request_or_body_key ?req)"
    by (simp add: request_or_body_key_def)
  have mw: "idempotencyMiddleware s1_request = Next ?req"
    by (simp add: idempotencyMiddleware_def header_or_body_key_def s1_request_def)
  have body: "body_userId ?req = alice" "body_assetCode ?req = ''GOLD_COINS''"
    "body_amount ?req = 500" "body_description ?req = Some ''buy''" "body_metadata ?req = []"
    "req_idempotencyKey ?req = Some ''k1''"
    by (simp_all add: s1_request_def alice_def)
  from unique_violation_recovery[OF t, of False
         "''duplicate key value violates unique constraint transactions_idempotency_key_key''"
         after_s1_db]
       unique_violation_recovery[OF t, of False
         "''duplicate key value violates unique constraint transactions_idempotency_key_key''"
         seed_db]
  have "errorHandler False
     (PgError ''23505''
        ''duplicate key value violates unique constraint transactions_idempotency_key_key'')
     ?req after_s1_db =
     (Success 200 (ReplayData s1_result)
        (Some ''Idempotent replay - original response returned''),
      after_s1_db\<lparr>statements := [SELECT_idempotency ''k1'']\<rparr>)"
   and "errorHandler False
     (PgError ''23505''
        ''duplicate key value violates unique constraint transactions_idempotency_key_key'')
     ?req seed_db =
     (Failure 409 (plain_error ''DUPLICATE_TRANSACTION''
        ''This transaction has already been processed''),
      seed_db\<lparr>statements := [SELECT_idempotency ''k1'']\<rparr>)"
    by (simp_all add: request_or_body_key_def after_s1_db_def seed_db_def log_statement_def)
  moreover have "fst (post_wallets_topup False next_day_env s1_request after_s1_db) =
       Success 200 (ReplayData s1_result)
         (Some ''Idempotent replay - original response returned'')"
  proof -
    have "post_wallets_topup False next_day_env s1_request after_s1_db =
        errorHandler False
          (PgError ''23505''
             ''duplicate key value violates unique constraint transactions_idempotency_key_key'')
          ?req
          (after_s1_db\<lparr>statements :=
            [BEGIN, SELECT_idempotency_unexpired ''k1'', SELECT_wallet alice ''GOLD_COINS'',
             SELECT_wallet SYSTEM_ACCOUNTS_TREASURY ''GOLD_COINS'',
             SELECT_wallets_FOR_UPDATE [treasury_gold, alice_gold],
             UPDATE_wallet treasury_gold (- 4750), UPDATE_wallet alice_gold 2000,
             INSERT_transaction ''0e02b2c3-58cc-4372-a567-f47ac10bd479'', ROLLBACK]\<rparr>)"
      unfolding post_wallets_topup_def router_use_def mw
      by (simp add: route_topup_def respond_transfer_def body after_s1_expired_topUp)
    then show ?thesis
      by (simp add: errorHandler_def request_or_body_key_def select_idempotency_def
            after_s1_db_def s1_request_def)
  qed
  ultimately show ?thesis by simp
qed

subsection \<open>Balances: when a wallet is not found\<close>

lemma user_wallets_join:
  "user_wallets s userId =
     filter (\<lambda>wa. w_user_id (fst wa) = userId) (wallets_join_asset_types s)"
proof -
  have inner: "concat (map (\<lambda>a. if w_asset_type_id w = at_id a
                               then if w_user_id w = userId then [(w, a)] else [] else []) as) =
        filter (\<lambda>wa. w_user_id (fst wa) = userId)
          (map (Pair w) (filter (\<lambda>a. w_asset_type_id w = at_id a) as))" for w as
    by (induction as) simp_all
  have "concat (map (\<lambda>w. concat (map (\<lambda>a. if w_asset_type_id w = at_id a
                               then if w_user_id w = userId then [(w, a)] else [] else []) as)) ws) =
        filter (\<lambda>wa. w_user_id (fst wa) = userId)
          (concat (map (\<lambda>w. map (Pair w) (filter (\<lambda>a. w_asset_type_id w = at_id a) as)) ws))"
    for ws as
    by (induction ws) (simp_all add: inner)
  then show ?thesis
    by (simp add: user_wallets_def wallets_join_asset_types_def)
qed

lemma sort_key_Nil_iff [simp]: "sort_key f xs = [] \<longleftrightarrow> xs = []"
  by (metis length_sort length_0_conv)

lemma select_balances_all:
  "select_balances userId None s = sort_key (\<lambda>wa. at_code (snd wa)) (user_wallets s userId)"
  by (simp add: select_balances_def user_wallets_join)

lemma select_balances_code:
  "select_balances userId (Some c) s =
     sort_key (\<lambda>wa. at_code (snd wa))
       (filter (\<lambda>wa. at_code (snd wa) = c) (user_wallets s userId))"
  by (simp add: select_balances_def user_wallets_join)

lemma getBalance_eq:
  assumes "userId \<noteq> []"
  shows "getBalance userId assetCode s =
     (if select_balances userId (truthy_string assetCode) s = []
      then Inl (AppError (NotFoundError ''Wallet'' userId))
      else Inr (map balance_of (select_balances userId (truthy_string assetCode) s)),
      log_statement (SELECT_balances userId (truthy_string assetCode)) s)"
proof -
  have "balance_of = (\<lambda>row. \<lparr>b_walletId = w_id (fst row), b_assetCode = at_code (snd row),
                                        b_assetName = at_name (snd row),
                                        b_balance = w_balance (fst row),
                                        b_updatedAt = w_updated_at (fst row)\<rparr>)"
    by (simp add: fun_eq_iff balance_of_def)
  then show ?thesis
    using assms by (simp add: getBalance_def await_def)
qed

lemma user_wallets_mem:
  "(w, a) \<in> set (user_wallets s userId) \<longleftrightarrow>
     w \<in> set (wallets s) \<and> a \<in> set (asset_types s)
       \<and> w_asset_type_id w = at_id a \<and> w_user_id w = userId"
  by (auto simp: user_wallets_def split: if_splits)

lemma user_wallets_empty_iff:
  assumes "asset_type_fk s"
  shows "user_wallets s userId = [] \<longleftrightarrow> \<not> (\<exists>w \<in> set (wallets s). w_user_id w = userId)"
proof
  assume empty: "user_wallets s userId = []"
  show "\<not> (\<exists>w \<in> set (wallets s). w_user_id w = userId)"
  proof
    assume "\<exists>w \<in> set (wallets s). w_user_id w = userId"
    then obtain w where w: "w \<in> set (wallets s)" "w_user_id w = userId" by blast
    with assms obtain a where "a \<in> set (asset_types s)" "at_id a = w_asset_type_id w"
      unfolding asset_type_fk_def by blast
    with w have "(w, a) \<in> set (user_wallets s userId)"
      by (simp add: user_wallets_mem)
    with empty show False by simp
  qed
next
  assume none: "\<not> (\<exists>w \<in> set (wallets s). w_user_id w = userId)"
  show "user_wallets s userId = []"
  proof (rule ccontr)
    assume "user_wallets s userId \<noteq> []"
    then obtain wa where "wa \<in> set (user_wallets s userId)"
      by (cases "user_wallets s userId") auto
    then have "(fst wa, snd wa) \<in> set (user_wallets s userId)" by simp
    then have "fst wa \<in> set (wallets s) \<and> w_user_id (fst wa) = userId"
      by (simp only: user_wallets_mem)
    with none show False by blast
  qed
qed


text \<open>
  On the example store Bob holds diamonds only: asking for his gold coins fails although
  his diamonds are there, asking without an asset code lists the diamonds. A user without
  any wallet is not found, and Alice's two balances come ordered by asset code.
\<close>

lemma seed_user_wallets:
  "user_wallets seed_db bob =
     [(\<lparr>w_id = bob_diamonds, w_user_id = bob, w_asset_type_id = 2, w_balance = 25,
        w_allow_negative = False, w_version = 1, w_updated_at = 0\<rparr>,
       \<lparr>at_id = 2, at_code = ''DIAMONDS'', at_name = ''Diamonds'', at_is_active = True\<rparr>)]"
  "user_wallets seed_db ''a0000000-0000-0000-0000-000000000003'' = []"
  by (simp_all add: user_wallets_def seed_db_def bob_def bob_diamonds_def)

lemma seed_alice_balances:
  "fst (getBalance alice None seed_db) =
     Inr [\<lparr>b_walletId = ''a1000000-0000-0000-0000-000000000002'', b_assetCode = ''DIAMONDS'',
            b_assetName = ''Diamonds'', b_balance = 50, b_updatedAt = 0\<rparr>,
          \<lparr>b_walletId = alice_gold, b_assetCode = ''GOLD_COINS'',
            b_assetName = ''Gold Coins'', b_balance = 1000, b_updatedAt = 0\<rparr>]"
  by (simp add: getBalance_def await_def truthy_string_def select_balances_def
        wallets_join_asset_types_def seed_db_def alice_def alice_gold_def)


subsection \<open>Transaction history: limit, offset and order\<close>

lemma getTransactions_eq:
  assumes "userId \<noteq> []"
  shows "getTransactions userId assetCode limit offset s =
     (case select_history userId (truthy_string assetCode)
             (case limit of None \<Rightarrow> 20 | Some n \<Rightarrow> n)
             (case offset of None \<Rightarrow> 0 | Some n \<Rightarrow> n) s of
        Inl e \<Rightarrow> Inl e
      | Inr rows \<Rightarrow> Inr (map history_columns rows),
      log_statement (SELECT_history userId (truthy_string assetCode)
             (case limit of None \<Rightarrow> 20 | Some n \<Rightarrow> n)
             (case offset of None \<Rightarrow> 0 | Some n \<Rightarrow> n)) s)"
  using assms
  by (simp add: getTransactions_def await_def query_fallible_def Let_def split: sum.splits)

lemma h_createdAt_columns: "h_createdAt (history_columns row) = t_created_at (fst row)"
  by (simp add: history_columns_def split: prod.splits)

lemma newest_first_history:
  "newest_first (map history_columns (rev (sort_key (\<lambda>row. t_created_at (fst row)) rows)))"
proof -
  have "sorted (map (\<lambda>row. t_created_at (fst row))
          (sort_key (\<lambda>row. t_created_at (fst row)) rows))"
    by (rule sorted_sort_key)
  then show ?thesis
    by (simp add: newest_first_def sorted_wrt_map sorted_wrt_rev h_createdAt_columns sorted_map)
qed

lemma newest_first_page: "newest_first rows \<Longrightarrow> newest_first (take n (drop m rows))"
  by (simp add: newest_first_def sorted_wrt_take sorted_wrt_drop)

lemma route_limit_cases:
  "route_limit req =
     (case query_limit req of
        None \<Rightarrow> 20
      | Some n \<Rightarrow> if n = 0 then 20 else if 100 < n then 100 else n)"
  by (simp add: route_limit_def or_number_def split: option.splits)

lemma route_offset_cases:
  "route_offset req = (case query_offset req of None \<Rightarrow> 0 | Some n \<Rightarrow> n)"
  by (simp add: route_offset_def or_number_def split: option.splits)


text \<open>
  The example: a day after the top-up of scenario S1 Alice buys a sword for 200 gold
  coins. Her history then has two rows.
\<close>

lemma after_purchase_tables:
  "after_purchase_db =
     after_s1_db
       \<lparr>wallets :=
          [\<lparr>w_id = ''10000000-0000-0000-0000-000000000001'',
            w_user_id = ''00000000-0000-0000-0000-000000000001'', w_asset_type_id = 1,
            w_balance = - 4250, w_allow_negative = True, w_version = 2, w_updated_at = 1000\<rparr>,
           \<lparr>w_id = ''10000000-0000-0000-0000-000000000002'',
            w_user_id = ''00000000-0000-0000-0000-000000000001'', w_asset_type_id = 2,
            w_balance = - 175, w_allow_negative = True, w_version = 1, w_updated_at = 0\<rparr>,
           \<lparr>w_id = ''20000000-0000-0000-0000-000000000001'',
            w_user_id = ''00000000-0000-0000-0000-000000000002'', w_asset_type_id = 1,
            w_balance = 200, w_allow_negative = True, w_version = 2,
            w_updated_at = 90000000\<rparr>,
           \<lparr>w_id = ''20000000-0000-0000-0000-000000000002'',
            w_user_id = ''00000000-0000-0000-0000-000000000002'', w_asset_type_id = 2,
            w_balance = 0, w_allow_negative = True, w_version = 1, w_updated_at = 0\<rparr>,
           \<lparr>w_id = ''a1000000-0000-0000-0000-000000000001'',
            w_user_id = ''a0000000-0000-0000-0000-000000000001'', w_asset_type_id = 1,
            w_balance = 1300, w_allow_negative = False, w_version = 3,
            w_updated_at = 90000000\<rparr>,
           \<lparr>w_id = ''a1000000-0000-0000-0000-000000000002'',
            w_user_id = ''a0000000-0000-0000-0000-000000000001'', w_asset_type_id = 2,
            w_balance = 50, w_allow_negative = False, w_version = 1, w_updated_at = 0\<rparr>,
           \<lparr>w_id = ''b1000000-0000-0000-0000-000000000002'',
            w_user_id = ''a0000000-0000-0000-0000-000000000002'', w_asset_type_id = 2,
            w_balance = 25, w_allow_negative = False, w_version = 1, w_updated_at = 0\<rparr>],
        transactions :=
          [\<lparr>t_id = ''f47ac10b-58cc-4372-a567-0e02b2c3d479'', t_idempotency_key = Some ''k1'',
            t_transaction_type = TOPUP, t_status = COMPLETED,
            t_source_wallet_id = ''10000000-0000-0000-0000-000000000001'',
            t_dest_wallet_id = ''a1000000-0000-0000-0000-000000000001'',
            t_asset_type_id = 1, t_amount = 500, t_description = ''buy'',
            t_metadata = [(''paymentFlow'', ''topup'')], t_created_at = 1000\<rparr>,
           \<lparr>t_id = ''0e02b2c3-58cc-4372-a567-f47ac10bd479'', t_idempotency_key = None,
            t_transaction_type = PURCHASE, t_status = COMPLETED,
            t_source_wallet_id = ''a1000000-0000-0000-0000-000000000001'',
            t_dest_wallet_id = ''20000000-0000-0000-0000-000000000001'',
            t_asset_type_id = 1, t_amount = 200, t_description = ''sword'',
            t_metadata = [(''paymentFlow'', ''purchase'')], t_created_at = 90000000\<rparr>],
        ledger_entries :=
          [\<lparr>le_transaction_id = ''f47ac10b-58cc-4372-a567-0e02b2c3d479'',
            le_wallet_id = ''10000000-0000-0000-0000-000000000001'', le_entry_type = DEBIT,
            le_amount = 500, le_balance_before = - 3750, le_balance_after = - 4250,
            le_created_at = 1000\<rparr>,
           \<lparr>le_transaction_id = ''f47ac10b-58cc-4372-a567-0e02b2c3d479'',
            le_wallet_id = ''a1000000-0000-0000-0000-000000000001'', le_entry_type = CREDIT,
            le_amount = 500, le_balance_before = 1000, le_balance_after = 1500,
            le_created_at = 1000\<rparr>,
           \<lparr>le_transaction_id = ''0e02b2c3-58cc-4372-a567-f47ac10bd479'',
            le_wallet_id = ''a1000000-0000-0000-0000-000000000001'', le_entry_type = DEBIT,
            le_amount = 200, le_balance_before = 1500, le_balance_after = 1300,
            le_created_at = 90000000\<rparr>,
           \<lparr>le_transaction_id = ''0e02b2c3-58cc-4372-a567-f47ac10bd479'',
            le_wallet_id = ''20000000-0000-0000-0000-000000000001'', le_entry_type = CREDIT,
            le_amount = 200, le_balance_before = 0, le_balance_after = 200,
            le_created_at = 90000000\<rparr>],
        statements :=
          [BEGIN, SELECT_wallet ''a0000000-0000-0000-0000-000000000001'' ''GOLD_COINS'',
           SELECT_wallet ''00000000-0000-0000-0000-000000000002'' ''GOLD_COINS'',
           SELECT_wallets_FOR_UPDATE
             [''20000000-0000-0000-0000-000000000001'', ''a1000000-0000-0000-0000-000000000001''],
           UPDATE_wallet ''a1000000-0000-0000-0000-000000000001'' 1300,
           UPDATE_wallet ''20000000-0000-0000-0000-000000000001'' 200,
           INSERT_transaction ''0e02b2c3-58cc-4372-a567-f47ac10bd479'',
           INSERT_ledger_entry ''0e02b2c3-58cc-4372-a567-f47ac10bd479'' DEBIT,
           INSERT_ledger_entry ''0e02b2c3-58cc-4372-a567-f47ac10bd479'' CREDIT,
           COMMIT]\<rparr>"
  unfolding after_purchase_db_def purchase_def executeTransfer_def lockWalletsInOrder_def
    findWallet_def checkIdempotencyKey_def storeIdempotencyKey_def withTransaction_def
  by (simp add: await_def execute_def query_def ret_def throw_def rollback_def
        update_wallet_def set_balance_def insert_transaction_def insert_ledger_entry_def
        insert_idempotency_def select_idempotency_unexpired_def select_wallet_def
        select_wallets_for_update_def wallets_join_asset_types_def wallet_columns_def
        varchar_def log_statement_def isInteger_def or_string_def idempotency_ttl_def
        next_day_env_def after_s1_db_def s1_result_def
        SYSTEM_ACCOUNTS_REVENUE_def Let_def)

lemma alice_history:
  "history_join alice None after_purchase_db =
     [(\<lparr>t_id = ''f47ac10b-58cc-4372-a567-0e02b2c3d479'', t_idempotency_key = Some ''k1'',
            t_transaction_type = TOPUP, t_status = COMPLETED,
            t_source_wallet_id = ''10000000-0000-0000-0000-000000000001'',
            t_dest_wallet_id = ''a1000000-0000-0000-0000-000000000001'',
            t_asset_type_id = 1, t_amount = 500, t_description = ''buy'',
            t_metadata = [(''paymentFlow'', ''topup'')], t_created_at = 1000\<rparr>,
       \<lparr>at_id = 1, at_code = ''GOLD_COINS'', at_name = ''Gold Coins'', at_is_active = True\<rparr>,
       \<lparr>le_transaction_id = ''f47ac10b-58cc-4372-a567-0e02b2c3d479'',
            le_wallet_id = ''a1000000-0000-0000-0000-000000000001'', le_entry_type = CREDIT,
            le_amount = 500, le_balance_before = 1000, le_balance_after = 1500,
            le_created_at = 1000\<rparr>,
       \<lparr>w_id = ''a1000000-0000-0000-0000-000000000001'',
            w_user_id = ''a0000000-0000-0000-0000-000000000001'', w_asset_type_id = 1,
            w_balance = 1300, w_allow_negative = False, w_version = 3,
            w_updated_at = 90000000\<rparr>),
      (\<lparr>t_id = ''0e02b2c3-58cc-4372-a567-f47ac10bd479'', t_idempotency_key = None,
            t_transaction_type = PURCHASE, t_status = COMPLETED,
            t_source_wallet_id = ''a1000000-0000-0000-0000-000000000001'',
            t_dest_wallet_id = ''20000000-0000-0000-0000-000000000001'',
            t_asset_type_id = 1, t_amount = 200, t_description = ''sword'',
            t_metadata = [(''paymentFlow'', ''purchase'')], t_created_at = 90000000\<rparr>,
       \<lparr>at_id = 1, at_code = ''GOLD_COINS'', at_name = ''Gold Coins'', at_is_active = True\<rparr>,
       \<lparr>le_transaction_id = ''0e02b2c3-58cc-4372-a567-f47ac10bd479'',
            le_wallet_id = ''a1000000-0000-0000-0000-000000000001'', le_entry_type = DEBIT,
            le_amount = 200, le_balance_before = 1500, le_balance_after = 1300,
            le_created_at = 90000000\<rparr>,
       \<lparr>w_id = ''a1000000-0000-0000-0000-000000000001'',
            w_user_id = ''a0000000-0000-0000-0000-000000000001'', w_asset_type_id = 1,
            w_balance = 1300, w_allow_negative = False, w_version = 3,
            w_updated_at = 90000000\<rparr>)]"
  unfolding after_purchase_tables
  by (simp add: history_join_def after_s1_db_def alice_def)

lemma alice_history_sorted:
  "map history_columns (rev (sort_key (\<lambda>row. t_created_at (fst row))
     (history_join alice None after_purchase_db))) = [alice_purchase_row, alice_topup_row]"
  unfolding alice_history
  by (simp add: history_columns_def alice_purchase_row_def alice_topup_row_def)

lemma alice_pages:
  "fst (getTransactions alice None None None after_purchase_db) =
     Inr [alice_purchase_row, alice_topup_row]"
  "fst (getTransactions alice None (Some 1) (Some 1) after_purchase_db) = Inr [alice_topup_row]"
  "fst (getTransactions alice None (Some 0) None after_purchase_db) = Inr []"
proof -
  have alice: "alice \<noteq> []"
    by (simp add: alice_def)
  have page: "fst (getTransactions alice None limit offset after_purchase_db) =
      Inr (take (nat l) (drop (nat off) [alice_purchase_row, alice_topup_row]))"
    if "l = (case limit of None \<Rightarrow> 20 | Some n \<Rightarrow> n)"
      "off = (case offset of None \<Rightarrow> 0 | Some n \<Rightarrow> n)" "0 \<le> l" "0 \<le> off"
    for limit offset l off
    using that
    by (simp add: getTransactions_eq[OF alice] select_history_def truthy_string_def
          take_map drop_map flip: alice_history_sorted)
  show "fst (getTransactions alice None None None after_purchase_db) =
     Inr [alice_purchase_row, alice_topup_row]"
    using page[of 20 None 0 None] by simp
  show "fst (getTransactions alice None (Some 1) (Some 1) after_purchase_db) =
     Inr [alice_topup_row]"
    using page[of 1 "Some 1" 1 "Some 1"] by simp
  show "fst (getTransactions alice None (Some 0) None after_purchase_db) = Inr []"
    using page[of 0 "Some 0" 0 None] by simp
qed



subsection \<open>The length of the idempotency key\<close>

text \<open>
  The check of the key is in \<open>idempotencyMiddleware\<close>, which the router runs in front of
  every route.
\<close>

lemma router_use_rejects:
  assumes "truthy (header_or_body_key req)"
    and "\<forall>k. header_or_body_key req = JString k \<longrightarrow> 255 < length k"
  shows "router_use route req s =
     (Failure 400 (plain_error ''VALIDATION_ERROR''
        ''Idempotency-Key must be a string with max 255 characters''), s)"
  using assms
  by (cases "header_or_body_key req")
     (simp_all add: router_use_def idempotencyMiddleware_def Let_def)

lemma router_use_accepts:
  assumes "header_or_body_key req = JString k" and "k \<noteq> []" and "length k \<le> 255"
  shows "router_use route req s = route (req\<lparr>req_idempotencyKey := Some k\<rparr>) s"
  using assms by (simp add: router_use_def idempotencyMiddleware_def Let_def)

lemma router_use_no_key:
  assumes "\<not> truthy (header_or_body_key req)"
  shows "router_use route req s = route req s"
  using assms by (simp add: router_use_def idempotencyMiddleware_def Let_def)

lemma errorHandler_not_validation:
  assumes "\<not> is_validation_error (Inl err :: error + op_result)"
  shows "\<not> is_validation_response (fst (errorHandler production err req s))"
proof (cases err)
  case (AppError a)
  with assms show ?thesis
    by (cases a) (simp_all add: errorHandler_def is_validation_response_def is_validation_error_def)
next
  case (PgError c m)
  then show ?thesis
    by (simp add: errorHandler_def is_validation_response_def duplicate_transaction_def
          plain_error_def Let_def split: list.splits)
next
  case (TypeError m)
  then show ?thesis
    by (simp add: errorHandler_def is_validation_response_def plain_error_def)
qed

lemma respond_transfer_not_validation:
  assumes "\<not> is_validation_error (fst outcome)"
  shows "\<not> is_validation_response (fst (respond_transfer production req outcome))"
proof (cases outcome)
  case (Pair r s)
  show ?thesis
  proof (cases r)
    case (Inl err)
    with Pair assms show ?thesis
      using errorHandler_not_validation[of err production req s]
      by (simp add: respond_transfer_def)
  next
    case (Inr res)
    with Pair show ?thesis
      by (simp add: respond_transfer_def is_validation_response_def)
  qed
qed

text \<open>
  The operations themselves do not look at the key when they validate their input.
\<close>

lemma operations_ignore_key:
  assumes "op' = topUp \<or> op' = issueBonus \<or> op' = purchase"
    and "userId \<noteq> []" and "assetCode \<noteq> []" and "isInteger amount" and "0 < amount"
  shows "\<not> is_validation_error (fst (op' e userId assetCode amount key description metadata s))"
proof -
  have "invalid_input userId assetCode amount = None"
    using assms(2-5) by (simp add: invalid_input_None_iff)
  then show ?thesis
    using assms(1)
    by (auto simp: topUp_flow issueBonus_flow purchase_flow transfer_flow_not_validation)
qed

lemma endpoint_route:
  assumes "(endpoint, op') = (post_wallets_topup, topUp)
         \<or> (endpoint, op') = (post_wallets_bonus, issueBonus)
         \<or> (endpoint, op') = (post_wallets_purchase, purchase)"
  shows "endpoint production e =
     router_use (\<lambda>req. respond_transfer production req \<circ>
        op' e (body_userId req) (body_assetCode req) (body_amount req)
          (req_idempotencyKey req) (body_description req) (body_metadata req))"
  using assms
  by (auto simp: post_wallets_topup_def post_wallets_bonus_def post_wallets_purchase_def
        route_topup_def route_bonus_def route_purchase_def fun_eq_iff router_use_def
        split: handled.splits)

text \<open>
  Claim C7, as the code has it. For each of the endpoints \<open>POST /wallets/topup\<close>,
  \<open>/wallets/bonus\<close> and \<open>/wallets/purchase\<close>: a key supplied in the header or the body
  (a truthy value) that is not a string of at most 255 characters is answered with status
  400 and the code \<open>VALIDATION_ERROR\<close>, the operation is not called and the store is not
  touched. A string key of 1 to 255 characters is accepted: the operation is called with it,
  and with a valid body the answer is not a validation error. Without a key the operation
  is called with \<open>req.idempotencyKey\<close> as it is. The operations \<open>topUp\<close>, \<open>issueBonus\<close>
  and \<open>purchase\<close> called directly never fail with a \<open>ValidationError\<close> on valid
  \<open>userId\<close>, \<open>assetCode\<close> and \<open>amount\<close>, whatever the key.
\<close>

theorem idempotency_key_checked_by_middleware:
  assumes "(endpoint, op') = (post_wallets_topup, topUp)
         \<or> (endpoint, op') = (post_wallets_bonus, issueBonus)
         \<or> (endpoint, op') = (post_wallets_purchase, purchase)"
  shows "(truthy (header_or_body_key req)
           \<and> (\<forall>k. header_or_body_key req = JString k \<longrightarrow> 255 < length k) \<longrightarrow>
            endpoint production e req s =
              (Failure 400 (plain_error ''VALIDATION_ERROR''
                 ''Idempotency-Key must be a string with max 255 characters''), s))
       \<and> (\<forall>k. header_or_body_key req = JString k \<and> k \<noteq> [] \<and> length k \<le> 255 \<longrightarrow>
            endpoint production e req s =
              respond_transfer production (req\<lparr>req_idempotencyKey := Some k\<rparr>)
                (op' e (body_userId req) (body_assetCode req) (body_amount req) (Some k)
                   (body_description req) (body_metadata req) s)
            \<and> (body_userId req \<noteq> [] \<and> body_assetCode req \<noteq> []
                 \<and> isInteger (body_amount req) \<and> 0 < body_amount req \<longrightarrow>
                \<not> is_validation_response (fst (endpoint production e req s))))
       \<and> (\<not> truthy (header_or_body_key req) \<longrightarrow>
            endpoint production e req s =
              respond_transfer production req
                (op' e (body_userId req) (body_assetCode req) (body_amount req)
                   (req_idempotencyKey req) (body_description req) (body_metadata req) s))
       \<and> (body_userId req \<noteq> [] \<and> body_assetCode req \<noteq> []
            \<and> isInteger (body_amount req) \<and> 0 < body_amount req \<longrightarrow>
            \<not> is_validation_error
                (fst (op' e (body_userId req) (body_assetCode req) (body_amount req) key
                        (body_description req) (body_metadata req) s)))"
proof -
  have ops: "op' = topUp \<or> op' = issueBonus \<or> op' = purchase"
    using assms by auto
  note route = endpoint_route[OF assms, of production e]
  show ?thesis
  proof (intro conjI impI allI)
    assume "truthy (header_or_body_key req)
        \<and> (\<forall>k. header_or_body_key req = JString k \<longrightarrow> 255 < length k)"
    then show "endpoint production e req s =
        (Failure 400 (plain_error ''VALIDATION_ERROR''
           ''Idempotency-Key must be a string with max 255 characters''), s)"
      unfolding route by (simp add: router_use_rejects)
  next
    fix k
    assume k: "header_or_body_key req = JString k \<and> k \<noteq> [] \<and> length k \<le> 255"
    then show eq: "endpoint production e req s =
        respond_transfer production (req\<lparr>req_idempotencyKey := Some k\<rparr>)
          (op' e (body_userId req) (body_assetCode req) (body_amount req) (Some k)
             (body_description req) (body_metadata req) s)"
      unfolding route by (simp add: router_use_accepts)
    assume "body_userId req \<noteq> [] \<and> body_assetCode req \<noteq> []
        \<and> isInteger (body_amount req) \<and> 0 < body_amount req"
    then have "\<not> is_validation_error
        (fst (op' e (body_userId req) (body_assetCode req) (body_amount req) (Some k)
                (body_description req) (body_metadata req) s))"
      using ops by (simp add: operations_ignore_key)
    then show "\<not> is_validation_response (fst (endpoint production e req s))"
      unfolding eq by (rule respond_transfer_not_validation)
  next
    assume "\<not> truthy (header_or_body_key req)"
    then show "endpoint production e req s =
        respond_transfer production req
          (op' e (body_userId req) (body_assetCode req) (body_amount req)
             (req_idempotencyKey req) (body_description req) (body_metadata req) s)"
      unfolding route by (simp add: router_use_no_key)
  next
    assume "body_userId req \<noteq> [] \<and> body_assetCode req \<noteq> []
        \<and> isInteger (body_amount req) \<and> 0 < body_amount req"
    then show "\<not> is_validation_error
        (fst (op' e (body_userId req) (body_assetCode req) (body_amount req) key
                (body_description req) (body_metadata req) s))"
      using ops by (simp add: operations_ignore_key)
  qed
qed

lemma respond_transfer_Inr:
  assumes "fst outcome = Inr result"
  shows "fst (respond_transfer production req outcome) =
     Success (if idempotent result then 200 else 201) (TransferData result)
       (if idempotent result then Some ''Idempotent replay - original response returned''
        else None)"
  using assms by (cases outcome) (simp add: respond_transfer_def)

lemma key_lengths [simp]:
  "length key_255 = 255" "length key_256 = 256" "key_255 \<noteq> []" "key_256 \<noteq> []"
  by (auto simp: key_255_def key_256_def)

lemma show_nat_255: "show_nat 255 = ''255''"
  by code_simp

lemma varchar_keys:
  "varchar 255 key_255 = Inr key_255"
  "varchar 255 key_256 =
     Inl (PgError ''22001'' ''value too long for type character varying(255)'')"
  by (simp_all add: varchar_def show_nat_255) (simp add: key_256_def)

lemma key_255_topUp:
  "fst (topUp seed_env alice ''GOLD_COINS'' 500 (Some key_255) (Some ''buy'') [] seed_db) =
     Inr \<lparr>payload = s1_result, idempotent = False\<rparr>"
  unfolding topUp_def executeTransfer_def lockWalletsInOrder_def findWallet_def
    checkIdempotencyKey_def storeIdempotencyKey_def withTransaction_def
  by (simp add: await_def execute_def query_def ret_def throw_def rollback_def
        update_wallet_def set_balance_def insert_transaction_def insert_ledger_entry_def
        insert_idempotency_def select_idempotency_unexpired_def select_wallet_def
        select_wallets_for_update_def wallets_join_asset_types_def wallet_columns_def
        varchar_keys log_statement_def isInteger_def or_string_def idempotency_ttl_def
        seed_env_def seed_db_def s1_result_def alice_def alice_gold_def
        treasury_gold_def SYSTEM_ACCOUNTS_TREASURY_def Let_def)

text \<open>
  At the endpoint a key of 255 characters goes through and the top-up of scenario S1 is
  answered with 201; a key of 256 characters, or the number 7 as the key in the body, is
  answered with 400.
\<close>

theorem idempotency_key_witness:
  "length key_255 = 255 \<and> length key_256 = 256
   \<and> fst (post_wallets_topup False seed_env
            (s1_request\<lparr>headers_idempotency_key := Some key_255\<rparr>) seed_db) =
       Success 201 (TransferData \<lparr>payload = s1_result, idempotent = False\<rparr>) None
   \<and> post_wallets_topup False seed_env
        (s1_request\<lparr>headers_idempotency_key := Some key_256\<rparr>) seed_db =
       (Failure 400 (plain_error ''VALIDATION_ERROR''
          ''Idempotency-Key must be a string with max 255 characters''), seed_db)
   \<and> post_wallets_topup False seed_env
        (s1_request\<lparr>headers_idempotency_key := None, body_idempotencyKey := JNumber 7\<rparr>)
        seed_db =
       (Failure 400 (plain_error ''VALIDATION_ERROR''
          ''Idempotency-Key must be a string with max 255 characters''), seed_db)"
proof -
  have ep: "(post_wallets_topup, topUp) = (post_wallets_topup, topUp)
         \<or> (post_wallets_topup, topUp) = (post_wallets_bonus, issueBonus)
         \<or> (post_wallets_topup, topUp) = (post_wallets_purchase, purchase)"
    by simp
  note inst = idempotency_key_checked_by_middleware[OF ep, of _ False seed_env seed_db None]
  have "fst (post_wallets_topup False seed_env
            (s1_request\<lparr>headers_idempotency_key := Some key_255\<rparr>) seed_db) =
       Success 201 (TransferData \<lparr>payload = s1_result, idempotent = False\<rparr>) None"
    using inst[of "s1_request\<lparr>headers_idempotency_key := Some key_255\<rparr>"]
      respond_transfer_Inr[OF key_255_topUp]
    by (simp add: header_or_body_key_def s1_request_def alice_def)
  moreover have "post_wallets_topup False seed_env
        (s1_request\<lparr>headers_idempotency_key := Some key_256\<rparr>) seed_db =
       (Failure 400 (plain_error ''VALIDATION_ERROR''
          ''Idempotency-Key must be a string with max 255 characters''), seed_db)"
    using inst[of "s1_request\<lparr>headers_idempotency_key := Some key_256\<rparr>"]
    by (simp add: header_or_body_key_def s1_request_def)
  moreover have "post_wallets_topup False seed_env
        (s1_request\<lparr>headers_idempotency_key := None, body_idempotencyKey := JNumber 7\<rparr>)
        seed_db =
       (Failure 400 (plain_error ''VALIDATION_ERROR''
          ''Idempotency-Key must be a string with max 255 characters''), seed_db)"
    using inst[of "s1_request\<lparr>headers_idempotency_key := None,
                     body_idempotencyKey := JNumber 7\<rparr>"]
    by (simp add: header_or_body_key_def s1_request_def)
  ultimately show ?thesis by simp
qed

text \<open>
  \<open>topUp\<close> called directly with a key of 256 characters does not fail with a
  \<open>ValidationError\<close>: it opens the transaction, locks and updates the wallets, and fails
  when the store refuses the key for the column \<open>transactions.idempotency_key\<close>.
\<close>

theorem service_key_256_counterexample:
  "length key_256 = 256
   \<and> fst (topUp seed_env alice ''GOLD_COINS'' 500 (Some key_256) (Some ''buy'') [] seed_db) =
       Inl (PgError ''22001'' ''value too long for type character varying(255)'')
   \<and> \<not> is_validation_error
         (fst (topUp seed_env alice ''GOLD_COINS'' 500 (Some key_256) (Some ''buy'') []
                 seed_db))"
proof -
  have "fst (topUp seed_env alice ''GOLD_COINS'' 500 (Some key_256) (Some ''buy'') [] seed_db) =
       Inl (PgError ''22001'' ''value too long for type character varying(255)'')"
    unfolding topUp_def executeTransfer_def lockWalletsInOrder_def findWallet_def
      checkIdempotencyKey_def storeIdempotencyKey_def withTransaction_def
    by (simp add: await_def execute_def query_def ret_def throw_def rollback_def
          update_wallet_def set_balance_def insert_transaction_def insert_ledger_entry_def
          insert_idempotency_def select_idempotency_unexpired_def select_wallet_def
          select_wallets_for_update_def wallets_join_asset_types_def wallet_columns_def
          varchar_keys log_statement_def isInteger_def or_string_def idempotency_ttl_def
          seed_env_def seed_db_def alice_def alice_gold_def
          treasury_gold_def SYSTEM_ACCOUNTS_TREASURY_def Let_def)
  then show ?thesis
    by (simp add: is_validation_error_def)
qed

end
